theory Spec2Isabelle
  imports Complex_Main
begin

section \<open>Numbers and utilities\<close>

text \<open>
  Every JavaScript number of \<^verbatim>\<open>game.js\<close> that holds a coordinate, a time or a
  hit-point value is modelled as a real; counters that only ever hold integers
  (kill count, score, level, weapon count) are integers. Rounding of doubles is
  modelled where a statement depends on it, in the countdown of the grace window
  after a hit (\<open>Player_update64\<close>), and nowhere else.
\<close>

definition Utils_distance :: "real \<Rightarrow> real \<Rightarrow> real \<Rightarrow> real \<Rightarrow> real" where
  "Utils_distance x1 y1 x2 y2 = sqrt ((x2 - x1)\<^sup>2 + (y2 - y1)\<^sup>2)"

definition circleCollision :: "real \<Rightarrow> real \<Rightarrow> real \<Rightarrow> real \<Rightarrow> real \<Rightarrow> real \<Rightarrow> bool" where
  "circleCollision x1 y1 r1 x2 y2 r2 \<longleftrightarrow> Utils_distance x1 y1 x2 y2 < r1 + r2"

text \<open>\<^verbatim>\<open>Math.atan2(y, x)\<close>, without the signed zeros of doubles.\<close>

definition atan2 :: "real \<Rightarrow> real \<Rightarrow> real" where
  "atan2 y x =
     (if 0 < x then arctan (y / x)
      else if x < 0 then (if 0 \<le> y then arctan (y / x) + pi else arctan (y / x) - pi)
      else if 0 < y then pi / 2
      else if y < 0 then - (pi / 2)
      else 0)"

subsection \<open>Binary64\<close>

text \<open>
  Where a statement depends on the rounding of a subtraction, the subtraction is
  modelled in binary64: \<open>fl64 x\<close> is the double nearest to \<open>x\<close>, a tie going
  to the even significand, and \<open>dsub a b\<close> is \<^verbatim>\<open>a - b\<close> for two doubles.
  \<open>roundUnit\<close> rounds to a multiple of \<open>2\<^sup>-\<^sup>5\<^sup>3\<close>, the spacing of the doubles
  between one half and one. A number of smaller magnitude is doubled until it is
  there, at most 1021 times, which is the range of the normal exponents (below
  it the spacing stays \<open>2\<^sup>-\<^sup>1\<^sup>0\<^sup>7\<^sup>4\<close>); a number of larger magnitude is halved.
  Numbers from \<open>2\<^sup>1\<^sup>0\<^sup>2\<^sup>4\<close> on, which JavaScript rounds to \<^verbatim>\<open>Infinity\<close>, are outside
  the model.
\<close>

definition roundEven :: "real \<Rightarrow> int" where
  "roundEven x =
     (let f = \<lfloor>x\<rfloor>; r = x - of_int f
      in if r < 1 / 2 then f else if r > 1 / 2 then f + 1 else if even f then f else f + 1)"

definition roundUnit :: "real \<Rightarrow> real" where
  "roundUnit x = of_int (roundEven (x * 2 ^ 53)) / 2 ^ 53"

fun roundBelow :: "nat \<Rightarrow> real \<Rightarrow> real" where
  "roundBelow 0 x = roundUnit x"
| "roundBelow (Suc n) x = (if 1 / 2 \<le> \<bar>x\<bar> then roundUnit x else roundBelow n (2 * x) / 2)"

fun roundAbove :: "nat \<Rightarrow> real \<Rightarrow> real" where
  "roundAbove 0 x = roundUnit x"
| "roundAbove (Suc n) x = (if \<bar>x\<bar> < 1 then roundUnit x else 2 * roundAbove n (x / 2))"

definition fl64 :: "real \<Rightarrow> real" where
  "fl64 x = (if \<bar>x\<bar> < 1 then roundBelow 1021 x else roundAbove 1024 x)"

definition dsub :: "real \<Rightarrow> real \<Rightarrow> real" where
  "dsub a b = fl64 (a - b)"

section \<open>Player\<close>

record player =
  p_x :: real
  p_y :: real
  p_radius :: real
  p_hp :: real
  p_maxHp :: real
  p_speed :: real
  p_level :: int
  p_exp :: real
  p_expToLevel :: real
  p_weaponCount :: nat
  p_weaponDamage :: real
  p_weaponRadius :: real
  p_rotateSpeed :: real
  p_currentAngle :: real
  p_defenseRate :: real
  p_vx :: real
  p_vy :: real
  p_targetX :: "real option"
  p_targetY :: "real option"
  p_autoCollectBuff :: real
  p_speedBuff :: real
  p_invincible :: real
  p_weaponType :: int

text \<open>The constructor \<^verbatim>\<open>new Player(x, y)\<close>.\<close>

definition Player_new :: "real \<Rightarrow> real \<Rightarrow> player" where
  "Player_new x y =
     \<lparr>p_x = x, p_y = y, p_radius = 20, p_hp = 100, p_maxHp = 100, p_speed = 100,
      p_level = 1, p_exp = 0, p_expToLevel = 100, p_weaponCount = 2,
      p_weaponDamage = 10, p_weaponRadius = 80, p_rotateSpeed = 120,
      p_currentAngle = 0, p_defenseRate = 0, p_vx = 0, p_vy = 0,
      p_targetX = None, p_targetY = None, p_autoCollectBuff = 0, p_speedBuff = 1,
      p_invincible = 0, p_weaponType = 0\<rparr>"

text \<open>
  \<^verbatim>\<open>Player.update\<close> is split into the blocks of its body, in source order: the
  keyboard direction, the pointer seek, the normalisation, the integration, the
  circular boundary, the weapon rotation and the two countdowns. The held keys
  are the set of key names whose entry in \<^verbatim>\<open>keys\<close> is truthy.
\<close>

definition Player_keyboard :: "string set \<Rightarrow> player \<Rightarrow> player" where
  "Player_keyboard keys p =
     (let vy1 = (if ''w'' \<in> keys \<or> ''arrowup'' \<in> keys then - 1 else 0);
          vy2 = (if ''s'' \<in> keys \<or> ''arrowdown'' \<in> keys then 1 else vy1);
          vx1 = (if ''a'' \<in> keys \<or> ''arrowleft'' \<in> keys then - 1 else 0);
          vx2 = (if ''d'' \<in> keys \<or> ''arrowright'' \<in> keys then 1 else vx1)
      in p\<lparr>p_vx := vx2, p_vy := vy2\<rparr>)"

definition Player_pointer :: "player \<Rightarrow> player" where
  "Player_pointer p =
     (case (p_targetX p, p_targetY p) of
        (Some tx, Some ty) \<Rightarrow>
          (let dx = tx - p_x p; dy = ty - p_y p; dist = sqrt (dx * dx + dy * dy)
           in if dist > 5 then p\<lparr>p_vx := dx / dist, p_vy := dy / dist\<rparr>
              else p\<lparr>p_targetX := None, p_targetY := None\<rparr>)
      | _ \<Rightarrow> p)"

definition Player_normalize :: "player \<Rightarrow> player" where
  "Player_normalize p =
     (let mag = sqrt (p_vx p * p_vx p + p_vy p * p_vy p)
      in if mag > 0 then p\<lparr>p_vx := p_vx p / mag, p_vy := p_vy p / mag\<rparr> else p)"

definition Player_integrate :: "real \<Rightarrow> player \<Rightarrow> player" where
  "Player_integrate deltaTime p =
     (let effectiveSpeed = p_speed p * p_speedBuff p
      in p\<lparr>p_x := p_x p + p_vx p * effectiveSpeed * deltaTime,
           p_y := p_y p + p_vy p * effectiveSpeed * deltaTime\<rparr>)"

definition Player_boundary :: "real \<Rightarrow> player \<Rightarrow> player" where
  "Player_boundary arenaRadius p =
     (let distFromCenter = sqrt (p_x p * p_x p + p_y p * p_y p)
      in if distFromCenter + p_radius p > arenaRadius
         then (let angle = atan2 (p_y p) (p_x p); maxDist = arenaRadius - p_radius p
               in p\<lparr>p_x := cos angle * maxDist, p_y := sin angle * maxDist\<rparr>)
         else p)"

definition Player_rotate :: "real \<Rightarrow> player \<Rightarrow> player" where
  "Player_rotate deltaTime p =
     (let a = p_currentAngle p + p_rotateSpeed p * deltaTime
      in p\<lparr>p_currentAngle := (if a \<ge> 360 then a - 360 else a)\<rparr>)"

definition Player_buffs :: "real \<Rightarrow> player \<Rightarrow> player" where
  "Player_buffs deltaTime p =
     (let p1 = (if p_autoCollectBuff p > 0
                then p\<lparr>p_autoCollectBuff := p_autoCollectBuff p - deltaTime\<rparr> else p)
      in if p_invincible p1 > 0
         then p1\<lparr>p_invincible := p_invincible p1 - deltaTime\<rparr> else p1)"

definition Player_update :: "real \<Rightarrow> string set \<Rightarrow> real \<Rightarrow> player \<Rightarrow> player" where
  "Player_update deltaTime keys arenaRadius p =
     Player_buffs deltaTime
       (Player_rotate deltaTime
         (Player_boundary arenaRadius
           (Player_integrate deltaTime
             (Player_normalize (Player_pointer (Player_keyboard keys p))))))"

text \<open>
  The last block of \<^verbatim>\<open>Player.update\<close> with its two subtractions in binary64,
  and \<^verbatim>\<open>Player.update\<close> with that block. The blocks before it do not touch
  the countdowns.
\<close>

definition Player_buffs64 :: "real \<Rightarrow> player \<Rightarrow> player" where
  "Player_buffs64 deltaTime p =
     (let p1 = (if p_autoCollectBuff p > 0
                then p\<lparr>p_autoCollectBuff := dsub (p_autoCollectBuff p) deltaTime\<rparr> else p)
      in if p_invincible p1 > 0
         then p1\<lparr>p_invincible := dsub (p_invincible p1) deltaTime\<rparr> else p1)"


definition Player_takeDamage :: "real \<Rightarrow> player \<Rightarrow> player" where
  "Player_takeDamage damage p =
     (if p_invincible p > 0 then p
      else (let actualDamage = max 1 (damage * (1 - p_defenseRate p));
                p1 = p\<lparr>p_hp := p_hp p - actualDamage, p_invincible := 0.5\<rparr>
            in if p_hp p1 < 0 then p1\<lparr>p_hp := 0\<rparr> else p1))"

definition Player_gainExp :: "real \<Rightarrow> player \<Rightarrow> player" where
  "Player_gainExp amount p = p\<lparr>p_exp := p_exp p + amount\<rparr>"

text \<open>\<^verbatim>\<open>checkLevelUp\<close> returns its boolean together with the mutated player.\<close>

definition Player_checkLevelUp :: "player \<Rightarrow> bool \<times> player" where
  "Player_checkLevelUp p =
     (if p_exp p \<ge> p_expToLevel p
      then (True, p\<lparr>p_exp := p_exp p - p_expToLevel p, p_level := p_level p + 1\<rparr>)
      else (False, p))"

definition Player_heal :: "real \<Rightarrow> player \<Rightarrow> player" where
  "Player_heal amount p = p\<lparr>p_hp := min (p_maxHp p) (p_hp p + amount)\<rparr>"

text \<open>
  \<^verbatim>\<open>getWeaponPositions\<close>: one \<open>(x, y, angle)\<close> per weapon, for
  \<open>i = 0, \<dots>, weaponCount - 1\<close>.
\<close>

definition weaponPosition :: "player \<Rightarrow> nat \<Rightarrow> real \<times> real \<times> real" where
  "weaponPosition p i =
     (let angleStep = 360 / real (p_weaponCount p);
          angle = (p_currentAngle p + real i * angleStep) * pi / 180
      in (p_x p + cos angle * p_weaponRadius p, p_y p + sin angle * p_weaponRadius p, angle))"

definition getWeaponPositions :: "player \<Rightarrow> (real \<times> real \<times> real) list" where
  "getWeaponPositions p = map (weaponPosition p) [0 ..< p_weaponCount p]"

section \<open>Enemies\<close>

datatype enemy_type = minion | elite | boss

record enemy_config =
  cf_hp :: real
  cf_speed :: real
  cf_damage :: real
  cf_exp :: real
  cf_radius :: real
  cf_color :: string

fun configs :: "enemy_type \<Rightarrow> enemy_config" where
  "configs minion =
     \<lparr>cf_hp = 20, cf_speed = 80, cf_damage = 5, cf_exp = 5, cf_radius = 15, cf_color = ''#ff4444''\<rparr>"
| "configs elite =
     \<lparr>cf_hp = 80, cf_speed = 100, cf_damage = 10, cf_exp = 20, cf_radius = 18, cf_color = ''#ff8800''\<rparr>"
| "configs boss =
     \<lparr>cf_hp = 300, cf_speed = 120, cf_damage = 15, cf_exp = 100, cf_radius = 40, cf_color = ''#aa0000''\<rparr>"

text \<open>
  \<open>attackCooldown\<close> and \<open>attackInterval\<close> exist on boss objects only; the other
  archetypes never read them, and the model gives them the value 0 there.
\<close>

record enemy =
  e_x :: real
  e_y :: real
  e_type :: enemy_type
  e_hp :: real
  e_maxHp :: real
  e_speed :: real
  e_damage :: real
  e_exp :: real
  e_radius :: real
  e_color :: string
  e_isDead :: bool
  e_slowEffect :: real
  e_attackCooldown :: real
  e_attackInterval :: real

definition Enemy_new :: "real \<Rightarrow> real \<Rightarrow> enemy_type \<Rightarrow> enemy" where
  "Enemy_new x y type =
     (let config = configs type
      in \<lparr>e_x = x, e_y = y, e_type = type, e_hp = cf_hp config, e_maxHp = cf_hp config,
          e_speed = cf_speed config, e_damage = cf_damage config, e_exp = cf_exp config,
          e_radius = cf_radius config, e_color = cf_color config, e_isDead = False,
          e_slowEffect = 0, e_attackCooldown = 0,
          e_attackInterval = (if type = boss then 5 else 0)\<rparr>)"

definition speedMult :: "enemy \<Rightarrow> real" where
  "speedMult e = (if e_slowEffect e > 0 then 0.7 else 1.0)"

definition Enemy_update :: "real \<Rightarrow> real \<Rightarrow> real \<Rightarrow> enemy \<Rightarrow> enemy" where
  "Enemy_update deltaTime playerX playerY e =
     (if e_isDead e then e
      else
        (let e1 = (if e_slowEffect e > 0
                   then e\<lparr>e_slowEffect := e_slowEffect e - deltaTime\<rparr> else e);
             dx = playerX - e_x e1;
             dy = playerY - e_y e1;
             dist = sqrt (dx * dx + dy * dy);
             e2 = (if dist > 0
                   then e1\<lparr>e_x := e_x e1 + (dx / dist) * e_speed e1 * speedMult e1 * deltaTime,
                           e_y := e_y e1 + (dy / dist) * e_speed e1 * speedMult e1 * deltaTime\<rparr>
                   else e1)
         in if e_type e2 = boss
            then e2\<lparr>e_attackCooldown := e_attackCooldown e2 - deltaTime\<rparr> else e2))"

definition Enemy_takeDamage :: "real \<Rightarrow> enemy \<Rightarrow> enemy" where
  "Enemy_takeDamage damage e =
     (let e1 = e\<lparr>e_hp := e_hp e - damage\<rparr>
      in if e_hp e1 \<le> 0 then e1\<lparr>e_hp := 0, e_isDead := True\<rparr> else e1)"

definition applySlow :: "enemy \<Rightarrow> enemy" where
  "applySlow e = (if e_type e = elite then e\<lparr>e_slowEffect := 2\<rparr> else e)"

definition canAttack :: "enemy \<Rightarrow> bool" where
  "canAttack e \<longleftrightarrow> e_type e = boss \<and> e_attackCooldown e \<le> 0"

definition performAttack :: "enemy \<Rightarrow> enemy" where
  "performAttack e = e\<lparr>e_attackCooldown := e_attackInterval e\<rparr>"

section \<open>Pickups and particles\<close>

record expOrb =
  o_x :: real
  o_y :: real
  o_value :: real
  o_radius :: real
  o_collected :: bool
  o_attractDistance :: real
  o_attractSpeed :: real
  o_fastAttractDistance :: real
  o_fastAttractSpeed :: real

definition ExpOrb_new :: "real \<Rightarrow> real \<Rightarrow> real \<Rightarrow> expOrb" where
  "ExpOrb_new x y v =
     \<lparr>o_x = x, o_y = y, o_value = v, o_radius = 5, o_collected = False,
      o_attractDistance = 100, o_attractSpeed = 50, o_fastAttractDistance = 300,
      o_fastAttractSpeed = 200\<rparr>"

text \<open>
  \<^verbatim>\<open>ExpOrb.update\<close> returns \<open>None\<close> where the source returns \<^verbatim>\<open>undefined\<close> (an orb
  that is already collected), and the number it returns otherwise.
\<close>

definition ExpOrb_update :: "real \<Rightarrow> player \<Rightarrow> bool \<Rightarrow> expOrb \<Rightarrow> real option \<times> expOrb" where
  "ExpOrb_update deltaTime pl forceAttract orb =
     (if o_collected orb then (None, orb)
      else
        (let dx = p_x pl - o_x orb;
             dy = p_y pl - o_y orb;
             dist = sqrt (dx * dx + dy * dy);
             (shouldAttract1, speed1) =
                (if p_autoCollectBuff pl > 0 \<or> dist < o_attractDistance orb
                 then (True, o_attractSpeed orb) else (False, o_attractSpeed orb));
             (shouldAttract, speed) =
                (if forceAttract \<and> dist < o_fastAttractDistance orb
                 then (True, o_fastAttractSpeed orb) else (shouldAttract1, speed1));
             orb1 = (if shouldAttract \<and> dist > 1
                     then orb\<lparr>o_x := o_x orb + (dx / dist) * speed * deltaTime,
                              o_y := o_y orb + (dy / dist) * speed * deltaTime\<rparr>
                     else orb)
         in if circleCollision (o_x orb1) (o_y orb1) (o_radius orb1) (p_x pl) (p_y pl) (p_radius pl)
            then (Some (o_value orb1), orb1\<lparr>o_collected := True\<rparr>)
            else (Some 0, orb1)))"

datatype reward = weapon_supply | sharp_upgrade | auto_collect | speed_burst | weapon_swap

text \<open>
  The reward catalog; the display name and description of each entry are not
  modelled. \<^verbatim>\<open>Utils.randomInt(min, max)\<close> and \<^verbatim>\<open>Utils.randomFloat(min, max)\<close> take
  the result of their call of \<^verbatim>\<open>Math.random()\<close> as the argument \<open>r\<close>.
\<close>

definition rewards :: "reward list" where
  "rewards = [weapon_supply, sharp_upgrade, auto_collect, speed_burst, weapon_swap]"

definition randomInt :: "int \<Rightarrow> int \<Rightarrow> real \<Rightarrow> int" where
  "randomInt lo hi r = \<lfloor>r * real_of_int (hi - lo + 1)\<rfloor> + lo"

definition randomFloat :: "real \<Rightarrow> real \<Rightarrow> real \<Rightarrow> real" where
  "randomFloat lo hi r = r * (hi - lo) + lo"

text \<open>An index outside the array reads \<^verbatim>\<open>undefined\<close>, here \<open>None\<close>.\<close>

definition getRandomReward :: "real \<Rightarrow> reward option" where
  "getRandomReward r =
     (let i = randomInt 0 (int (length rewards) - 1) r
      in if 0 \<le> i \<and> i < int (length rewards) then Some (rewards ! nat i) else None)"

record chest =
  c_x :: real
  c_y :: real
  c_radius :: real
  c_isOpen :: bool
  c_collected :: bool
  c_glowPhase :: real

definition Chest_new :: "real \<Rightarrow> real \<Rightarrow> chest" where
  "Chest_new x y =
     \<lparr>c_x = x, c_y = y, c_radius = 25, c_isOpen = False, c_collected = False, c_glowPhase = 0\<rparr>"

text \<open>
  \<^verbatim>\<open>Chest.update\<close> returns the reward, or \<open>None\<close> for the falsy results
  \<^verbatim>\<open>null\<close> and \<^verbatim>\<open>undefined\<close>; \<open>r\<close> is the result of the call of
  \<^verbatim>\<open>Math.random()\<close> that \<^verbatim>\<open>getRandomReward\<close> makes when the chest opens.
\<close>

definition Chest_update :: "real \<Rightarrow> player \<Rightarrow> real \<Rightarrow> chest \<Rightarrow> reward option \<times> chest" where
  "Chest_update deltaTime pl r c =
     (if c_collected c then (None, c)
      else
        (let c1 = c\<lparr>c_glowPhase := c_glowPhase c + deltaTime * 3\<rparr>
         in if \<not> c_isOpen c1 \<and>
               circleCollision (c_x c1) (c_y c1) (c_radius c1) (p_x pl) (p_y pl) (p_radius pl)
            then (getRandomReward r, c1\<lparr>c_isOpen := True, c_collected := True\<rparr>)
            else (None, c1)))"

record particle =
  pt_x :: real
  pt_y :: real
  pt_color :: string
  pt_size :: real
  pt_vx :: real
  pt_vy :: real
  pt_life :: real
  pt_maxLife :: real

definition Particle_new ::
  "real \<Rightarrow> real \<Rightarrow> string \<Rightarrow> real \<Rightarrow> real \<Rightarrow> real \<Rightarrow> real \<Rightarrow> particle" where
  "Particle_new x y color sz vx vy life =
     \<lparr>pt_x = x, pt_y = y, pt_color = color, pt_size = sz, pt_vx = vx, pt_vy = vy,
      pt_life = life, pt_maxLife = life\<rparr>"

definition Particle_update :: "real \<Rightarrow> particle \<Rightarrow> particle" where
  "Particle_update deltaTime pt =
     pt\<lparr>pt_x := pt_x pt + pt_vx pt * deltaTime, pt_y := pt_y pt + pt_vy pt * deltaTime,
        pt_life := pt_life pt - deltaTime\<rparr>"

definition Particle_isDead :: "particle \<Rightarrow> bool" where
  "Particle_isDead pt \<longleftrightarrow> pt_life pt \<le> 0"

section \<open>The game\<close>

datatype game_state = playing | paused | levelup | gameover | victory

datatype skill =
  add_weapon | damage_boost | radius_expand | rotate_faster | hp_boost
  | speed_boost | defense_up | emergency_heal | exp_magnet

text \<open>
  A callback handed to \<^verbatim>\<open>setTimeout\<close> that has not run yet: the boss attack,
  which holds a reference to its enemy object, and the end of the speed burst.
\<close>

datatype timer = BossAttackTimer nat | SpeedBurstTimer

text \<open>
  Enemy objects are shared: \<^verbatim>\<open>this.enemies\<close> holds references, and so does the
  closure of a pending boss attack, also after the enemy has left the array.
  \<open>g_heap\<close> holds every enemy object created in the session, an object's
  address being its index, and \<open>g_enemies\<close> is the array of addresses.

  \<open>g_rand\<close> is the sequence of results that \<^verbatim>\<open>Math.random()\<close> returns in the
  session and \<open>g_randPos\<close> the number of calls made so far. \<open>g_shownScore\<close> is
  the score written into the game-over dialog, if it has been shown.
\<close>

record game =
  g_centerX :: real
  g_centerY :: real
  g_arenaRadius :: real
  g_state :: game_state
  g_player :: player
  g_heap :: "enemy list"
  g_enemies :: "nat list"
  g_expOrbs :: "expOrb list"
  g_chests :: "chest list"
  g_particles :: "particle list"
  g_score :: int
  g_killCount :: int
  g_survivalTime :: real
  g_enemySpawnTimer :: real
  g_eliteSpawnTimer :: real
  g_chestSpawnTimer :: real
  g_bossSpawned :: bool
  g_bossAlive :: bool
  g_timers :: "timer list"
  g_shownScore :: "int option"
  g_rand :: "nat \<Rightarrow> real"
  g_randPos :: nat

text \<open>The constructor of \<^verbatim>\<open>Game\<close> followed by \<^verbatim>\<open>init()\<close>.\<close>

definition init :: "(nat \<Rightarrow> real) \<Rightarrow> game" where
  "init rand =
     \<lparr>g_centerX = 1200 / 2, g_centerY = 800 / 2, g_arenaRadius = 500, g_state = playing,
      g_player = Player_new (1200 / 2) (800 / 2), g_heap = [], g_enemies = [],
      g_expOrbs = [], g_chests = [], g_particles = [], g_score = 0, g_killCount = 0,
      g_survivalTime = 0, g_enemySpawnTimer = 0, g_eliteSpawnTimer = 0,
      g_chestSpawnTimer = 0, g_bossSpawned = False, g_bossAlive = False, g_timers = [],
      g_shownScore = None, g_rand = rand, g_randPos = 0\<rparr>"

text \<open>The result of the \<open>k\<close>-th next call of \<^verbatim>\<open>Math.random()\<close>, and \<open>n\<close> calls made.\<close>

definition rnd :: "game \<Rightarrow> nat \<Rightarrow> real" where
  "rnd g k = g_rand g (g_randPos g + k)"

definition skip :: "nat \<Rightarrow> game \<Rightarrow> game" where
  "skip n g = g\<lparr>g_randPos := g_randPos g + n\<rparr>"

definition gameOver :: "bool \<Rightarrow> game \<Rightarrow> game" where
  "gameOver isVictory g = g\<lparr>g_state := gameover, g_shownScore := Some (g_score g)\<rparr>"

text \<open>
  \<^verbatim>\<open>showSkillSelection\<close> pauses the game. Which three skills it offers depends
  on the engine's sort under a random comparator and is not modelled, nor are
  the calls of \<^verbatim>\<open>Math.random()\<close> that the sort makes: a selection (a click or
  the end of the countdown) may carry any skill.
\<close>

definition showSkillSelection :: "game \<Rightarrow> game" where
  "showSkillSelection g = g\<lparr>g_state := levelup\<rparr>"

text \<open>
  \<^verbatim>\<open>killEnemy\<close> calls \<^verbatim>\<open>Math.random()\<close> 46 times: two for each of the three
  orbs, then four for each of the ten particles, in the order angle, speed,
  size, life.
\<close>

definition killOrb :: "game \<Rightarrow> enemy \<Rightarrow> nat \<Rightarrow> expOrb" where
  "killOrb g e i =
     (let offsetX = randomFloat (- 20) 20 (rnd g (2 * i));
          offsetY = randomFloat (- 20) 20 (rnd g (2 * i + 1))
      in ExpOrb_new (e_x e + offsetX) (e_y e + offsetY) (e_exp e / 3))"

definition killParticle :: "game \<Rightarrow> enemy \<Rightarrow> nat \<Rightarrow> particle" where
  "killParticle g e i =
     (let angle = randomFloat 0 (pi * 2) (rnd g (6 + 4 * i));
          speed = randomFloat 50 150 (rnd g (6 + 4 * i + 1))
      in Particle_new (e_x e) (e_y e) (e_color e)
           (randomFloat 2 5 (rnd g (6 + 4 * i + 2)))
           (cos angle * speed) (sin angle * speed)
           (randomFloat 0.3 0.8 (rnd g (6 + 4 * i + 3))))"

definition killEnemy :: "nat \<Rightarrow> game \<Rightarrow> game" where
  "killEnemy a g =
     (let e = g_heap g ! a;
          g1 = skip 46
                 (g\<lparr>g_killCount := g_killCount g + 1,
                    g_expOrbs := g_expOrbs g @ map (killOrb g e) [0 ..< 3],
                    g_particles := g_particles g @ map (killParticle g e) [0 ..< 10]\<rparr>)
      in if e_type e = boss
         then gameOver True (g1\<lparr>g_bossAlive := False, g_score := g_score g1 + 50\<rparr>)
         else g1)"

definition createBossAttackWarning :: "real \<Rightarrow> real \<Rightarrow> game \<Rightarrow> game" where
  "createBossAttackWarning x y g =
     g\<lparr>g_particles := g_particles g @
          map (\<lambda>i. let angle = (real i / 30) * pi * 2; radius = 200
                    in Particle_new (x + cos angle * radius) (y + sin angle * radius)
                         ''#ff0000'' 4 0 0 0.5)
              [0 ..< 30]\<rparr>"

text \<open>The body of the loop over the weapon positions, for the enemy at address \<open>a\<close>.\<close>

definition weaponHit :: "nat \<Rightarrow> real \<times> real \<times> real \<Rightarrow> game \<Rightarrow> game" where
  "weaponHit a wp g =
     (let e = g_heap g ! a
      in if circleCollision (fst wp) (fst (snd wp)) 8 (e_x e) (e_y e) (e_radius e)
         then (let g1 = g\<lparr>g_heap := (g_heap g)[a := Enemy_takeDamage (p_weaponDamage (g_player g)) e]\<rparr>
               in if e_isDead (g_heap g1 ! a) then killEnemy a g1 else g1)
         else g)"

text \<open>
  The body of the loop over \<^verbatim>\<open>this.enemies\<close>, for the enemy at address \<open>a\<close>:
  movement, contact with the player, the weapons, the boss attack. The attack
  appends its callback to the pending timers.
\<close>

definition enemyMove :: "real \<Rightarrow> nat \<Rightarrow> game \<Rightarrow> game" where
  "enemyMove deltaTime a g =
     g\<lparr>g_heap := (g_heap g)[a := Enemy_update deltaTime (p_x (g_player g)) (p_y (g_player g))
                                   (g_heap g ! a)]\<rparr>"

definition enemyContact :: "nat \<Rightarrow> game \<Rightarrow> game" where
  "enemyContact a g =
     (let e = g_heap g ! a; pl = g_player g
      in if circleCollision (e_x e) (e_y e) (e_radius e) (p_x pl) (p_y pl) (p_radius pl)
         then g\<lparr>g_player := Player_takeDamage (e_damage e) pl\<rparr> else g)"

definition enemyWeapons :: "nat \<Rightarrow> game \<Rightarrow> game" where
  "enemyWeapons a g = fold (weaponHit a) (getWeaponPositions (g_player g)) g"

definition enemyAttack :: "nat \<Rightarrow> game \<Rightarrow> game" where
  "enemyAttack a g =
     (let e = g_heap g ! a
      in if canAttack e
         then (let g1 = g\<lparr>g_heap := (g_heap g)[a := performAttack e]\<rparr>;
                   g2 = createBossAttackWarning (e_x e) (e_y e) g1
               in g2\<lparr>g_timers := g_timers g2 @ [BossAttackTimer a]\<rparr>)
         else g)"

definition enemyStep :: "real \<Rightarrow> nat \<Rightarrow> game \<Rightarrow> game" where
  "enemyStep deltaTime a g =
     enemyAttack a (enemyWeapons a (enemyContact a (enemyMove deltaTime a g)))"

text \<open>The callback of a boss attack, run by the timer 500 ms after the attack.\<close>

definition bossAttackResolve :: "nat \<Rightarrow> game \<Rightarrow> game" where
  "bossAttackResolve a g =
     (let e = g_heap g ! a;
          dist = Utils_distance (p_x (g_player g)) (p_y (g_player g)) (e_x e) (e_y e)
      in if dist < 200 then g\<lparr>g_player := Player_takeDamage 15 (g_player g)\<rparr> else g)"

definition speedBurstEnd :: "game \<Rightarrow> game" where
  "speedBurstEnd g = g\<lparr>g_player := (g_player g)\<lparr>p_speedBuff := 1.0\<rparr>\<rparr>"

definition applyChestReward :: "reward \<Rightarrow> game \<Rightarrow> game" where
  "applyChestReward rw g =
     (let pl = g_player g
      in case rw of
           weapon_supply \<Rightarrow> g\<lparr>g_player := pl\<lparr>p_weaponCount := min 8 (p_weaponCount pl + 4)\<rparr>\<rparr>
         | sharp_upgrade \<Rightarrow> g\<lparr>g_player := pl\<lparr>p_weaponDamage := p_weaponDamage pl + 10\<rparr>\<rparr>
         | auto_collect \<Rightarrow> g\<lparr>g_player := pl\<lparr>p_autoCollectBuff := 30\<rparr>\<rparr>
         | speed_burst \<Rightarrow> g\<lparr>g_player := pl\<lparr>p_speedBuff := 1.5\<rparr>,
                            g_timers := g_timers g @ [SpeedBurstTimer]\<rparr>
         | weapon_swap \<Rightarrow> skip 1 (g\<lparr>g_player := pl\<lparr>p_weaponType := randomInt 0 4 (rnd g 0)\<rparr>\<rparr>))"

definition applySkill :: "skill \<Rightarrow> game \<Rightarrow> game" where
  "applySkill sk g =
     (let pl = g_player g
      in case sk of
           add_weapon \<Rightarrow> g\<lparr>g_player := pl\<lparr>p_weaponCount := min 8 (p_weaponCount pl + 1)\<rparr>\<rparr>
         | damage_boost \<Rightarrow> g\<lparr>g_player := pl\<lparr>p_weaponDamage := p_weaponDamage pl * 1.1\<rparr>\<rparr>
         | radius_expand \<Rightarrow> g\<lparr>g_player := pl\<lparr>p_weaponRadius := min 150 (p_weaponRadius pl + 10)\<rparr>\<rparr>
         | rotate_faster \<Rightarrow> g\<lparr>g_player := pl\<lparr>p_rotateSpeed := p_rotateSpeed pl * 1.25\<rparr>\<rparr>
         | hp_boost \<Rightarrow> g\<lparr>g_player := pl\<lparr>p_maxHp := p_maxHp pl + 20, p_hp := p_hp pl + 20\<rparr>\<rparr>
         | speed_boost \<Rightarrow> g\<lparr>g_player := pl\<lparr>p_speed := min 200 (p_speed pl * 1.05)\<rparr>\<rparr>
         | defense_up \<Rightarrow> g\<lparr>g_player := pl\<lparr>p_defenseRate := min 0.5 (p_defenseRate pl + 0.1)\<rparr>\<rparr>
         | emergency_heal \<Rightarrow> g\<lparr>g_player := Player_heal 40 pl\<rparr>
         | exp_magnet \<Rightarrow>
             (let orbs = map (\<lambda>orb. orb\<lparr>o_collected := True\<rparr>) (g_expOrbs g)
              in g\<lparr>g_expOrbs := orbs,
                   g_player := Player_gainExp (foldl (\<lambda>sum orb. sum + o_value orb) 0 orbs) pl\<rparr>))"

definition selectSkill :: "skill \<Rightarrow> game \<Rightarrow> game" where
  "selectSkill sk g = (applySkill sk g)\<lparr>g_state := playing\<rparr>"

definition handleMouseMove :: "real \<Rightarrow> real \<Rightarrow> game \<Rightarrow> game" where
  "handleMouseMove x y g = g\<lparr>g_player := (g_player g)\<lparr>p_targetX := Some x, p_targetY := Some y\<rparr>\<rparr>"

subsection \<open>Spawning\<close>

definition spawnEnemy :: "enemy_type \<Rightarrow> game \<Rightarrow> game" where
  "spawnEnemy type g =
     (let angle = randomFloat 0 (pi * 2) (rnd g 0);
          x = g_centerX g + cos angle * g_arenaRadius g;
          y = g_centerY g + sin angle * g_arenaRadius g
      in skip 1 (g\<lparr>g_heap := g_heap g @ [Enemy_new x y type],
                   g_enemies := g_enemies g @ [length (g_heap g)]\<rparr>))"

definition spawnEnemies :: "real \<Rightarrow> game \<Rightarrow> game" where
  "spawnEnemies deltaTime g =
     (let g1 = g\<lparr>g_enemySpawnTimer := g_enemySpawnTimer g + deltaTime\<rparr>;
          g2 = (if g_enemySpawnTimer g1 \<ge> 10
                then (let count = min (3 + \<lfloor>g_survivalTime g1 / 60\<rfloor>) 8
                      in (((spawnEnemy minion) ^^ nat count) g1)\<lparr>g_enemySpawnTimer := 0\<rparr>)
                else g1)
      in if g_survivalTime g2 \<ge> 30
         then (let g3 = g2\<lparr>g_eliteSpawnTimer := g_eliteSpawnTimer g2 + deltaTime\<rparr>
               in if g_eliteSpawnTimer g3 \<ge> 30
                  then (spawnEnemy elite g3)\<lparr>g_eliteSpawnTimer := 0\<rparr> else g3)
         else g2)"

text \<open>
  The loop of \<^verbatim>\<open>spawnChest\<close>, with the number of attempts that remain
  (\<open>10 - attempts\<close>) as its argument; every attempt calls \<^verbatim>\<open>Math.random()\<close> twice.
\<close>

fun spawnChestLoop :: "nat \<Rightarrow> game \<Rightarrow> game" where
  "spawnChestLoop 0 g = g"
| "spawnChestLoop (Suc n) g =
     (let angle = randomFloat 0 (pi * 2) (rnd g 0);
          dist = randomFloat 0 (g_arenaRadius g - 100) (rnd g 1);
          x = g_centerX g + cos angle * dist;
          y = g_centerY g + sin angle * dist;
          tooClose = (Utils_distance x y (p_x (g_player g)) (p_y (g_player g)) < 80)
      in if \<not> tooClose then skip 2 (g\<lparr>g_chests := g_chests g @ [Chest_new x y]\<rparr>)
         else spawnChestLoop n (skip 2 g))"

definition spawnChest :: "game \<Rightarrow> game" where
  "spawnChest g = spawnChestLoop 10 g"

definition spawnBoss :: "game \<Rightarrow> game" where
  "spawnBoss g =
     (let g1 = g\<lparr>g_bossSpawned := True, g_bossAlive := True\<rparr>;
          angle = randomFloat 0 (pi * 2) (rnd g1 0);
          x = g_centerX g1 + cos angle * g_arenaRadius g1;
          y = g_centerY g1 + sin angle * g_arenaRadius g1
      in skip 1 (g1\<lparr>g_heap := g_heap g1 @ [Enemy_new x y boss],
                    g_enemies := g_enemies g1 @ [length (g_heap g1)]\<rparr>))"

subsection \<open>One update step\<close>

text \<open>\<^verbatim>\<open>Game.update\<close>, block by block in source order.\<close>

definition updatePlayer :: "real \<Rightarrow> string set \<Rightarrow> game \<Rightarrow> game" where
  "updatePlayer deltaTime keys g =
     g\<lparr>g_player := Player_update deltaTime keys (g_arenaRadius g) (g_player g)\<rparr>"

definition levelUpCheck :: "game \<Rightarrow> game" where
  "levelUpCheck g =
     (let (up, pl) = Player_checkLevelUp (g_player g); g1 = g\<lparr>g_player := pl\<rparr>
      in if up then showSkillSelection g1 else g1)"

definition updateEnemies :: "real \<Rightarrow> game \<Rightarrow> game" where
  "updateEnemies deltaTime g = fold (enemyStep deltaTime) (g_enemies g) g"

definition removeDeadEnemies :: "game \<Rightarrow> game" where
  "removeDeadEnemies g = g\<lparr>g_enemies := filter (\<lambda>a. \<not> e_isDead (g_heap g ! a)) (g_enemies g)\<rparr>"

definition orbStep :: "real \<Rightarrow> bool \<Rightarrow> nat \<Rightarrow> game \<Rightarrow> game" where
  "orbStep deltaTime forceAttract i g =
     (let (gained, orb) = ExpOrb_update deltaTime (g_player g) forceAttract (g_expOrbs g ! i);
          g1 = g\<lparr>g_expOrbs := (g_expOrbs g)[i := orb]\<rparr>
      in case gained of
           Some v \<Rightarrow> if v > 0 then g1\<lparr>g_player := Player_gainExp v (g_player g1)\<rparr> else g1
         | None \<Rightarrow> g1)"

definition updateExpOrbs :: "real \<Rightarrow> bool \<Rightarrow> game \<Rightarrow> game" where
  "updateExpOrbs deltaTime forceAttract g =
     (let g1 = fold (orbStep deltaTime forceAttract) [0 ..< length (g_expOrbs g)] g
      in g1\<lparr>g_expOrbs := filter (\<lambda>orb. \<not> o_collected orb) (g_expOrbs g1)\<rparr>)"

text \<open>A chest that opens in this call has made one call of \<^verbatim>\<open>Math.random()\<close>.\<close>

definition chestStep :: "real \<Rightarrow> nat \<Rightarrow> game \<Rightarrow> game" where
  "chestStep deltaTime i g =
     (let c = g_chests g ! i;
          (rw, c1) = Chest_update deltaTime (g_player g) (rnd g 0) c;
          g1 = g\<lparr>g_chests := (g_chests g)[i := c1]\<rparr>;
          g2 = (if c_collected c1 \<and> \<not> c_collected c then skip 1 g1 else g1)
      in case rw of Some r \<Rightarrow> applyChestReward r g2 | None \<Rightarrow> g2)"

definition updateChests :: "real \<Rightarrow> game \<Rightarrow> game" where
  "updateChests deltaTime g =
     (let g1 = fold (chestStep deltaTime) [0 ..< length (g_chests g)] g
      in g1\<lparr>g_chests := filter (\<lambda>c. \<not> c_collected c) (g_chests g1)\<rparr>)"

definition updateParticles :: "real \<Rightarrow> game \<Rightarrow> game" where
  "updateParticles deltaTime g =
     g\<lparr>g_particles := filter (\<lambda>pt. \<not> Particle_isDead pt)
                        (map (Particle_update deltaTime) (g_particles g))\<rparr>"

definition chestSpawnCheck :: "real \<Rightarrow> game \<Rightarrow> game" where
  "chestSpawnCheck deltaTime g =
     (let g1 = g\<lparr>g_chestSpawnTimer := g_chestSpawnTimer g + deltaTime\<rparr>
      in if g_chestSpawnTimer g1 \<ge> 45 then (spawnChest g1)\<lparr>g_chestSpawnTimer := 0\<rparr> else g1)"

definition bossDue :: "game \<Rightarrow> bool" where
  "bossDue g \<longleftrightarrow> p_level (g_player g) \<ge> 10 \<or> g_survivalTime g \<ge> 120"

definition bossSpawnCheck :: "game \<Rightarrow> game" where
  "bossSpawnCheck g = (if \<not> g_bossSpawned g \<and> bossDue g then spawnBoss g else g)"

definition deathCheck :: "game \<Rightarrow> game" where
  "deathCheck g = (if p_hp (g_player g) \<le> 0 then gameOver False g else g)"

definition updateScore :: "game \<Rightarrow> game" where
  "updateScore g = g\<lparr>g_score := g_killCount g * 10 + \<lfloor>g_survivalTime g\<rfloor> * 2\<rparr>"

definition update :: "real \<Rightarrow> string set \<Rightarrow> game \<Rightarrow> game" where
  "update deltaTime keys g =
     (let g1 = g\<lparr>g_survivalTime := g_survivalTime g + deltaTime\<rparr>;
          forceAttract = ('' '' \<in> keys \<or> ''space'' \<in> keys);
          g2 = levelUpCheck (updatePlayer deltaTime keys g1);
          g3 = removeDeadEnemies (updateEnemies deltaTime g2);
          g4 = updateChests deltaTime (updateExpOrbs deltaTime forceAttract g3);
          g5 = updateParticles deltaTime g4;
          g6 = chestSpawnCheck deltaTime (spawnEnemies deltaTime g5)
      in updateScore (deathCheck (bossSpawnCheck g6)))"

subsection \<open>The driver\<close>

text \<open>
  What the browser does to a running game is a sequence of events: an animation
  frame (the milliseconds since the previous frame and the held keys), a mouse
  move with the button down, the selection of a skill, and a pending timer
  running its callback (the timer at position \<open>n\<close> of the pending ones; nothing
  happens when there is none). \<^verbatim>\<open>gameLoop\<close> runs \<^verbatim>\<open>update\<close> only in the state
  \<open>playing\<close>, with the time step capped at 0.1 s. The order and the timing of
  events are not constrained, so the executions of the model include those of
  the browser.
\<close>

datatype event =
  Frame real "string set"
  | MouseMove real real
  | SelectSkill skill
  | TimerFires nat

definition gameLoop :: "real \<Rightarrow> string set \<Rightarrow> game \<Rightarrow> game" where
  "gameLoop elapsed keys g =
     (let deltaTime = min (elapsed / 1000) 0.1
      in if g_state g = playing then update deltaTime keys g else g)"

definition runTimer :: "timer \<Rightarrow> game \<Rightarrow> game" where
  "runTimer t g = (case t of BossAttackTimer a \<Rightarrow> bossAttackResolve a g
                          | SpeedBurstTimer \<Rightarrow> speedBurstEnd g)"

definition fireTimer :: "nat \<Rightarrow> game \<Rightarrow> game" where
  "fireTimer n g =
     (if n < length (g_timers g)
      then runTimer (g_timers g ! n) (g\<lparr>g_timers := take n (g_timers g) @ drop (Suc n) (g_timers g)\<rparr>)
      else g)"

fun step :: "event \<Rightarrow> game \<Rightarrow> game" where
  "step (Frame elapsed keys) g = gameLoop elapsed keys g"
| "step (MouseMove x y) g = handleMouseMove x y g"
| "step (SelectSkill sk) g = selectSkill sk g"
| "step (TimerFires n) g = fireTimer n g"

definition exec :: "event list \<Rightarrow> game \<Rightarrow> game" where
  "exec es g = fold step es g"

section \<open>Notions used in the statements\<close>

fun firstOnly :: "bool list \<Rightarrow> nat list" where
  "firstOnly [] = []"
| "firstOnly (b # bs) = (if b then 1 # replicate (length bs) 0 else 0 # firstOnly bs)"

text \<open>
  One step of an enemy towards the player at the full speed of its archetype,
  and the heaps in which no enemy is slowed and every enemy has the speed of its
  archetype.
\<close>

definition seekAtFullSpeed :: "real \<Rightarrow> real \<Rightarrow> real \<Rightarrow> enemy \<Rightarrow> real \<times> real" where
  "seekAtFullSpeed dt px py e =
     (let dx = px - e_x e; dy = py - e_y e; dist = sqrt (dx * dx + dy * dy);
          v = cf_speed (configs (e_type e))
      in if dist > 0 then (e_x e + (dx / dist) * v * dt, e_y e + (dy / dist) * v * dt)
         else (e_x e, e_y e))"

definition unslowed :: "game \<Rightarrow> bool" where
  "unslowed g \<longleftrightarrow>
     (\<forall>e\<in>set (g_heap g). e_slowEffect e \<le> 0 \<and> e_speed e = cf_speed (configs (e_type e)))"

definition fullSpeed :: "enemy \<Rightarrow> bool" where
  "fullSpeed e \<longleftrightarrow> e_slowEffect e \<le> 0 \<and> e_speed e = cf_speed (configs (e_type e))"

definition heapTypes :: "game \<Rightarrow> enemy_type list" where
  "heapTypes g = map e_type (g_heap g)"

text \<open>The state that reaches the boss check of an update step.\<close>

definition beforeBossCheck :: "real \<Rightarrow> string set \<Rightarrow> game \<Rightarrow> game" where
  "beforeBossCheck dt keys g =
     chestSpawnCheck dt (spawnEnemies dt (updateParticles dt
       (updateChests dt (updateExpOrbs dt ('' '' \<in> keys \<or> ''space'' \<in> keys)
         (removeDeadEnemies (updateEnemies dt (levelUpCheck (updatePlayer dt keys
           (g\<lparr>g_survivalTime := g_survivalTime g + dt\<rparr>)))))))))"


text \<open>
  In a well-formed state every entry of \<^verbatim>\<open>this.enemies\<close> is the address of an
  object that exists.
\<close>

definition wellFormed :: "game \<Rightarrow> bool" where
  "wellFormed g \<longleftrightarrow> (\<forall>a\<in>set (g_enemies g). a < length (g_heap g))"

text \<open>
  The condition of the boss check, read off the state before the event. The
  check runs inside an update step, after the survival time has advanced by the
  capped time step and after \<^verbatim>\<open>checkLevelUp\<close>, which adds a level when the
  experience has reached the threshold. No other event runs the check.
\<close>

definition levelAfterCheck :: "player \<Rightarrow> int" where
  "levelAfterCheck p = (if p_exp p \<ge> p_expToLevel p then p_level p + 1 else p_level p)"

fun bossDueIn :: "event \<Rightarrow> game \<Rightarrow> bool" where
  "bossDueIn (Frame elapsed keys) g =
     (g_state g = playing \<and>
      (levelAfterCheck (g_player g) \<ge> 10 \<or> g_survivalTime g + min (elapsed / 1000) 0.1 \<ge> 120))"
| "bossDueIn (MouseMove x y) g = False"
| "bossDueIn (SelectSkill sk) g = False"
| "bossDueIn (TimerFires n) g = False"

text \<open>
  The bosses that an event adds to the game: the entries of \<^verbatim>\<open>this.enemies\<close>
  after the event that refer to an object created during the event, of type
  boss. \<open>joining h g\<close> are the entries of \<open>g\<close> that refer to a boss at an address
  from \<open>h\<close> on, and \<open>noNewBoss h g\<close> says that there is none. \<open>spawnLog\<close> is the
  number of bosses added by each event of an execution, and \<open>dueLog\<close> the
  condition of the boss check at each event.
\<close>

definition bossesJoining :: "event \<Rightarrow> game \<Rightarrow> nat list" where
  "bossesJoining e g =
     filter (\<lambda>a. length (g_heap g) \<le> a \<and> a < length (g_heap (step e g)) \<and>
                 e_type (g_heap (step e g) ! a) = boss)
       (g_enemies (step e g))"

definition joining :: "nat \<Rightarrow> game \<Rightarrow> nat list" where
  "joining h g =
     filter (\<lambda>a. h \<le> a \<and> a < length (g_heap g) \<and> e_type (g_heap g ! a) = boss) (g_enemies g)"

definition noNewBoss :: "nat \<Rightarrow> game \<Rightarrow> bool" where
  "noNewBoss h g \<longleftrightarrow>
     h \<le> length (heapTypes g) \<and>
     (\<forall>a\<in>set (g_enemies g). a < length (heapTypes g) \<and> (h \<le> a \<longrightarrow> heapTypes g ! a \<noteq> boss))"

fun spawnLog :: "event list \<Rightarrow> game \<Rightarrow> nat list" where
  "spawnLog [] g = []"
| "spawnLog (e # es) g = length (bossesJoining e g) # spawnLog es (step e g)"

fun dueLog :: "event list \<Rightarrow> game \<Rightarrow> bool list" where
  "dueLog [] g = []"
| "dueLog (e # es) g = bossDueIn e g # dueLog es (step e g)"

text \<open>
  The thirty particles that \<^verbatim>\<open>createBossAttackWarning(x, y)\<close> draws, on the
  circle of radius 200 around \<open>(x, y)\<close>, with \<open>life\<close> seconds left to live.
\<close>

definition warningRing :: "real \<Rightarrow> real \<Rightarrow> real \<Rightarrow> particle list" where
  "warningRing x y life =
     map (\<lambda>i. (Particle_new (x + cos ((real i / 30) * pi * 2) * 200)
                               (y + sin ((real i / 30) * pi * 2) * 200) ''#ff0000'' 4 0 0 0.5)
                 \<lparr>pt_life := life\<rparr>)
         [0 ..< 30]"

text \<open>\<open>n\<close> animation frames of 100 ms each, no key held.\<close>

definition frames :: "nat \<Rightarrow> event list" where
  "frames n = replicate n (Frame 100 {})"

section \<open>Scenarios\<close>

text \<open>
  Concrete states on which the code is run below. In all of them every call of
  \<^verbatim>\<open>Math.random()\<close> returns one half.
\<close>

definition halves :: "nat \<Rightarrow> real" where
  "halves n = 1 / 2"

text \<open>An elite 100 units to the right of the player.\<close>

definition chase :: game where
  "chase = (init halves)\<lparr>g_heap := [Enemy_new 700 400 elite], g_enemies := [0]\<rparr>"

text \<open>
  A boss with 10 hit points left, 120 units to the right of the player, 130
  seconds into a session without kills; the player has the two initial weapons.
  \<open>bossFight1\<close> to \<open>bossFight5\<close> are the states that one update step of 0.1 s
  goes through.
\<close>

definition bossFight :: game where
  "bossFight =
     (init halves)
       \<lparr>g_player := (Player_new 180 240)\<lparr>p_currentAngle := 348\<rparr>,
        g_heap := [(Enemy_new 300 240 boss)\<lparr>e_hp := 10, e_attackCooldown := 3\<rparr>],
        g_enemies := [0], g_score := 260, g_survivalTime := 130,
        g_bossSpawned := True, g_bossAlive := True\<rparr>"

definition bossFight1 :: game where
  "bossFight1 = bossFight\<lparr>g_survivalTime := 130.1,
      g_player := (Player_new 180 240)\<lparr>p_currentAngle := 0\<rparr>\<rparr>"

definition bossFight2 :: game where
  "bossFight2 = bossFight1\<lparr>g_heap := [(Enemy_new 288 240 boss)\<lparr>e_hp := 10, e_attackCooldown := 2.9\<rparr>]\<rparr>"

definition bossFight3 :: game where
  "bossFight3 =
     bossFight2
       \<lparr>g_state := gameover,
        g_heap := [(Enemy_new 288 240 boss)\<lparr>e_hp := 0, e_isDead := True, e_attackCooldown := 2.9\<rparr>],
        g_expOrbs := replicate 3 (ExpOrb_new 288 240 (100 / 3)),
        g_particles := replicate 10 (Particle_new 288 240 ''#aa0000'' 3.5 (- 100) 0 0.55),
        g_score := 310, g_killCount := 1, g_bossAlive := False,
        g_shownScore := Some 310, g_randPos := 46\<rparr>"

definition bossFight4 :: game where
  "bossFight4 = bossFight3\<lparr>g_enemies := []\<rparr>"

definition bossFight5 :: game where
  "bossFight5 =
     bossFight4
       \<lparr>g_particles :=
          replicate 10 ((Particle_new 278 240 ''#aa0000'' 3.5 (- 100) 0 0.45)\<lparr>pt_maxLife := 0.55\<rparr>),
        g_enemySpawnTimer := 0.1, g_eliteSpawnTimer := 0.1, g_chestSpawnTimer := 0.1\<rparr>"

text \<open>
  The same boss 81 units to the right of a player who has six weapons (the two
  initial ones and four from a chest), and the states of one update step.
\<close>

definition sixBlades :: game where
  "sixBlades =
     (init halves)
       \<lparr>g_player := (Player_new 180 240)\<lparr>p_weaponCount := 6, p_currentAngle := 18\<rparr>,
        g_heap := [(Enemy_new 261 240 boss)\<lparr>e_hp := 10, e_attackCooldown := 3\<rparr>],
        g_enemies := [0], g_score := 260, g_survivalTime := 130,
        g_bossSpawned := True, g_bossAlive := True\<rparr>"

definition sixBlades1 :: game where
  "sixBlades1 = sixBlades\<lparr>g_survivalTime := 130.1,
      g_player := (Player_new 180 240)\<lparr>p_weaponCount := 6, p_currentAngle := 30\<rparr>\<rparr>"

definition sixBlades2 :: game where
  "sixBlades2 = sixBlades1\<lparr>g_heap := [(Enemy_new 249 240 boss)\<lparr>e_hp := 10, e_attackCooldown := 2.9\<rparr>]\<rparr>"

definition sixBlades3 :: game where
  "sixBlades3 =
     sixBlades2
       \<lparr>g_state := gameover,
        g_heap := [(Enemy_new 249 240 boss)\<lparr>e_hp := 0, e_isDead := True, e_attackCooldown := 2.9\<rparr>],
        g_expOrbs := replicate 3 (ExpOrb_new 249 240 (100 / 3)),
        g_particles := replicate 10 (Particle_new 249 240 ''#aa0000'' 3.5 (- 100) 0 0.55),
        g_score := 310, g_killCount := 1, g_bossAlive := False,
        g_shownScore := Some 310, g_randPos := 46\<rparr>"

definition sixBlades4 :: game where
  "sixBlades4 =
     sixBlades3
       \<lparr>g_expOrbs := replicate 6 (ExpOrb_new 249 240 (100 / 3)),
        g_particles := replicate 20 (Particle_new 249 240 ''#aa0000'' 3.5 (- 100) 0 0.55),
        g_score := 360, g_killCount := 2, g_shownScore := Some 360, g_randPos := 92\<rparr>"

definition sixBlades5 :: game where
  "sixBlades5 =
     sixBlades4\<lparr>g_enemies := [], g_expOrbs := replicate 6 (ExpOrb_new 244 240 (100 / 3))\<rparr>"

definition sixBlades6 :: game where
  "sixBlades6 =
     sixBlades5
       \<lparr>g_particles :=
          replicate 20 ((Particle_new 239 240 ''#aa0000'' 3.5 (- 100) 0 0.45)\<lparr>pt_maxLife := 0.55\<rparr>),
        g_enemySpawnTimer := 0.1, g_eliteSpawnTimer := 0.1, g_chestSpawnTimer := 0.1\<rparr>"

text \<open>
  Time steps of a frame: the doubles that JavaScript writes \<^verbatim>\<open>0.08\<close>,
  \<^verbatim>\<open>0.1\<close> and \<^verbatim>\<open>0.059999999999999915\<close>. \<open>shortFrames\<close> are six frames that take
  less than 0.5 s together, \<open>fourFrames\<close> four frames at the cap of the time
  step.
\<close>

definition d008 :: real where
  "d008 = 5764607523034235 / 2 ^ 56"

definition d01 :: real where
  "d01 = 3602879701896397 / 2 ^ 55"

definition d006 :: real where
  "d006 = 2161727821137835 / 2 ^ 55"



text \<open>
  A session shortly before the second minute is over. The player stands at
  (100, 150), inside the circle to which \<^verbatim>\<open>Player.update\<close> confines it, at
  level 3 with 70 hit points and the two initial weapons; 39 minions and 2
  elites have been created and killed, and no enemy, orb, chest or particle is
  left. \<open>lateGame1\<close> and \<open>lateGame2\<close> are the states after the next two frames
  of 0.1 s (\<open>lateGame1_a\<close>, \<open>lateGame2_a\<close> and \<open>lateGame2_b\<close> the states in
  between): the second frame takes the survival time past 120 s, and the boss
  appears at (100, 400).
\<close>

definition fallenMinion :: enemy where
  "fallenMinion = (Enemy_new 100 230 minion)\<lparr>e_hp := 0, e_isDead := True\<rparr>"

definition fallenElite :: enemy where
  "fallenElite = (Enemy_new 100 230 elite)\<lparr>e_hp := 0, e_isDead := True\<rparr>"

definition graveyard :: "enemy list" where
  "graveyard =
     replicate 19 fallenMinion @ [fallenElite] @ replicate 12 fallenMinion @ [fallenElite] @
     replicate 8 fallenMinion"

definition lateGame :: game where
  "lateGame =
     (init halves)
       \<lparr>g_player := (Player_new 100 150)\<lparr>p_hp := 70, p_level := 3, p_exp := 35,
                                          p_autoCollectBuff := 1.15\<rparr>,
        g_heap := graveyard, g_score := 648, g_killCount := 41, g_survivalTime := 119.85,
        g_enemySpawnTimer := 8.8, g_eliteSpawnTimer := 29.66, g_chestSpawnTimer := 29.7,
        g_randPos := 1933\<rparr>"

definition lateGame1_a :: game where
  "lateGame1_a =
     lateGame
       \<lparr>g_player := (Player_new 100 150)\<lparr>p_hp := 70, p_level := 3, p_exp := 35,
                                          p_currentAngle := 12, p_autoCollectBuff := 1.05\<rparr>,
        g_survivalTime := 119.95\<rparr>"

definition lateGame1 :: game where
  "lateGame1 =
     lateGame
       \<lparr>g_player := (Player_new 100 150)\<lparr>p_hp := 70, p_level := 3, p_exp := 35,
                                          p_currentAngle := 12, p_autoCollectBuff := 1.05\<rparr>,
        g_survivalTime := 119.95,
        g_enemySpawnTimer := 8.9, g_eliteSpawnTimer := 29.76, g_chestSpawnTimer := 29.8\<rparr>"

definition lateGame2_a :: game where
  "lateGame2_a =
     lateGame1
       \<lparr>g_player := (Player_new 100 150)\<lparr>p_hp := 70, p_level := 3, p_exp := 35,
                                          p_currentAngle := 24, p_autoCollectBuff := 0.95\<rparr>,
        g_survivalTime := 120.05\<rparr>"

definition lateGame2_b :: game where
  "lateGame2_b =
     lateGame2_a\<lparr>g_enemySpawnTimer := 9, g_eliteSpawnTimer := 29.86, g_chestSpawnTimer := 29.9\<rparr>"

definition lateGame2 :: game where
  "lateGame2 =
     lateGame1
       \<lparr>g_player := (Player_new 100 150)\<lparr>p_hp := 70, p_level := 3, p_exp := 35,
                                          p_currentAngle := 24, p_autoCollectBuff := 0.95\<rparr>,
        g_heap := graveyard @ [Enemy_new 100 400 boss], g_enemies := [41],
        g_score := 650, g_survivalTime := 120.05,
        g_enemySpawnTimer := 9, g_eliteSpawnTimer := 29.86, g_chestSpawnTimer := 29.9,
        g_bossSpawned := True, g_bossAlive := True, g_randPos := 1934\<rparr>"

text \<open>
  The six frames of 0.1 s that follow. \<open>skirmish3\<close> to \<open>skirmish8\<close> are the
  states after the third to the eighth frame; in each frame \<open>_a\<close> is the state
  after the player has been updated, \<open>_boss\<close> and \<open>_elite\<close> the states after the
  loop body for that enemy, and \<open>_p\<close> the state after the particles. In the
  third frame the boss, at (100, 388) after its move (\<open>skirmish3_boss_moved\<close>),
  triggers its attack. An elite is created in the fourth frame.
\<close>

definition skirmish3_a :: game where
  "skirmish3_a =
     lateGame2
       \<lparr>g_player := (Player_new 100 150)\<lparr>p_hp := 70, p_level := 3, p_exp := 35, p_currentAngle := 36, p_autoCollectBuff := 0.85\<rparr>,
        g_heap := graveyard @ [Enemy_new 100 400 boss],
        g_enemies := [41], g_particles := [],
        g_score := 650, g_survivalTime := 120.15,
        g_enemySpawnTimer := 9, g_eliteSpawnTimer := 29.86, g_chestSpawnTimer := 29.9,
        g_timers := [], g_randPos := 1934\<rparr>"

definition skirmish3_boss_moved :: game where
  "skirmish3_boss_moved =
     lateGame2
       \<lparr>g_player := (Player_new 100 150)\<lparr>p_hp := 70, p_level := 3, p_exp := 35, p_currentAngle := 36, p_autoCollectBuff := 0.85\<rparr>,
        g_heap := graveyard @ [(Enemy_new 100 388 boss)\<lparr>e_attackCooldown := - 0.1\<rparr>],
        g_enemies := [41], g_particles := [],
        g_score := 650, g_survivalTime := 120.15,
        g_enemySpawnTimer := 9, g_eliteSpawnTimer := 29.86, g_chestSpawnTimer := 29.9,
        g_timers := [], g_randPos := 1934\<rparr>"

definition skirmish3_boss :: game where
  "skirmish3_boss =
     lateGame2
       \<lparr>g_player := (Player_new 100 150)\<lparr>p_hp := 70, p_level := 3, p_exp := 35, p_currentAngle := 36, p_autoCollectBuff := 0.85\<rparr>,
        g_heap := graveyard @ [(Enemy_new 100 388 boss)\<lparr>e_attackCooldown := 5\<rparr>],
        g_enemies := [41], g_particles := warningRing 100 388 0.5,
        g_score := 650, g_survivalTime := 120.15,
        g_enemySpawnTimer := 9, g_eliteSpawnTimer := 29.86, g_chestSpawnTimer := 29.9,
        g_timers := [BossAttackTimer 41], g_randPos := 1934\<rparr>"

definition skirmish3_p :: game where
  "skirmish3_p =
     lateGame2
       \<lparr>g_player := (Player_new 100 150)\<lparr>p_hp := 70, p_level := 3, p_exp := 35, p_currentAngle := 36, p_autoCollectBuff := 0.85\<rparr>,
        g_heap := graveyard @ [(Enemy_new 100 388 boss)\<lparr>e_attackCooldown := 5\<rparr>],
        g_enemies := [41], g_particles := warningRing 100 388 0.4,
        g_score := 650, g_survivalTime := 120.15,
        g_enemySpawnTimer := 9, g_eliteSpawnTimer := 29.86, g_chestSpawnTimer := 29.9,
        g_timers := [BossAttackTimer 41], g_randPos := 1934\<rparr>"

definition skirmish3 :: game where
  "skirmish3 =
     lateGame2
       \<lparr>g_player := (Player_new 100 150)\<lparr>p_hp := 70, p_level := 3, p_exp := 35, p_currentAngle := 36, p_autoCollectBuff := 0.85\<rparr>,
        g_heap := graveyard @ [(Enemy_new 100 388 boss)\<lparr>e_attackCooldown := 5\<rparr>],
        g_enemies := [41], g_particles := warningRing 100 388 0.4,
        g_score := 650, g_survivalTime := 120.15,
        g_enemySpawnTimer := 9.1, g_eliteSpawnTimer := 29.96, g_chestSpawnTimer := 30,
        g_timers := [BossAttackTimer 41], g_randPos := 1934\<rparr>"

definition skirmish4_a :: game where
  "skirmish4_a =
     lateGame2
       \<lparr>g_player := (Player_new 100 150)\<lparr>p_hp := 70, p_level := 3, p_exp := 35, p_currentAngle := 48, p_autoCollectBuff := 0.75\<rparr>,
        g_heap := graveyard @ [(Enemy_new 100 388 boss)\<lparr>e_attackCooldown := 5\<rparr>],
        g_enemies := [41], g_particles := warningRing 100 388 0.4,
        g_score := 650, g_survivalTime := 120.25,
        g_enemySpawnTimer := 9.1, g_eliteSpawnTimer := 29.96, g_chestSpawnTimer := 30,
        g_timers := [BossAttackTimer 41], g_randPos := 1934\<rparr>"

definition skirmish4_boss :: game where
  "skirmish4_boss =
     lateGame2
       \<lparr>g_player := (Player_new 100 150)\<lparr>p_hp := 70, p_level := 3, p_exp := 35, p_currentAngle := 48, p_autoCollectBuff := 0.75\<rparr>,
        g_heap := graveyard @ [(Enemy_new 100 376 boss)\<lparr>e_attackCooldown := 4.9\<rparr>],
        g_enemies := [41], g_particles := warningRing 100 388 0.4,
        g_score := 650, g_survivalTime := 120.25,
        g_enemySpawnTimer := 9.1, g_eliteSpawnTimer := 29.96, g_chestSpawnTimer := 30,
        g_timers := [BossAttackTimer 41], g_randPos := 1934\<rparr>"

definition skirmish4_p :: game where
  "skirmish4_p =
     lateGame2
       \<lparr>g_player := (Player_new 100 150)\<lparr>p_hp := 70, p_level := 3, p_exp := 35, p_currentAngle := 48, p_autoCollectBuff := 0.75\<rparr>,
        g_heap := graveyard @ [(Enemy_new 100 376 boss)\<lparr>e_attackCooldown := 4.9\<rparr>],
        g_enemies := [41], g_particles := warningRing 100 388 0.3,
        g_score := 650, g_survivalTime := 120.25,
        g_enemySpawnTimer := 9.1, g_eliteSpawnTimer := 29.96, g_chestSpawnTimer := 30,
        g_timers := [BossAttackTimer 41], g_randPos := 1934\<rparr>"

definition skirmish4 :: game where
  "skirmish4 =
     lateGame2
       \<lparr>g_player := (Player_new 100 150)\<lparr>p_hp := 70, p_level := 3, p_exp := 35, p_currentAngle := 48, p_autoCollectBuff := 0.75\<rparr>,
        g_heap := graveyard @ [(Enemy_new 100 376 boss)\<lparr>e_attackCooldown := 4.9\<rparr>, Enemy_new 100 400 elite],
        g_enemies := [41, 42], g_particles := warningRing 100 388 0.3,
        g_score := 650, g_survivalTime := 120.25,
        g_enemySpawnTimer := 9.2, g_eliteSpawnTimer := 0, g_chestSpawnTimer := 30.1,
        g_timers := [BossAttackTimer 41], g_randPos := 1935\<rparr>"

definition skirmish5_a :: game where
  "skirmish5_a =
     lateGame2
       \<lparr>g_player := (Player_new 100 150)\<lparr>p_hp := 70, p_level := 3, p_exp := 35, p_currentAngle := 60, p_autoCollectBuff := 0.65\<rparr>,
        g_heap := graveyard @ [(Enemy_new 100 376 boss)\<lparr>e_attackCooldown := 4.9\<rparr>, Enemy_new 100 400 elite],
        g_enemies := [41, 42], g_particles := warningRing 100 388 0.3,
        g_score := 650, g_survivalTime := 120.35,
        g_enemySpawnTimer := 9.2, g_eliteSpawnTimer := 0, g_chestSpawnTimer := 30.1,
        g_timers := [BossAttackTimer 41], g_randPos := 1935\<rparr>"

definition skirmish5_boss :: game where
  "skirmish5_boss =
     lateGame2
       \<lparr>g_player := (Player_new 100 150)\<lparr>p_hp := 70, p_level := 3, p_exp := 35, p_currentAngle := 60, p_autoCollectBuff := 0.65\<rparr>,
        g_heap := graveyard @ [(Enemy_new 100 364 boss)\<lparr>e_attackCooldown := 4.8\<rparr>, Enemy_new 100 400 elite],
        g_enemies := [41, 42], g_particles := warningRing 100 388 0.3,
        g_score := 650, g_survivalTime := 120.35,
        g_enemySpawnTimer := 9.2, g_eliteSpawnTimer := 0, g_chestSpawnTimer := 30.1,
        g_timers := [BossAttackTimer 41], g_randPos := 1935\<rparr>"

definition skirmish5_elite :: game where
  "skirmish5_elite =
     lateGame2
       \<lparr>g_player := (Player_new 100 150)\<lparr>p_hp := 70, p_level := 3, p_exp := 35, p_currentAngle := 60, p_autoCollectBuff := 0.65\<rparr>,
        g_heap := graveyard @ [(Enemy_new 100 364 boss)\<lparr>e_attackCooldown := 4.8\<rparr>, Enemy_new 100 390 elite],
        g_enemies := [41, 42], g_particles := warningRing 100 388 0.3,
        g_score := 650, g_survivalTime := 120.35,
        g_enemySpawnTimer := 9.2, g_eliteSpawnTimer := 0, g_chestSpawnTimer := 30.1,
        g_timers := [BossAttackTimer 41], g_randPos := 1935\<rparr>"

definition skirmish5_p :: game where
  "skirmish5_p =
     lateGame2
       \<lparr>g_player := (Player_new 100 150)\<lparr>p_hp := 70, p_level := 3, p_exp := 35, p_currentAngle := 60, p_autoCollectBuff := 0.65\<rparr>,
        g_heap := graveyard @ [(Enemy_new 100 364 boss)\<lparr>e_attackCooldown := 4.8\<rparr>, Enemy_new 100 390 elite],
        g_enemies := [41, 42], g_particles := warningRing 100 388 0.2,
        g_score := 650, g_survivalTime := 120.35,
        g_enemySpawnTimer := 9.2, g_eliteSpawnTimer := 0, g_chestSpawnTimer := 30.1,
        g_timers := [BossAttackTimer 41], g_randPos := 1935\<rparr>"

definition skirmish5 :: game where
  "skirmish5 =
     lateGame2
       \<lparr>g_player := (Player_new 100 150)\<lparr>p_hp := 70, p_level := 3, p_exp := 35, p_currentAngle := 60, p_autoCollectBuff := 0.65\<rparr>,
        g_heap := graveyard @ [(Enemy_new 100 364 boss)\<lparr>e_attackCooldown := 4.8\<rparr>, Enemy_new 100 390 elite],
        g_enemies := [41, 42], g_particles := warningRing 100 388 0.2,
        g_score := 650, g_survivalTime := 120.35,
        g_enemySpawnTimer := 9.3, g_eliteSpawnTimer := 0.1, g_chestSpawnTimer := 30.2,
        g_timers := [BossAttackTimer 41], g_randPos := 1935\<rparr>"

definition skirmish6_a :: game where
  "skirmish6_a =
     lateGame2
       \<lparr>g_player := (Player_new 100 150)\<lparr>p_hp := 70, p_level := 3, p_exp := 35, p_currentAngle := 72, p_autoCollectBuff := 0.55\<rparr>,
        g_heap := graveyard @ [(Enemy_new 100 364 boss)\<lparr>e_attackCooldown := 4.8\<rparr>, Enemy_new 100 390 elite],
        g_enemies := [41, 42], g_particles := warningRing 100 388 0.2,
        g_score := 650, g_survivalTime := 120.45,
        g_enemySpawnTimer := 9.3, g_eliteSpawnTimer := 0.1, g_chestSpawnTimer := 30.2,
        g_timers := [BossAttackTimer 41], g_randPos := 1935\<rparr>"

definition skirmish6_boss :: game where
  "skirmish6_boss =
     lateGame2
       \<lparr>g_player := (Player_new 100 150)\<lparr>p_hp := 70, p_level := 3, p_exp := 35, p_currentAngle := 72, p_autoCollectBuff := 0.55\<rparr>,
        g_heap := graveyard @ [(Enemy_new 100 352 boss)\<lparr>e_attackCooldown := 4.7\<rparr>, Enemy_new 100 390 elite],
        g_enemies := [41, 42], g_particles := warningRing 100 388 0.2,
        g_score := 650, g_survivalTime := 120.45,
        g_enemySpawnTimer := 9.3, g_eliteSpawnTimer := 0.1, g_chestSpawnTimer := 30.2,
        g_timers := [BossAttackTimer 41], g_randPos := 1935\<rparr>"

definition skirmish6_elite :: game where
  "skirmish6_elite =
     lateGame2
       \<lparr>g_player := (Player_new 100 150)\<lparr>p_hp := 70, p_level := 3, p_exp := 35, p_currentAngle := 72, p_autoCollectBuff := 0.55\<rparr>,
        g_heap := graveyard @ [(Enemy_new 100 352 boss)\<lparr>e_attackCooldown := 4.7\<rparr>, Enemy_new 100 380 elite],
        g_enemies := [41, 42], g_particles := warningRing 100 388 0.2,
        g_score := 650, g_survivalTime := 120.45,
        g_enemySpawnTimer := 9.3, g_eliteSpawnTimer := 0.1, g_chestSpawnTimer := 30.2,
        g_timers := [BossAttackTimer 41], g_randPos := 1935\<rparr>"

definition skirmish6_p :: game where
  "skirmish6_p =
     lateGame2
       \<lparr>g_player := (Player_new 100 150)\<lparr>p_hp := 70, p_level := 3, p_exp := 35, p_currentAngle := 72, p_autoCollectBuff := 0.55\<rparr>,
        g_heap := graveyard @ [(Enemy_new 100 352 boss)\<lparr>e_attackCooldown := 4.7\<rparr>, Enemy_new 100 380 elite],
        g_enemies := [41, 42], g_particles := warningRing 100 388 0.1,
        g_score := 650, g_survivalTime := 120.45,
        g_enemySpawnTimer := 9.3, g_eliteSpawnTimer := 0.1, g_chestSpawnTimer := 30.2,
        g_timers := [BossAttackTimer 41], g_randPos := 1935\<rparr>"

definition skirmish6 :: game where
  "skirmish6 =
     lateGame2
       \<lparr>g_player := (Player_new 100 150)\<lparr>p_hp := 70, p_level := 3, p_exp := 35, p_currentAngle := 72, p_autoCollectBuff := 0.55\<rparr>,
        g_heap := graveyard @ [(Enemy_new 100 352 boss)\<lparr>e_attackCooldown := 4.7\<rparr>, Enemy_new 100 380 elite],
        g_enemies := [41, 42], g_particles := warningRing 100 388 0.1,
        g_score := 650, g_survivalTime := 120.45,
        g_enemySpawnTimer := 9.4, g_eliteSpawnTimer := 0.2, g_chestSpawnTimer := 30.3,
        g_timers := [BossAttackTimer 41], g_randPos := 1935\<rparr>"

definition skirmish7_a :: game where
  "skirmish7_a =
     lateGame2
       \<lparr>g_player := (Player_new 100 150)\<lparr>p_hp := 70, p_level := 3, p_exp := 35, p_currentAngle := 84, p_autoCollectBuff := 0.45\<rparr>,
        g_heap := graveyard @ [(Enemy_new 100 352 boss)\<lparr>e_attackCooldown := 4.7\<rparr>, Enemy_new 100 380 elite],
        g_enemies := [41, 42], g_particles := warningRing 100 388 0.1,
        g_score := 650, g_survivalTime := 120.55,
        g_enemySpawnTimer := 9.4, g_eliteSpawnTimer := 0.2, g_chestSpawnTimer := 30.3,
        g_timers := [BossAttackTimer 41], g_randPos := 1935\<rparr>"

definition skirmish7_boss :: game where
  "skirmish7_boss =
     lateGame2
       \<lparr>g_player := (Player_new 100 150)\<lparr>p_hp := 70, p_level := 3, p_exp := 35, p_currentAngle := 84, p_autoCollectBuff := 0.45\<rparr>,
        g_heap := graveyard @ [(Enemy_new 100 340 boss)\<lparr>e_attackCooldown := 4.6\<rparr>, Enemy_new 100 380 elite],
        g_enemies := [41, 42], g_particles := warningRing 100 388 0.1,
        g_score := 650, g_survivalTime := 120.55,
        g_enemySpawnTimer := 9.4, g_eliteSpawnTimer := 0.2, g_chestSpawnTimer := 30.3,
        g_timers := [BossAttackTimer 41], g_randPos := 1935\<rparr>"

definition skirmish7_elite :: game where
  "skirmish7_elite =
     lateGame2
       \<lparr>g_player := (Player_new 100 150)\<lparr>p_hp := 70, p_level := 3, p_exp := 35, p_currentAngle := 84, p_autoCollectBuff := 0.45\<rparr>,
        g_heap := graveyard @ [(Enemy_new 100 340 boss)\<lparr>e_attackCooldown := 4.6\<rparr>, Enemy_new 100 370 elite],
        g_enemies := [41, 42], g_particles := warningRing 100 388 0.1,
        g_score := 650, g_survivalTime := 120.55,
        g_enemySpawnTimer := 9.4, g_eliteSpawnTimer := 0.2, g_chestSpawnTimer := 30.3,
        g_timers := [BossAttackTimer 41], g_randPos := 1935\<rparr>"

definition skirmish7_p :: game where
  "skirmish7_p =
     lateGame2
       \<lparr>g_player := (Player_new 100 150)\<lparr>p_hp := 70, p_level := 3, p_exp := 35, p_currentAngle := 84, p_autoCollectBuff := 0.45\<rparr>,
        g_heap := graveyard @ [(Enemy_new 100 340 boss)\<lparr>e_attackCooldown := 4.6\<rparr>, Enemy_new 100 370 elite],
        g_enemies := [41, 42], g_particles := [],
        g_score := 650, g_survivalTime := 120.55,
        g_enemySpawnTimer := 9.4, g_eliteSpawnTimer := 0.2, g_chestSpawnTimer := 30.3,
        g_timers := [BossAttackTimer 41], g_randPos := 1935\<rparr>"

definition skirmish7 :: game where
  "skirmish7 =
     lateGame2
       \<lparr>g_player := (Player_new 100 150)\<lparr>p_hp := 70, p_level := 3, p_exp := 35, p_currentAngle := 84, p_autoCollectBuff := 0.45\<rparr>,
        g_heap := graveyard @ [(Enemy_new 100 340 boss)\<lparr>e_attackCooldown := 4.6\<rparr>, Enemy_new 100 370 elite],
        g_enemies := [41, 42], g_particles := [],
        g_score := 650, g_survivalTime := 120.55,
        g_enemySpawnTimer := 9.5, g_eliteSpawnTimer := 0.3, g_chestSpawnTimer := 30.4,
        g_timers := [BossAttackTimer 41], g_randPos := 1935\<rparr>"

definition skirmish8_a :: game where
  "skirmish8_a =
     lateGame2
       \<lparr>g_player := (Player_new 100 150)\<lparr>p_hp := 70, p_level := 3, p_exp := 35, p_currentAngle := 96, p_autoCollectBuff := 0.35\<rparr>,
        g_heap := graveyard @ [(Enemy_new 100 340 boss)\<lparr>e_attackCooldown := 4.6\<rparr>, Enemy_new 100 370 elite],
        g_enemies := [41, 42], g_particles := [],
        g_score := 650, g_survivalTime := 120.65,
        g_enemySpawnTimer := 9.5, g_eliteSpawnTimer := 0.3, g_chestSpawnTimer := 30.4,
        g_timers := [BossAttackTimer 41], g_randPos := 1935\<rparr>"

definition skirmish8_boss :: game where
  "skirmish8_boss =
     lateGame2
       \<lparr>g_player := (Player_new 100 150)\<lparr>p_hp := 70, p_level := 3, p_exp := 35, p_currentAngle := 96, p_autoCollectBuff := 0.35\<rparr>,
        g_heap := graveyard @ [(Enemy_new 100 328 boss)\<lparr>e_attackCooldown := 4.5\<rparr>, Enemy_new 100 370 elite],
        g_enemies := [41, 42], g_particles := [],
        g_score := 650, g_survivalTime := 120.65,
        g_enemySpawnTimer := 9.5, g_eliteSpawnTimer := 0.3, g_chestSpawnTimer := 30.4,
        g_timers := [BossAttackTimer 41], g_randPos := 1935\<rparr>"

definition skirmish8_elite :: game where
  "skirmish8_elite =
     lateGame2
       \<lparr>g_player := (Player_new 100 150)\<lparr>p_hp := 70, p_level := 3, p_exp := 35, p_currentAngle := 96, p_autoCollectBuff := 0.35\<rparr>,
        g_heap := graveyard @ [(Enemy_new 100 328 boss)\<lparr>e_attackCooldown := 4.5\<rparr>, Enemy_new 100 360 elite],
        g_enemies := [41, 42], g_particles := [],
        g_score := 650, g_survivalTime := 120.65,
        g_enemySpawnTimer := 9.5, g_eliteSpawnTimer := 0.3, g_chestSpawnTimer := 30.4,
        g_timers := [BossAttackTimer 41], g_randPos := 1935\<rparr>"

definition skirmish8_p :: game where
  "skirmish8_p =
     lateGame2
       \<lparr>g_player := (Player_new 100 150)\<lparr>p_hp := 70, p_level := 3, p_exp := 35, p_currentAngle := 96, p_autoCollectBuff := 0.35\<rparr>,
        g_heap := graveyard @ [(Enemy_new 100 328 boss)\<lparr>e_attackCooldown := 4.5\<rparr>, Enemy_new 100 360 elite],
        g_enemies := [41, 42], g_particles := [],
        g_score := 650, g_survivalTime := 120.65,
        g_enemySpawnTimer := 9.5, g_eliteSpawnTimer := 0.3, g_chestSpawnTimer := 30.4,
        g_timers := [BossAttackTimer 41], g_randPos := 1935\<rparr>"

definition skirmish8 :: game where
  "skirmish8 =
     lateGame2
       \<lparr>g_player := (Player_new 100 150)\<lparr>p_hp := 70, p_level := 3, p_exp := 35, p_currentAngle := 96, p_autoCollectBuff := 0.35\<rparr>,
        g_heap := graveyard @ [(Enemy_new 100 328 boss)\<lparr>e_attackCooldown := 4.5\<rparr>, Enemy_new 100 360 elite],
        g_enemies := [41, 42], g_particles := [],
        g_score := 650, g_survivalTime := 120.65,
        g_enemySpawnTimer := 9.6, g_eliteSpawnTimer := 0.4, g_chestSpawnTimer := 30.5,
        g_timers := [BossAttackTimer 41], g_randPos := 1935\<rparr>"

section \<open>Properties of the player\<close>

lemma Player_phases_invincible [simp]:
  "p_invincible (Player_keyboard keys p) = p_invincible p"
  "p_invincible (Player_pointer p) = p_invincible p"
  "p_invincible (Player_normalize p) = p_invincible p"
  "p_invincible (Player_integrate dt p) = p_invincible p"
  "p_invincible (Player_boundary R p) = p_invincible p"
  "p_invincible (Player_rotate dt p) = p_invincible p"
  by (simp_all add: Player_keyboard_def Player_pointer_def Player_normalize_def
      Player_integrate_def Player_boundary_def Player_rotate_def Let_def
      split: option.splits)

lemma Player_update_invincible:
  "p_invincible (Player_update dt keys R p) =
     (if p_invincible p > 0 then p_invincible p - dt else p_invincible p)"
  by (simp add: Player_update_def Player_buffs_def Let_def)

text \<open>
  C5. \<^verbatim>\<open>Player.checkLevelUp\<close> advances at most one level per call: with
  \<open>exp \<ge> expToLevel\<close> it subtracts the threshold once, adds exactly 1 to the
  level and returns true, and otherwise it changes nothing and returns false.
  With \<open>exp = 100\<close> and threshold 100, \<^verbatim>\<open>gainExp(0)\<close> and one call leave
  \<open>exp = 0\<close> one level up; with \<open>exp = 250\<close> one call leaves \<open>exp = 150\<close> one
  level up.
\<close>

theorem checkLevelUp_single_step:
  "(p_exp p \<ge> p_expToLevel p \<longrightarrow>
      Player_checkLevelUp p =
        (True, p\<lparr>p_exp := p_exp p - p_expToLevel p, p_level := p_level p + 1\<rparr>)) \<and>
   (\<not> p_exp p \<ge> p_expToLevel p \<longrightarrow> Player_checkLevelUp p = (False, p)) \<and>
   (p_exp p = 100 \<and> p_expToLevel p = 100 \<longrightarrow>
      Player_checkLevelUp (Player_gainExp 0 p) =
        (True, p\<lparr>p_exp := 0, p_level := p_level p + 1\<rparr>)) \<and>
   (p_exp p = 250 \<and> p_expToLevel p = 100 \<longrightarrow>
      Player_checkLevelUp p = (True, p\<lparr>p_exp := 150, p_level := p_level p + 1\<rparr>))"
  by (simp add: Player_checkLevelUp_def Player_gainExp_def)

theorem checkLevelUp_single_step_witness:
  "Player_checkLevelUp (Player_gainExp 0 ((Player_new 600 400)\<lparr>p_exp := 100\<rparr>))
     = (True, (Player_new 600 400)\<lparr>p_exp := 0, p_level := 2\<rparr>) \<and>
   Player_checkLevelUp ((Player_new 600 400)\<lparr>p_exp := 250\<rparr>)
     = (True, (Player_new 600 400)\<lparr>p_exp := 150, p_level := 2\<rparr>) \<and>
   Player_checkLevelUp ((Player_new 600 400)\<lparr>p_exp := 99\<rparr>)
     = (False, (Player_new 600 400)\<lparr>p_exp := 99\<rparr>)"
  using checkLevelUp_single_step [of "(Player_new 600 400)\<lparr>p_exp := 100\<rparr>"]
    checkLevelUp_single_step [of "(Player_new 600 400)\<lparr>p_exp := 250\<rparr>"]
    checkLevelUp_single_step [of "(Player_new 600 400)\<lparr>p_exp := 99\<rparr>"]
  by (simp add: Player_new_def)

lemma Player_phases_autoCollectBuff [simp]:
  "p_autoCollectBuff (Player_keyboard keys p) = p_autoCollectBuff p"
  "p_autoCollectBuff (Player_pointer p) = p_autoCollectBuff p"
  "p_autoCollectBuff (Player_normalize p) = p_autoCollectBuff p"
  "p_autoCollectBuff (Player_integrate dt p) = p_autoCollectBuff p"
  "p_autoCollectBuff (Player_boundary R p) = p_autoCollectBuff p"
  "p_autoCollectBuff (Player_rotate dt p) = p_autoCollectBuff p"
  by (simp_all add: Player_keyboard_def Player_pointer_def Player_normalize_def
      Player_integrate_def Player_boundary_def Player_rotate_def Let_def
      split: option.splits)

lemma Player_update_autoCollectBuff:
  "p_autoCollectBuff (Player_update dt keys R p) =
     (if p_autoCollectBuff p > 0 then p_autoCollectBuff p - dt else p_autoCollectBuff p)"
  by (simp add: Player_update_def Player_buffs_def Let_def)

text \<open>
  C6, as stated: after \<^verbatim>\<open>Player.update\<close> the invincibility countdown is not
  negative. It fails for a countdown of 0.02 s and a frame of 0.03 s.
\<close>

theorem update_countdown_negative_counterexample:
  "\<not> 0 \<le> p_invincible (Player_update 0.03 {} 500 ((Player_new 600 400)\<lparr>p_invincible := 0.02\<rparr>))"
  by (simp add: Player_update_invincible)

text \<open>
  C6, amended. For a time step \<open>dt \<ge> 0\<close>, \<^verbatim>\<open>Player.update\<close> subtracts \<open>dt\<close>
  from the invincibility countdown and from the auto-collect countdown when the
  countdown is positive, and leaves it as it is otherwise; there is no floor at
  zero. A countdown that is not negative before the update is at least \<open>- dt\<close>
  after it.
\<close>

theorem update_countdowns_bounded:
  "0 \<le> dt \<Longrightarrow>
   p_invincible (Player_update dt keys R p) =
     (if p_invincible p > 0 then p_invincible p - dt else p_invincible p) \<and>
   p_autoCollectBuff (Player_update dt keys R p) =
     (if p_autoCollectBuff p > 0 then p_autoCollectBuff p - dt else p_autoCollectBuff p) \<and>
   (0 \<le> p_invincible p \<longrightarrow> - dt \<le> p_invincible (Player_update dt keys R p)) \<and>
   (0 \<le> p_autoCollectBuff p \<longrightarrow> - dt \<le> p_autoCollectBuff (Player_update dt keys R p))"
  by (simp add: Player_update_invincible Player_update_autoCollectBuff)

theorem update_countdowns_bounded_witness:
  "p_invincible (Player_update 0.03 {} 500 ((Player_new 600 400)\<lparr>p_invincible := 0.02\<rparr>)) = - 0.01 \<and>
   - 0.03 \<le> p_autoCollectBuff (Player_update 0.03 {} 500 ((Player_new 600 400)\<lparr>p_invincible := 0.02\<rparr>))"
proof -
  let ?p = "(Player_new 600 400)\<lparr>p_invincible := 0.02\<rparr>"
  have h: "(0::real) \<le> 0.03" by simp
  have v: "p_invincible ?p = 0.02" "p_autoCollectBuff ?p = 0"
    by (simp_all add: Player_new_def)
  show ?thesis
    using update_countdowns_bounded [OF h, where p = ?p and keys = "{}" and R = 500] v
    by simp
qed

section \<open>Frame properties of the driver\<close>

lemma fold_frame: "(\<And>x s. h (f x s) = h s) \<Longrightarrow> h (fold f xs s) = h s"
  by (induction xs arbitrary: s) simp_all

lemma funpow_frame: "(\<And>s. h (f s) = h s) \<Longrightarrow> h ((f ^^ n) s) = h s"
  by (induction n) simp_all

lemma Player_phases_expToLevel [simp]:
  "p_expToLevel (Player_keyboard keys p) = p_expToLevel p"
  "p_expToLevel (Player_pointer p) = p_expToLevel p"
  "p_expToLevel (Player_normalize p) = p_expToLevel p"
  "p_expToLevel (Player_integrate dt p) = p_expToLevel p"
  "p_expToLevel (Player_boundary R p) = p_expToLevel p"
  "p_expToLevel (Player_rotate dt p) = p_expToLevel p"
  "p_expToLevel (Player_buffs dt p) = p_expToLevel p"
  by (simp_all add: Player_keyboard_def Player_pointer_def Player_normalize_def
      Player_integrate_def Player_boundary_def Player_rotate_def Player_buffs_def Let_def
      split: option.splits)

lemma Player_update_expToLevel [simp]:
  "p_expToLevel (Player_update dt keys R p) = p_expToLevel p"
  by (simp add: Player_update_def)

lemma Player_takeDamage_expToLevel [simp]:
  "p_expToLevel (Player_takeDamage d p) = p_expToLevel p"
  by (simp add: Player_takeDamage_def Let_def)

lemma Player_gainExp_expToLevel [simp]:
  "p_expToLevel (Player_gainExp v p) = p_expToLevel p"
  by (simp add: Player_gainExp_def)

lemma Player_checkLevelUp_expToLevel [simp]:
  "p_expToLevel (snd (Player_checkLevelUp p)) = p_expToLevel p"
  by (simp add: Player_checkLevelUp_def)

lemma Player_heal_expToLevel [simp]:
  "p_expToLevel (Player_heal v p) = p_expToLevel p"
  by (simp add: Player_heal_def)

lemma killEnemy_player [simp]: "g_player (killEnemy a g) = g_player g"
  by (simp add: killEnemy_def gameOver_def skip_def Let_def)

lemma weaponHit_player [simp]: "g_player (weaponHit a wp g) = g_player g"
  by (simp add: weaponHit_def Let_def)

lemma enemyWeapons_player [simp]: "g_player (enemyWeapons a g) = g_player g"
  unfolding enemyWeapons_def by (rule fold_frame) simp

lemma enemyMove_player [simp]: "g_player (enemyMove dt a g) = g_player g"
  by (simp add: enemyMove_def)

lemma enemyAttack_player [simp]: "g_player (enemyAttack a g) = g_player g"
  by (simp add: enemyAttack_def createBossAttackWarning_def Let_def)

lemma enemyContact_expToLevel [simp]:
  "p_expToLevel (g_player (enemyContact a g)) = p_expToLevel (g_player g)"
  by (simp add: enemyContact_def Let_def)

lemma enemyStep_expToLevel [simp]:
  "p_expToLevel (g_player (enemyStep dt a g)) = p_expToLevel (g_player g)"
  by (simp add: enemyStep_def)

lemma updateEnemies_expToLevel [simp]:
  "p_expToLevel (g_player (updateEnemies dt g)) = p_expToLevel (g_player g)"
  unfolding updateEnemies_def by (rule fold_frame) simp

lemma orbStep_expToLevel [simp]:
  "p_expToLevel (g_player (orbStep dt fa i g)) = p_expToLevel (g_player g)"
  by (simp add: orbStep_def Let_def split: prod.splits option.splits)

lemma updateExpOrbs_expToLevel [simp]:
  "p_expToLevel (g_player (updateExpOrbs dt fa g)) = p_expToLevel (g_player g)"
proof -
  have "p_expToLevel (g_player (fold (orbStep dt fa) xs g)) = p_expToLevel (g_player g)" for xs
    by (rule fold_frame) simp
  then show ?thesis by (simp add: updateExpOrbs_def Let_def)
qed

lemma applyChestReward_expToLevel [simp]:
  "p_expToLevel (g_player (applyChestReward rw g)) = p_expToLevel (g_player g)"
  by (cases rw) (simp_all add: applyChestReward_def skip_def Let_def)

lemma chestStep_expToLevel [simp]:
  "p_expToLevel (g_player (chestStep dt i g)) = p_expToLevel (g_player g)"
  by (simp add: chestStep_def skip_def Let_def split: prod.splits option.splits)

lemma updateChests_expToLevel [simp]:
  "p_expToLevel (g_player (updateChests dt g)) = p_expToLevel (g_player g)"
proof -
  have "p_expToLevel (g_player (fold (chestStep dt) xs g)) = p_expToLevel (g_player g)" for xs
    by (rule fold_frame) simp
  then show ?thesis by (simp add: updateChests_def Let_def)
qed

lemma spawnEnemy_player [simp]: "g_player (spawnEnemy t g) = g_player g"
  by (simp add: spawnEnemy_def skip_def Let_def)

lemma spawnEnemy_pow_player [simp]: "g_player ((spawnEnemy t ^^ n) g) = g_player g"
  by (rule funpow_frame) simp

lemma spawnEnemies_player [simp]: "g_player (spawnEnemies dt g) = g_player g"
  by (simp add: spawnEnemies_def Let_def)

lemma spawnChestLoop_player [simp]: "g_player (spawnChestLoop n g) = g_player g"
  by (induction n arbitrary: g) (simp_all add: skip_def Let_def)

lemma chestSpawnCheck_player [simp]: "g_player (chestSpawnCheck dt g) = g_player g"
  by (simp add: chestSpawnCheck_def spawnChest_def Let_def)

lemma spawnBoss_player [simp]: "g_player (spawnBoss g) = g_player g"
  by (simp add: spawnBoss_def skip_def Let_def)

lemma tail_player [simp]:
  "g_player (updateScore g) = g_player g"
  "g_player (deathCheck g) = g_player g"
  "g_player (bossSpawnCheck g) = g_player g"
  "g_player (updateParticles dt g) = g_player g"
  "g_player (removeDeadEnemies g) = g_player g"
  by (simp_all add: updateScore_def deathCheck_def gameOver_def bossSpawnCheck_def
      updateParticles_def removeDeadEnemies_def)

lemma levelUpCheck_expToLevel [simp]:
  "p_expToLevel (g_player (levelUpCheck g)) = p_expToLevel (g_player g)"
  by (simp add: levelUpCheck_def showSkillSelection_def Player_checkLevelUp_def Let_def)

lemma updatePlayer_expToLevel [simp]:
  "p_expToLevel (g_player (updatePlayer dt keys g)) = p_expToLevel (g_player g)"
  by (simp add: updatePlayer_def)

lemma update_expToLevel [simp]:
  "p_expToLevel (g_player (update dt keys g)) = p_expToLevel (g_player g)"
  by (simp add: update_def Let_def)

lemma applySkill_expToLevel [simp]:
  "p_expToLevel (g_player (applySkill sk g)) = p_expToLevel (g_player g)"
  by (cases sk) (simp_all add: applySkill_def Let_def)

lemma fireTimer_expToLevel [simp]:
  "p_expToLevel (g_player (fireTimer n g)) = p_expToLevel (g_player g)"
  by (simp add: fireTimer_def runTimer_def bossAttackResolve_def speedBurstEnd_def Let_def
      split: timer.splits)

lemma step_expToLevel [simp]:
  "p_expToLevel (g_player (step e g)) = p_expToLevel (g_player g)"
  by (cases e) (simp_all add: gameLoop_def handleMouseMove_def selectSkill_def Let_def)

lemma exec_expToLevel:
  "p_expToLevel (g_player (exec es g)) = p_expToLevel (g_player g)"
  unfolding exec_def by (rule fold_frame) simp

text \<open>
  C9. The threshold \<open>expToLevel\<close> is 100 when the session starts, and no step of
  the driver changes it, so it is 100 in every state the driver reaches; in
  particular \<^verbatim>\<open>checkLevelUp\<close>, the level-up skills and the chest rewards leave
  it as it is.
\<close>

theorem expToLevel_never_mutated:
  "p_expToLevel (g_player (init rand)) = 100 \<and>
   p_expToLevel (g_player (exec es (init rand))) = 100 \<and>
   p_expToLevel (g_player (step e g)) = p_expToLevel (g_player g) \<and>
   p_expToLevel (snd (Player_checkLevelUp p)) = p_expToLevel p \<and>
   p_expToLevel (g_player (applySkill sk g)) = p_expToLevel (g_player g) \<and>
   p_expToLevel (g_player (applyChestReward rw g)) = p_expToLevel (g_player g)"
  by (simp add: exec_expToLevel) (simp add: init_def Player_new_def)

lemma killEnemy_heap [simp]: "g_heap (killEnemy a g) = g_heap g"
  by (simp add: killEnemy_def gameOver_def skip_def Let_def)

lemma enemyContact_heap [simp]: "g_heap (enemyContact a g) = g_heap g"
  by (simp add: enemyContact_def Let_def)

lemma orbStep_heap [simp]: "g_heap (orbStep dt fa i g) = g_heap g"
  by (simp add: orbStep_def Let_def split: prod.splits option.splits)

lemma updateExpOrbs_heap [simp]: "g_heap (updateExpOrbs dt fa g) = g_heap g"
proof -
  have "g_heap (fold (orbStep dt fa) xs g) = g_heap g" for xs
    by (rule fold_frame) simp
  then show ?thesis by (simp add: updateExpOrbs_def Let_def)
qed

lemma applyChestReward_heap [simp]: "g_heap (applyChestReward rw g) = g_heap g"
  by (cases rw) (simp_all add: applyChestReward_def skip_def Let_def)

lemma chestStep_heap [simp]: "g_heap (chestStep dt i g) = g_heap g"
  by (simp add: chestStep_def skip_def Let_def split: prod.splits option.splits)

lemma updateChests_heap [simp]: "g_heap (updateChests dt g) = g_heap g"
proof -
  have "g_heap (fold (chestStep dt) xs g) = g_heap g" for xs
    by (rule fold_frame) simp
  then show ?thesis by (simp add: updateChests_def Let_def)
qed

lemma spawnChestLoop_heap [simp]: "g_heap (spawnChestLoop n g) = g_heap g"
  by (induction n arbitrary: g) (simp_all add: skip_def Let_def)

lemma misc_heap [simp]:
  "g_heap (chestSpawnCheck dt g) = g_heap g"
  "g_heap (updateScore g) = g_heap g"
  "g_heap (deathCheck g) = g_heap g"
  "g_heap (updateParticles dt g) = g_heap g"
  "g_heap (removeDeadEnemies g) = g_heap g"
  "g_heap (levelUpCheck g) = g_heap g"
  "g_heap (updatePlayer dt keys g) = g_heap g"
  "g_heap (handleMouseMove x y g) = g_heap g"
  "g_heap (fireTimer n g) = g_heap g"
  by (simp_all add: chestSpawnCheck_def spawnChest_def updateScore_def deathCheck_def
      gameOver_def updateParticles_def removeDeadEnemies_def levelUpCheck_def
      showSkillSelection_def updatePlayer_def handleMouseMove_def fireTimer_def runTimer_def
      bossAttackResolve_def speedBurstEnd_def Let_def split: prod.splits timer.splits)

lemma applySkill_heap [simp]: "g_heap (applySkill sk g) = g_heap g"
  by (cases sk) (simp_all add: applySkill_def Let_def)

lemma selectSkill_heap [simp]: "g_heap (selectSkill sk g) = g_heap g"
  by (simp add: selectSkill_def)

lemma killEnemy_bossSpawned [simp]: "g_bossSpawned (killEnemy a g) = g_bossSpawned g"
  by (simp add: killEnemy_def gameOver_def skip_def Let_def)

lemma weaponHit_bossSpawned [simp]: "g_bossSpawned (weaponHit a wp g) = g_bossSpawned g"
  by (simp add: weaponHit_def Let_def)

lemma enemyStep_bossSpawned [simp]: "g_bossSpawned (enemyStep dt a g) = g_bossSpawned g"
proof -
  have "g_bossSpawned (fold (weaponHit a) wps s) = g_bossSpawned s" for wps s
    by (rule fold_frame) simp
  then show ?thesis
    by (simp add: enemyStep_def enemyAttack_def createBossAttackWarning_def enemyWeapons_def
        enemyContact_def enemyMove_def Let_def)
qed

lemma updateEnemies_bossSpawned [simp]: "g_bossSpawned (updateEnemies dt g) = g_bossSpawned g"
  unfolding updateEnemies_def by (rule fold_frame) simp

lemma orbStep_bossSpawned [simp]: "g_bossSpawned (orbStep dt fa i g) = g_bossSpawned g"
  by (simp add: orbStep_def Let_def split: prod.splits option.splits)

lemma updateExpOrbs_bossSpawned [simp]: "g_bossSpawned (updateExpOrbs dt fa g) = g_bossSpawned g"
proof -
  have "g_bossSpawned (fold (orbStep dt fa) xs g) = g_bossSpawned g" for xs
    by (rule fold_frame) simp
  then show ?thesis by (simp add: updateExpOrbs_def Let_def)
qed

lemma applyChestReward_bossSpawned [simp]:
  "g_bossSpawned (applyChestReward rw g) = g_bossSpawned g"
  by (cases rw) (simp_all add: applyChestReward_def skip_def Let_def)

lemma chestStep_bossSpawned [simp]: "g_bossSpawned (chestStep dt i g) = g_bossSpawned g"
  by (simp add: chestStep_def skip_def Let_def split: prod.splits option.splits)

lemma updateChests_bossSpawned [simp]: "g_bossSpawned (updateChests dt g) = g_bossSpawned g"
proof -
  have "g_bossSpawned (fold (chestStep dt) xs g) = g_bossSpawned g" for xs
    by (rule fold_frame) simp
  then show ?thesis by (simp add: updateChests_def Let_def)
qed

lemma spawnEnemy_bossSpawned [simp]: "g_bossSpawned (spawnEnemy t g) = g_bossSpawned g"
  by (simp add: spawnEnemy_def skip_def Let_def)

lemma spawnEnemy_pow_bossSpawned [simp]:
  "g_bossSpawned ((spawnEnemy t ^^ n) g) = g_bossSpawned g"
  by (rule funpow_frame) simp

lemma spawnEnemies_bossSpawned [simp]: "g_bossSpawned (spawnEnemies dt g) = g_bossSpawned g"
  by (simp add: spawnEnemies_def Let_def)

lemma spawnChestLoop_bossSpawned [simp]: "g_bossSpawned (spawnChestLoop n g) = g_bossSpawned g"
  by (induction n arbitrary: g) (simp_all add: skip_def Let_def)

lemma misc_bossSpawned [simp]:
  "g_bossSpawned (chestSpawnCheck dt g) = g_bossSpawned g"
  "g_bossSpawned (updateScore g) = g_bossSpawned g"
  "g_bossSpawned (deathCheck g) = g_bossSpawned g"
  "g_bossSpawned (updateParticles dt g) = g_bossSpawned g"
  "g_bossSpawned (removeDeadEnemies g) = g_bossSpawned g"
  "g_bossSpawned (levelUpCheck g) = g_bossSpawned g"
  "g_bossSpawned (updatePlayer dt keys g) = g_bossSpawned g"
  "g_bossSpawned (handleMouseMove x y g) = g_bossSpawned g"
  "g_bossSpawned (fireTimer n g) = g_bossSpawned g"
  by (simp_all add: chestSpawnCheck_def spawnChest_def updateScore_def deathCheck_def
      gameOver_def updateParticles_def removeDeadEnemies_def levelUpCheck_def
      showSkillSelection_def updatePlayer_def handleMouseMove_def fireTimer_def runTimer_def
      bossAttackResolve_def speedBurstEnd_def Let_def split: prod.splits timer.splits)

lemma applySkill_bossSpawned [simp]: "g_bossSpawned (applySkill sk g) = g_bossSpawned g"
  by (cases sk) (simp_all add: applySkill_def Let_def)

lemma selectSkill_bossSpawned [simp]: "g_bossSpawned (selectSkill sk g) = g_bossSpawned g"
  by (simp add: selectSkill_def)

section \<open>The boss check of an update step\<close>

lemma list_update_same_image:
  "f (h (xs ! a)) = f (xs ! a) \<Longrightarrow> map f (xs[a := h (xs ! a)]) = map f xs"
proof (cases "a < length xs")
  case True
  assume "f (h (xs ! a)) = f (xs ! a)"
  then show ?thesis using True by (simp add: map_update list_update_same_conv)
next
  case False
  then have "xs[a := h (xs ! a)] = xs" by (intro list_update_beyond) simp
  then show ?thesis by simp
qed

lemma list_update_pres:
  assumes "\<forall>e\<in>set xs. P e" and "\<And>e. P e \<Longrightarrow> P (h e)"
  shows "\<forall>e\<in>set (xs[a := h (xs ! a)]). P e"
proof (cases "a < length xs")
  case True
  then have "P (h (xs ! a))" using assms by simp
  then show ?thesis
    using assms(1) set_update_subset_insert [of xs a "h (xs ! a)"] by auto
next
  case False
  then have "xs[a := h (xs ! a)] = xs" by (intro list_update_beyond) simp
  then show ?thesis using assms(1) by simp
qed

lemma Enemy_ops_type [simp]:
  "e_type (Enemy_update dt px py e) = e_type e"
  "e_type (Enemy_takeDamage d e) = e_type e"
  "e_type (performAttack e) = e_type e"
  "e_type (Enemy_new x y t) = t"
  by (simp_all add: Enemy_update_def Enemy_takeDamage_def performAttack_def Enemy_new_def Let_def)

lemma enemyMove_heapTypes [simp]: "heapTypes (enemyMove dt a g) = heapTypes g"
  by (simp add: heapTypes_def enemyMove_def list_update_same_image)

lemma weaponHit_heapTypes [simp]: "heapTypes (weaponHit a wp g) = heapTypes g"
  by (simp add: heapTypes_def weaponHit_def Let_def list_update_same_image)

lemma enemyWeapons_heapTypes [simp]: "heapTypes (enemyWeapons a g) = heapTypes g"
  unfolding enemyWeapons_def by (rule fold_frame) simp

lemma enemyContact_heapTypes [simp]: "heapTypes (enemyContact a g) = heapTypes g"
  by (simp add: heapTypes_def)

lemma enemyAttack_heapTypes [simp]: "heapTypes (enemyAttack a g) = heapTypes g"
  by (simp add: heapTypes_def enemyAttack_def createBossAttackWarning_def Let_def
      list_update_same_image)

lemma enemyStep_heapTypes [simp]: "heapTypes (enemyStep dt a g) = heapTypes g"
  by (simp add: enemyStep_def)

lemma updateEnemies_heapTypes [simp]: "heapTypes (updateEnemies dt g) = heapTypes g"
  unfolding updateEnemies_def by (rule fold_frame) simp

lemma spawnEnemy_heapTypes [simp]: "heapTypes (spawnEnemy t g) = heapTypes g @ [t]"
  by (simp add: heapTypes_def spawnEnemy_def skip_def Let_def)

lemma spawnBoss_bossSpawned [simp]: "g_bossSpawned (spawnBoss g)"
  by (simp add: spawnBoss_def skip_def Let_def)

lemma bossDue_tail [simp]:
  "bossDue (updateScore g) = bossDue g"
  "bossDue (deathCheck g) = bossDue g"
  "bossDue (spawnBoss g) = bossDue g"
  by (simp_all add: bossDue_def updateScore_def deathCheck_def gameOver_def spawnBoss_def
      skip_def Let_def)

lemma bossDue_bossSpawnCheck [simp]: "bossDue (bossSpawnCheck g) = bossDue g"
  by (simp add: bossSpawnCheck_def)

lemma update_beforeBossCheck:
  "update dt keys g = updateScore (deathCheck (bossSpawnCheck (beforeBossCheck dt keys g)))"
  by (simp add: update_def beforeBossCheck_def Let_def)

lemma beforeBossCheck_bossSpawned [simp]:
  "g_bossSpawned (beforeBossCheck dt keys g) = g_bossSpawned g"
  by (simp add: beforeBossCheck_def)

lemma update_bossDue: "bossDue (update dt keys g) = bossDue (beforeBossCheck dt keys g)"
  by (simp add: update_beforeBossCheck)

lemma update_bossSpawned:
  "g_bossSpawned (update dt keys g) = (g_bossSpawned g \<or> bossDue (update dt keys g))"
  by (simp add: update_bossDue) (simp add: update_beforeBossCheck bossSpawnCheck_def)

section \<open>Enemies are never slowed\<close>

lemma unslowed_fullSpeed: "unslowed g \<longleftrightarrow> (\<forall>e\<in>set (g_heap g). fullSpeed e)"
  by (simp add: unslowed_def fullSpeed_def)

lemma Enemy_ops_fullSpeed:
  "fullSpeed e \<Longrightarrow> fullSpeed (Enemy_update dt px py e)"
  "fullSpeed e \<Longrightarrow> fullSpeed (Enemy_takeDamage d e)"
  "fullSpeed e \<Longrightarrow> fullSpeed (performAttack e)"
  "fullSpeed (Enemy_new x y t)"
  by (simp_all add: fullSpeed_def Enemy_update_def Enemy_takeDamage_def performAttack_def
      Enemy_new_def speedMult_def Let_def)

lemma unslowed_heap_cong: "g_heap s = g_heap g \<Longrightarrow> unslowed s = unslowed g"
  by (simp add: unslowed_def)

lemma heap_update_unslowed:
  assumes "unslowed g" and "\<And>e. fullSpeed e \<Longrightarrow> fullSpeed (h e)"
    and "g_heap s = (g_heap g)[a := h (g_heap g ! a)]"
  shows "unslowed s"
  using list_update_pres [where P = fullSpeed and h = h and xs = "g_heap g" and a = a] assms
  by (simp add: unslowed_fullSpeed)

lemma enemyMove_unslowed: "unslowed g \<Longrightarrow> unslowed (enemyMove dt a g)"
  by (rule heap_update_unslowed [where h = "Enemy_update dt (p_x (g_player g)) (p_y (g_player g))"])
    (simp_all add: enemyMove_def Enemy_ops_fullSpeed)

lemma weaponHit_unslowed:
  assumes "unslowed g" shows "unslowed (weaponHit a wp g)"
proof -
  let ?s = "g\<lparr>g_heap := (g_heap g)[a := Enemy_takeDamage (p_weaponDamage (g_player g)) (g_heap g ! a)]\<rparr>"
  have "unslowed ?s"
    by (rule heap_update_unslowed [OF assms, where h = "Enemy_takeDamage (p_weaponDamage (g_player g))"])
      (simp_all add: Enemy_ops_fullSpeed)
  moreover have "unslowed (killEnemy a ?s) = unslowed ?s"
    by (rule unslowed_heap_cong) simp
  ultimately show ?thesis using assms by (simp add: weaponHit_def Let_def)
qed

lemma fold_invariant: "(\<And>x s. I s \<Longrightarrow> I (f x s)) \<Longrightarrow> I s \<Longrightarrow> I (fold f xs s)"
  by (induction xs arbitrary: s) simp_all

lemma funpow_invariant: "(\<And>s. I s \<Longrightarrow> I (f s)) \<Longrightarrow> I s \<Longrightarrow> I ((f ^^ n) s)"
  by (induction n) simp_all

lemma enemyWeapons_unslowed: "unslowed g \<Longrightarrow> unslowed (enemyWeapons a g)"
  unfolding enemyWeapons_def by (rule fold_invariant) (simp_all add: weaponHit_unslowed)

lemma enemyContact_unslowed: "unslowed g \<Longrightarrow> unslowed (enemyContact a g)"
  by (simp add: unslowed_def)

lemma enemyAttack_unslowed:
  assumes "unslowed g" shows "unslowed (enemyAttack a g)"
proof (cases "canAttack (g_heap g ! a)")
  case True
  show ?thesis
    by (rule heap_update_unslowed [OF assms, where h = performAttack])
      (simp_all add: Enemy_ops_fullSpeed enemyAttack_def createBossAttackWarning_def Let_def True)
next
  case False
  then show ?thesis using assms by (simp add: enemyAttack_def Let_def)
qed

lemma enemyStep_unslowed: "unslowed g \<Longrightarrow> unslowed (enemyStep dt a g)"
  by (simp add: enemyStep_def enemyAttack_unslowed enemyWeapons_unslowed enemyContact_unslowed
      enemyMove_unslowed)

lemma updateEnemies_unslowed: "unslowed g \<Longrightarrow> unslowed (updateEnemies dt g)"
  unfolding updateEnemies_def by (rule fold_invariant) (simp_all add: enemyStep_unslowed)

lemma spawnEnemy_unslowed: "unslowed g \<Longrightarrow> unslowed (spawnEnemy t g)"
  by (simp add: unslowed_fullSpeed spawnEnemy_def skip_def Let_def Enemy_ops_fullSpeed)

lemma spawnEnemy_pow_unslowed: "unslowed g \<Longrightarrow> unslowed ((spawnEnemy t ^^ n) g)"
  by (rule funpow_invariant) (simp_all add: spawnEnemy_unslowed)

lemma unslowed_timers [simp]:
  "unslowed (g\<lparr>g_enemySpawnTimer := v\<rparr>) = unslowed g"
  "unslowed (g\<lparr>g_eliteSpawnTimer := v\<rparr>) = unslowed g"
  "unslowed (g\<lparr>g_survivalTime := v\<rparr>) = unslowed g"
  by (simp_all add: unslowed_def)

lemma spawnEnemies_unslowed: "unslowed g \<Longrightarrow> unslowed (spawnEnemies dt g)"
  by (simp add: spawnEnemies_def Let_def spawnEnemy_unslowed spawnEnemy_pow_unslowed)

lemma spawnBoss_unslowed: "unslowed g \<Longrightarrow> unslowed (spawnBoss g)"
  by (simp add: unslowed_fullSpeed spawnBoss_def skip_def Let_def Enemy_ops_fullSpeed)

lemma phases_unslowed [simp]:
  "unslowed (chestSpawnCheck dt g) = unslowed g"
  "unslowed (updateParticles dt g) = unslowed g"
  "unslowed (updateChests dt g) = unslowed g"
  "unslowed (updateExpOrbs dt fa g) = unslowed g"
  "unslowed (removeDeadEnemies g) = unslowed g"
  "unslowed (levelUpCheck g) = unslowed g"
  "unslowed (updatePlayer dt keys g) = unslowed g"
  "unslowed (updateScore g) = unslowed g"
  "unslowed (deathCheck g) = unslowed g"
  "unslowed (handleMouseMove x y g) = unslowed g"
  "unslowed (selectSkill sk g) = unslowed g"
  "unslowed (fireTimer n g) = unslowed g"
  by (simp_all add: unslowed_def)

lemma update_unslowed: "unslowed g \<Longrightarrow> unslowed (update dt keys g)"
  by (simp add: update_beforeBossCheck beforeBossCheck_def bossSpawnCheck_def
      spawnBoss_unslowed spawnEnemies_unslowed updateEnemies_unslowed)

lemma step_unslowed: "unslowed g \<Longrightarrow> unslowed (step e g)"
  by (cases e) (simp_all add: gameLoop_def Let_def update_unslowed)

lemma exec_unslowed: "unslowed g \<Longrightarrow> unslowed (exec es g)"
  unfolding exec_def by (rule fold_invariant) (simp_all add: step_unslowed)

lemma fullSpeed_move:
  assumes "fullSpeed e" and "\<not> e_isDead e"
  shows "e_slowEffect (Enemy_update dt px py e) = e_slowEffect e \<and>
         (e_x (Enemy_update dt px py e), e_y (Enemy_update dt px py e)) = seekAtFullSpeed dt px py e"
  using assms
  by (simp add: fullSpeed_def Enemy_update_def seekAtFullSpeed_def speedMult_def Let_def)

text \<open>
  C10. In every state the driver reaches from the initial state, every enemy
  object has \<open>slowEffect \<le> 0\<close> and the speed of its archetype; the property is
  kept by every execution from any state that has it. An enemy of such a state
  that is alive keeps its \<open>slowEffect\<close> in \<^verbatim>\<open>Enemy.update\<close> and moves one step
  towards the player at the full speed of its archetype. No step of the driver
  calls \<^verbatim>\<open>applySlow\<close>.
\<close>

theorem enemies_never_slowed:
  "unslowed (exec es (init rand)) \<and>
   (unslowed g \<longrightarrow> unslowed (exec es g)) \<and>
   (unslowed g \<longrightarrow>
      (\<forall>e\<in>set (g_heap g). \<not> e_isDead e \<longrightarrow>
         e_slowEffect (Enemy_update dt px py e) = e_slowEffect e \<and>
         (e_x (Enemy_update dt px py e), e_y (Enemy_update dt px py e))
           = seekAtFullSpeed dt px py e))"
proof (intro conjI impI ballI)
  have "unslowed (init rand)" by (simp add: unslowed_def init_def)
  then show "unslowed (exec es (init rand))" by (rule exec_unslowed)
next
  assume "unslowed g"
  then show "unslowed (exec es g)" by (rule exec_unslowed)
next
  fix e
  assume "unslowed g" and "e \<in> set (g_heap g)" and "\<not> e_isDead e"
  then have "fullSpeed e" by (simp add: unslowed_fullSpeed)
  then show "e_slowEffect (Enemy_update dt px py e) = e_slowEffect e"
    and "(e_x (Enemy_update dt px py e), e_y (Enemy_update dt px py e)) = seekAtFullSpeed dt px py e"
    using fullSpeed_move [of e dt px py] \<open>\<not> e_isDead e\<close> by simp_all
qed

lemma sqrt_squares [simp]:
  "sqrt 10000 = 100" "sqrt 90000 = 300" "sqrt 14400 = 120" "sqrt 11664 = 108"
  "sqrt 784 = 28" "sqrt 35344 = 188" "sqrt 6561 = 81" "sqrt 4761 = 69"
  using real_sqrt_abs [of 100] real_sqrt_abs [of 300] real_sqrt_abs [of 120]
    real_sqrt_abs [of 108] real_sqrt_abs [of 28] real_sqrt_abs [of 188]
    real_sqrt_abs [of 81] real_sqrt_abs [of 69]
  by simp_all

theorem enemies_never_slowed_witness:
  "unslowed (exec [Frame 100 {}] chase) \<and>
   e_slowEffect (Enemy_update 0.1 600 400 (Enemy_new 700 400 elite)) = 0 \<and>
   (e_x (Enemy_update 0.1 600 400 (Enemy_new 700 400 elite)),
    e_y (Enemy_update 0.1 600 400 (Enemy_new 700 400 elite))) = (690, 400)"
proof -
  let ?e = "Enemy_new 700 400 elite"
  have h: "unslowed chase"
    by (simp add: unslowed_def chase_def Enemy_new_def)
  have m: "?e \<in> set (g_heap chase)" "\<not> e_isDead ?e"
    by (simp_all add: chase_def Enemy_new_def)
  have v: "seekAtFullSpeed 0.1 600 400 ?e = (690, 400)" "e_slowEffect ?e = 0"
    by (simp_all add: seekAtFullSpeed_def Enemy_new_def Let_def)
  show ?thesis
    using enemies_never_slowed [where g = chase and es = "[Frame 100 {}]" and dt = "0.1"
        and px = 600 and py = 400] h m v
    by auto
qed

section \<open>The boundary of the arena\<close>

lemma sqrt_bounds:
  "sqrt 410000 > 580" "sqrt 520000 > 480" "sqrt 36100 = 190"
  using real_less_rsqrt [of 580 410000] real_less_rsqrt [of 480 520000] real_sqrt_abs [of 190]
  by simp_all

lemma polar_norm: "sqrt ((cos a * m)\<^sup>2 + (sin a * m)\<^sup>2) = \<bar>m\<bar>"
proof -
  have "(cos a * m)\<^sup>2 + (sin a * m)\<^sup>2 = ((cos a)\<^sup>2 + (sin a)\<^sup>2) * m\<^sup>2"
    by (simp only: power_mult_distrib distrib_right)
  then show ?thesis by simp
qed

lemma Player_boundary_origin:
  assumes "p_radius p \<le> R"
  shows "sqrt ((p_x (Player_boundary R p))\<^sup>2 + (p_y (Player_boundary R p))\<^sup>2) \<le> R - p_radius p"
proof (cases "sqrt (p_x p * p_x p + p_y p * p_y p) + p_radius p > R")
  case True
  then show ?thesis using assms by (simp add: Player_boundary_def Let_def polar_norm)
next
  case False
  then show ?thesis by (simp add: Player_boundary_def Let_def power2_eq_square)
qed

lemma Player_update_after_boundary:
  "p_x (Player_buffs dt (Player_rotate dt p)) = p_x p"
  "p_y (Player_buffs dt (Player_rotate dt p)) = p_y p"
  by (simp_all add: Player_buffs_def Player_rotate_def Let_def)

lemma Player_phases_radius [simp]:
  "p_radius (Player_keyboard keys p) = p_radius p"
  "p_radius (Player_pointer p) = p_radius p"
  "p_radius (Player_normalize p) = p_radius p"
  "p_radius (Player_integrate dt p) = p_radius p"
  by (simp_all add: Player_keyboard_def Player_pointer_def Player_normalize_def
      Player_integrate_def Let_def split: option.splits)

lemma Player_update_confined_to_origin:
  assumes "p_radius p \<le> R"
  shows "Utils_distance 0 0 (p_x (Player_update dt keys R p)) (p_y (Player_update dt keys R p))
           \<le> R - p_radius p"
proof -
  let ?q = "Player_integrate dt (Player_normalize (Player_pointer (Player_keyboard keys p)))"
  have "p_radius ?q \<le> R" using assms by simp
  then have "sqrt ((p_x (Player_boundary R ?q))\<^sup>2 + (p_y (Player_boundary R ?q))\<^sup>2) \<le> R - p_radius ?q"
    by (rule Player_boundary_origin)
  then show ?thesis
    by (simp add: Player_update_def Player_update_after_boundary Utils_distance_def)
qed

text \<open>
  C1. The claim is that \<^verbatim>\<open>Player.update\<close> keeps the player within
  \<open>arenaRadius - radius\<close> of the arena center \<open>(centerX, centerY)\<close>. The
  boundary block measures the distance from \<open>(0, 0)\<close> instead, as the two
  lemmas above show. A player at \<open>(100, 0)\<close>, without input, stays there, more
  than 580 units from the arena center \<open>(600, 400)\<close>, the bound being 480.
\<close>

theorem player_outside_arena_disk:
  "p_x (Player_update 0.016 {} (g_arenaRadius (init rand)) ((g_player (init rand))\<lparr>p_x := 100, p_y := 0\<rparr>)) = 100 \<and>
   p_y (Player_update 0.016 {} (g_arenaRadius (init rand)) ((g_player (init rand))\<lparr>p_x := 100, p_y := 0\<rparr>)) = 0 \<and>
   Utils_distance 100 0 (g_centerX (init rand)) (g_centerY (init rand))
     > g_arenaRadius (init rand) - p_radius (g_player (init rand)) + 100"
  by (simp add: init_def Player_new_def Player_update_def Player_update_after_boundary
      Player_boundary_def Player_integrate_def Player_normalize_def Player_pointer_def
      Player_keyboard_def Utils_distance_def Let_def sqrt_bounds)

text \<open>
  In the first frame of a session the player, created at the arena center
  \<open>(600, 400)\<close>, is moved away from it, onto the circle around \<open>(0, 0)\<close>: its
  \<open>x\<close> is at most 480 afterwards.
\<close>

lemma first_frame_moves_player:
  "p_x (Player_update dt {} (g_arenaRadius (init rand)) (g_player (init rand))) \<le> 480"
proof -
  have "cos (atan2 400 600) * 480 \<le> 1 * 480"
    by (intro mult_right_mono cos_le_one) simp
  then show ?thesis
    by (simp add: init_def Player_new_def Player_update_def Player_update_after_boundary
      Player_boundary_def Player_integrate_def Player_normalize_def Player_pointer_def
      Player_keyboard_def Let_def sqrt_bounds)
qed

section \<open>Running the scenarios\<close>

text \<open>After every update step the score is the formula, without any bonus.\<close>

lemma update_score_formula:
  "g_score (update dt keys g) =
     g_killCount (update dt keys g) * 10 + \<lfloor>g_survivalTime (update dt keys g)\<rfloor> * 2"
  by (simp add: update_beforeBossCheck updateScore_def)

text \<open>
  One call of \<^verbatim>\<open>killEnemy\<close> counts one kill and creates three orbs, each worth
  a third of the enemy's experience, and ten particles.
\<close>

lemma killEnemy_effect:
  "g_killCount (killEnemy a g) = g_killCount g + 1 \<and>
   g_expOrbs (killEnemy a g) = g_expOrbs g @ map (killOrb g (g_heap g ! a)) [0 ..< 3] \<and>
   o_value (killOrb g (g_heap g ! a) i) = e_exp (g_heap g ! a) / 3 \<and>
   length (g_particles (killEnemy a g)) = length (g_particles g) + 10"
  by (simp add: killEnemy_def killOrb_def ExpOrb_new_def gameOver_def skip_def Let_def)

lemma upt_small:
  "[0 ..< 2] = [0, 1]" "[0 ..< 3] = [0, 1, 2]" "[0 ..< 6] = [0, 1, 2, 3, 4, 5]"
  "[0 ..< 10] = [0, 1, 2, 3, 4, 5, 6, 7, 8, 9]"
  by code_simp+

lemmas model_defs =
  update_def updatePlayer_def levelUpCheck_def updateEnemies_def removeDeadEnemies_def
  updateExpOrbs_def updateChests_def updateParticles_def chestSpawnCheck_def
  bossSpawnCheck_def deathCheck_def updateScore_def spawnEnemies_def
  enemyStep_def enemyMove_def enemyContact_def enemyWeapons_def enemyAttack_def
  weaponHit_def killEnemy_def killOrb_def killParticle_def gameOver_def skip_def rnd_def
  getWeaponPositions_def weaponPosition_def circleCollision_def Utils_distance_def
  Player_update_def Player_keyboard_def Player_pointer_def Player_normalize_def
  Player_integrate_def Player_boundary_def Player_rotate_def Player_buffs_def
  Player_checkLevelUp_def Player_takeDamage_def Player_gainExp_def Player_new_def
  Enemy_update_def Enemy_takeDamage_def Enemy_new_def canAttack_def performAttack_def
  speedMult_def ExpOrb_update_def ExpOrb_new_def orbStep_def Particle_update_def
  Particle_new_def Particle_isDead_def randomFloat_def init_def bossDue_def halves_def

lemma bossFight_player: "levelUpCheck (updatePlayer 0.1 {} (bossFight\<lparr>g_survivalTime := g_survivalTime bossFight + 0.1\<rparr>)) = bossFight1"
  by (simp add: bossFight_def bossFight1_def model_defs Let_def)

lemma bossFight_move: "enemyContact 0 (enemyMove 0.1 0 bossFight1) = bossFight2"
  by (simp add: bossFight_def bossFight1_def bossFight2_def model_defs Let_def)

lemma bossFight_weapons: "getWeaponPositions (g_player bossFight2) = [(260, 240, 0), (100, 240, pi)]"
  by (simp add: bossFight_def bossFight1_def bossFight2_def model_defs Let_def upt_small)

lemmas fight_defs = bossFight_def bossFight1_def bossFight2_def bossFight3_def

lemma replicate_small:
  "replicate 3 x = [x, x, x]" "replicate 10 x = [x, x, x, x, x, x, x, x, x, x]"
  by (simp_all add: numeral_eq_Suc)

lemma bossFight_hit: "weaponHit 0 (260, 240, 0) bossFight2 = bossFight3"
  by (simp add: fight_defs model_defs Let_def upt_small replicate_small)

lemma bossFight_miss: "weaponHit 0 (100, 240, pi) bossFight3 = bossFight3"
  by (simp add: fight_defs model_defs Let_def)

lemma bossFight_no_attack: "enemyAttack 0 bossFight3 = bossFight3"
  by (simp add: fight_defs model_defs Let_def)

lemma bossFight_enemies: "updateEnemies 0.1 bossFight1 = bossFight3"
proof -
  have "g_enemies bossFight1 = [0]" by (simp add: fight_defs)
  then show ?thesis
    by (simp add: updateEnemies_def enemyStep_def enemyWeapons_def bossFight_move bossFight_weapons bossFight_hit bossFight_miss bossFight_no_attack)
qed

lemma bossFight_pickups:
  "updateChests 0.1 (updateExpOrbs 0.1 False (removeDeadEnemies bossFight3)) = bossFight4"
  by (simp add: fight_defs bossFight4_def model_defs Let_def upt_small replicate_small)

lemma bossFight_timers:
  "chestSpawnCheck 0.1 (spawnEnemies 0.1 (updateParticles 0.1 bossFight4)) = bossFight5"
  by (simp add: fight_defs bossFight4_def bossFight5_def model_defs Let_def replicate_small)

lemma bossFight_score: "updateScore (deathCheck (bossSpawnCheck bossFight5)) = bossFight5\<lparr>g_score := 270\<rparr>"
  by (simp add: fight_defs bossFight4_def bossFight5_def model_defs Let_def)

lemma bossFight_update: "update 0.1 {} bossFight = bossFight5\<lparr>g_score := 270\<rparr>"
  by (simp add: update_beforeBossCheck beforeBossCheck_def bossFight_player bossFight_enemies bossFight_pickups bossFight_timers bossFight_score)

text \<open>
  C3. The claim is that the score includes a victory bonus of 50 once the boss
  is defeated. In the update step that kills the boss, \<^verbatim>\<open>killEnemy\<close> adds 50 to
  the score and the game-over dialog shows 310, and then the last statement of
  \<^verbatim>\<open>update\<close> assigns \<open>killCount * 10 + \<lfloor>survivalTime\<rfloor> * 2 = 270\<close>: the bonus
  is not in the score after the step.
\<close>

theorem victory_bonus_overwritten:
  "g_bossAlive bossFight \<and> g_score bossFight = 260 \<and>
   \<not> g_bossAlive (update 0.1 {} bossFight) \<and>
   g_state (update 0.1 {} bossFight) = gameover \<and>
   g_killCount (update 0.1 {} bossFight) = 1 \<and>
   \<lfloor>g_survivalTime (update 0.1 {} bossFight)\<rfloor> = 130 \<and>
   g_score (update 0.1 {} bossFight) = 270 \<and>
   g_shownScore (update 0.1 {} bossFight) = Some 310"
  by (simp add: bossFight_update) (simp add: fight_defs bossFight4_def bossFight5_def init_def)

lemmas blade_defs = sixBlades_def sixBlades1_def sixBlades2_def

lemma sixBlades_player: "levelUpCheck (updatePlayer 0.1 {} (sixBlades\<lparr>g_survivalTime := g_survivalTime sixBlades + 0.1\<rparr>)) = sixBlades1"
  by (simp add: blade_defs model_defs Let_def)

lemma sixBlades_move: "enemyContact 0 (enemyMove 0.1 0 sixBlades1) = sixBlades2"
  by (simp add: blade_defs model_defs Let_def)

lemma trig_sixths:
  "cos (pi / 6) = sqrt 3 / 2" "sin (pi / 6) = 1 / 2"
  "cos (5 * pi / 6) = - (sqrt 3 / 2)" "sin (5 * pi / 6) = 1 / 2"
  "cos (7 * pi / 6) = - (sqrt 3 / 2)" "sin (7 * pi / 6) = - (1 / 2)"
  "cos (3 * pi / 2) = 0" "sin (3 * pi / 2) = - 1"
  "cos (11 * pi / 6) = sqrt 3 / 2" "sin (11 * pi / 6) = - (1 / 2)"
proof -
  have a: "5 * pi / 6 = pi - pi / 6" "7 * pi / 6 = pi / 6 + pi" "3 * pi / 2 = pi / 2 + pi"
    "11 * pi / 6 = 2 * pi - pi / 6"
    by simp_all
  show "cos (pi / 6) = sqrt 3 / 2" "sin (pi / 6) = 1 / 2"
    by (simp_all add: cos_30 sin_30)
  show "cos (5 * pi / 6) = - (sqrt 3 / 2)" "sin (5 * pi / 6) = 1 / 2"
    unfolding a by (simp_all only: cos_pi_minus sin_pi_minus cos_30 sin_30)
  show "cos (7 * pi / 6) = - (sqrt 3 / 2)" "sin (7 * pi / 6) = - (1 / 2)"
    unfolding a by (simp_all only: cos_periodic_pi sin_periodic_pi cos_30 sin_30)
  show "cos (3 * pi / 2) = 0" "sin (3 * pi / 2) = - 1"
    unfolding a by (simp_all only: cos_periodic_pi sin_periodic_pi cos_pi_half sin_pi_half)
  show "cos (11 * pi / 6) = sqrt 3 / 2" "sin (11 * pi / 6) = - (1 / 2)"
    unfolding a by (simp_all only: cos_2pi_minus sin_2pi_minus cos_30 sin_30)
qed

lemma sixBlades_weapons:
  "getWeaponPositions (g_player sixBlades2) =
     [(180 + 40 * sqrt 3, 280, pi / 6), (180, 320, pi / 2),
      (180 - 40 * sqrt 3, 280, 5 * pi / 6), (180 - 40 * sqrt 3, 200, 7 * pi / 6),
      (180, 160, 3 * pi / 2), (180 + 40 * sqrt 3, 200, 11 * pi / 6)]"
  by (simp add: blade_defs model_defs Let_def upt_small trig_sixths)

lemma sqrt3_bounds: "17 / 10 < sqrt 3" "sqrt 3 < 18 / 10"
  using real_less_rsqrt [of "17 / 10" 3] real_less_lsqrt [of "18 / 10" 3]
  by (simp_all add: power2_eq_square)

lemma near_blade: "sqrt ((69 - 40 * sqrt 3)\<^sup>2 + 1600) < 48"
proof -
  have "(69 - 40 * sqrt 3)\<^sup>2 = 9561 - 5520 * sqrt 3"
    by (simp add: power2_eq_square algebra_simps)
  then have "(69 - 40 * sqrt 3)\<^sup>2 + 1600 < 48\<^sup>2"
    using sqrt3_bounds by simp
  then show ?thesis by (intro real_less_lsqrt) simp_all
qed

lemma far_blade: "\<not> sqrt ((69 + 40 * sqrt 3)\<^sup>2 + 1600) < 48"
proof -
  have "(69 + 40 * sqrt 3)\<^sup>2 = 9561 + 5520 * sqrt 3"
    by (simp add: power2_eq_square algebra_simps)
  then have "48\<^sup>2 \<le> (69 + 40 * sqrt 3)\<^sup>2 + 1600"
    using sqrt3_bounds by simp
  then have "48 \<le> sqrt ((69 + 40 * sqrt 3)\<^sup>2 + 1600)" by (rule real_le_rsqrt)
  then show ?thesis by simp
qed

lemma side_blade: "\<not> sqrt 11161 < 48"
proof -
  have "(48::real)\<^sup>2 \<le> 11161" by simp
  then have "48 \<le> sqrt 11161" by (rule real_le_rsqrt)
  then show ?thesis by simp
qed

lemmas blade_facts = near_blade far_blade side_blade

lemma replicate_more:
  "replicate 6 x = [x, x, x, x, x, x]"
  "replicate 20 x = [x, x, x, x, x, x, x, x, x, x, x, x, x, x, x, x, x, x, x, x]"
  by (simp_all add: numeral_eq_Suc)

lemmas blade_states = blade_defs sixBlades3_def sixBlades4_def

lemma sixBlades_hit0: "weaponHit 0 (180 + 40 * sqrt 3, 280, pi / 6) sixBlades2 = sixBlades3"
  by (simp add: blade_states model_defs Let_def upt_small replicate_small blade_facts)

lemma sixBlades_miss1: "weaponHit 0 (180, 320, pi / 2) sixBlades3 = sixBlades3"
  by (simp add: blade_states model_defs Let_def blade_facts)

lemma sixBlades_miss2: "weaponHit 0 (180 - 40 * sqrt 3, 280, 5 * pi / 6) sixBlades3 = sixBlades3"
  by (simp add: blade_states model_defs Let_def blade_facts)

lemma sixBlades_miss3: "weaponHit 0 (180 - 40 * sqrt 3, 200, 7 * pi / 6) sixBlades3 = sixBlades3"
  by (simp add: blade_states model_defs Let_def blade_facts)

lemma sixBlades_miss4: "weaponHit 0 (180, 160, 3 * pi / 2) sixBlades3 = sixBlades3"
  by (simp add: blade_states model_defs Let_def blade_facts)

lemma sixBlades_hit5: "weaponHit 0 (180 + 40 * sqrt 3, 200, 11 * pi / 6) sixBlades3 = sixBlades4"
  by (simp add: blade_states model_defs Let_def upt_small replicate_small replicate_more blade_facts)

lemma sixBlades_no_attack: "enemyAttack 0 sixBlades4 = sixBlades4"
  by (simp add: blade_states model_defs Let_def)

lemma sixBlades_enemies: "updateEnemies 0.1 sixBlades1 = sixBlades4"
proof -
  have "g_enemies sixBlades1 = [0]" by (simp add: blade_defs)
  then show ?thesis
    by (simp add: updateEnemies_def enemyStep_def enemyWeapons_def sixBlades_move sixBlades_weapons sixBlades_hit0 sixBlades_miss1 sixBlades_miss2 sixBlades_miss3
        sixBlades_miss4 sixBlades_hit5 sixBlades_no_attack)
qed

lemma sqrt_4096 [simp]: "sqrt 4096 = 64"
  using real_sqrt_abs [of 64] by simp

lemma sixBlades_pickups:
  "updateChests 0.1 (updateExpOrbs 0.1 False (removeDeadEnemies sixBlades4)) = sixBlades5"
  by (simp add: blade_states sixBlades5_def model_defs Let_def upt_small replicate_more)

lemma sixBlades_timers:
  "chestSpawnCheck 0.1 (spawnEnemies 0.1 (updateParticles 0.1 sixBlades5)) = sixBlades6"
  by (simp add: blade_states sixBlades5_def sixBlades6_def model_defs Let_def replicate_more)

lemma sixBlades_score: "updateScore (deathCheck (bossSpawnCheck sixBlades6)) = sixBlades6\<lparr>g_score := 280\<rparr>"
  by (simp add: blade_states sixBlades5_def sixBlades6_def model_defs Let_def)

lemma sixBlades_update: "update 0.1 {} sixBlades = sixBlades6\<lparr>g_score := 280\<rparr>"
  by (simp add: update_beforeBossCheck beforeBossCheck_def sixBlades_player sixBlades_enemies sixBlades_pickups sixBlades_timers sixBlades_score)

text \<open>
  C2. The claim is that an enemy that dies in an update step is resolved once.
  Two of the six weapons overlap the boss in the same frame: the first kills it
  and calls \<^verbatim>\<open>killEnemy\<close>, the second hits the dead boss, finds \<open>isDead\<close> true
  and calls \<^verbatim>\<open>killEnemy\<close> again. One enemy died; the kill count is 2, and 6
  orbs and 20 particles were created.
\<close>

theorem boss_killed_twice:
  "g_killCount sixBlades = 0 \<and> g_expOrbs sixBlades = [] \<and> g_particles sixBlades = [] \<and>
   length (filter (\<lambda>a. \<not> e_isDead (g_heap sixBlades ! a)) (g_enemies sixBlades)) = 1 \<and>
   g_enemies (update 0.1 {} sixBlades) = [] \<and>
   g_killCount (update 0.1 {} sixBlades) = 2 \<and>
   length (g_expOrbs (update 0.1 {} sixBlades)) = 6 \<and>
   length (g_particles (update 0.1 {} sixBlades)) = 20"
  by (simp add: sixBlades_update) (simp add: blade_states sixBlades5_def sixBlades6_def init_def Enemy_new_def)

section \<open>The boss is created once\<close>

text \<open>Outside the spawning functions and the removal of the dead, \<^verbatim>\<open>this.enemies\<close> is left as it is.\<close>

lemma killEnemy_enemies [simp]: "g_enemies (killEnemy a g) = g_enemies g"
  by (simp add: killEnemy_def gameOver_def skip_def Let_def)

lemma weaponHit_enemies [simp]: "g_enemies (weaponHit a wp g) = g_enemies g"
  by (simp add: weaponHit_def Let_def)

lemma enemyStep_enemies [simp]: "g_enemies (enemyStep dt a g) = g_enemies g"
proof -
  have "g_enemies (fold (weaponHit a) wps s) = g_enemies s" for wps s
    by (rule fold_frame) simp
  then show ?thesis
    by (simp add: enemyStep_def enemyAttack_def createBossAttackWarning_def enemyWeapons_def
        enemyContact_def enemyMove_def Let_def)
qed

lemma updateEnemies_enemies [simp]: "g_enemies (updateEnemies dt g) = g_enemies g"
  unfolding updateEnemies_def by (rule fold_frame) simp

lemma orbStep_enemies [simp]: "g_enemies (orbStep dt fa i g) = g_enemies g"
  by (simp add: orbStep_def Let_def split: prod.splits option.splits)

lemma updateExpOrbs_enemies [simp]: "g_enemies (updateExpOrbs dt fa g) = g_enemies g"
proof -
  have "g_enemies (fold (orbStep dt fa) xs g) = g_enemies g" for xs
    by (rule fold_frame) simp
  then show ?thesis by (simp add: updateExpOrbs_def Let_def)
qed

lemma applyChestReward_enemies [simp]: "g_enemies (applyChestReward rw g) = g_enemies g"
  by (cases rw) (simp_all add: applyChestReward_def skip_def Let_def)

lemma chestStep_enemies [simp]: "g_enemies (chestStep dt i g) = g_enemies g"
  by (simp add: chestStep_def skip_def Let_def split: prod.splits option.splits)

lemma updateChests_enemies [simp]: "g_enemies (updateChests dt g) = g_enemies g"
proof -
  have "g_enemies (fold (chestStep dt) xs g) = g_enemies g" for xs
    by (rule fold_frame) simp
  then show ?thesis by (simp add: updateChests_def Let_def)
qed

lemma spawnChestLoop_enemies [simp]: "g_enemies (spawnChestLoop n g) = g_enemies g"
  by (induction n arbitrary: g) (simp_all add: skip_def Let_def)

lemma misc_enemies [simp]:
  "g_enemies (chestSpawnCheck dt g) = g_enemies g"
  "g_enemies (updateScore g) = g_enemies g"
  "g_enemies (deathCheck g) = g_enemies g"
  "g_enemies (updateParticles dt g) = g_enemies g"
  "g_enemies (levelUpCheck g) = g_enemies g"
  "g_enemies (updatePlayer dt keys g) = g_enemies g"
  "g_enemies (handleMouseMove x y g) = g_enemies g"
  "g_enemies (fireTimer n g) = g_enemies g"
  by (simp_all add: chestSpawnCheck_def spawnChest_def updateScore_def deathCheck_def
      gameOver_def updateParticles_def levelUpCheck_def
      showSkillSelection_def updatePlayer_def handleMouseMove_def fireTimer_def runTimer_def
      bossAttackResolve_def speedBurstEnd_def Let_def split: prod.splits timer.splits)

lemma applySkill_enemies [simp]: "g_enemies (applySkill sk g) = g_enemies g"
  by (cases sk) (simp_all add: applySkill_def Let_def)

lemma selectSkill_enemies [simp]: "g_enemies (selectSkill sk g) = g_enemies g"
  by (simp add: selectSkill_def)

text \<open>The survival time advances once per update step, at its start.\<close>

lemma killEnemy_survivalTime [simp]: "g_survivalTime (killEnemy a g) = g_survivalTime g"
  by (simp add: killEnemy_def gameOver_def skip_def Let_def)

lemma weaponHit_survivalTime [simp]: "g_survivalTime (weaponHit a wp g) = g_survivalTime g"
  by (simp add: weaponHit_def Let_def)

lemma enemyStep_survivalTime [simp]: "g_survivalTime (enemyStep dt a g) = g_survivalTime g"
proof -
  have "g_survivalTime (fold (weaponHit a) wps s) = g_survivalTime s" for wps s
    by (rule fold_frame) simp
  then show ?thesis
    by (simp add: enemyStep_def enemyAttack_def createBossAttackWarning_def enemyWeapons_def
        enemyContact_def enemyMove_def Let_def)
qed

lemma updateEnemies_survivalTime [simp]: "g_survivalTime (updateEnemies dt g) = g_survivalTime g"
  unfolding updateEnemies_def by (rule fold_frame) simp

lemma orbStep_survivalTime [simp]: "g_survivalTime (orbStep dt fa i g) = g_survivalTime g"
  by (simp add: orbStep_def Let_def split: prod.splits option.splits)

lemma updateExpOrbs_survivalTime [simp]: "g_survivalTime (updateExpOrbs dt fa g) = g_survivalTime g"
proof -
  have "g_survivalTime (fold (orbStep dt fa) xs g) = g_survivalTime g" for xs
    by (rule fold_frame) simp
  then show ?thesis by (simp add: updateExpOrbs_def Let_def)
qed

lemma applyChestReward_survivalTime [simp]:
  "g_survivalTime (applyChestReward rw g) = g_survivalTime g"
  by (cases rw) (simp_all add: applyChestReward_def skip_def Let_def)

lemma chestStep_survivalTime [simp]: "g_survivalTime (chestStep dt i g) = g_survivalTime g"
  by (simp add: chestStep_def skip_def Let_def split: prod.splits option.splits)

lemma updateChests_survivalTime [simp]: "g_survivalTime (updateChests dt g) = g_survivalTime g"
proof -
  have "g_survivalTime (fold (chestStep dt) xs g) = g_survivalTime g" for xs
    by (rule fold_frame) simp
  then show ?thesis by (simp add: updateChests_def Let_def)
qed

lemma spawnEnemy_survivalTime [simp]: "g_survivalTime (spawnEnemy t g) = g_survivalTime g"
  by (simp add: spawnEnemy_def skip_def Let_def)

lemma spawnEnemy_pow_survivalTime [simp]:
  "g_survivalTime ((spawnEnemy t ^^ n) g) = g_survivalTime g"
  by (rule funpow_frame) simp

lemma spawnEnemies_survivalTime [simp]: "g_survivalTime (spawnEnemies dt g) = g_survivalTime g"
  by (simp add: spawnEnemies_def Let_def)

lemma spawnChestLoop_survivalTime [simp]: "g_survivalTime (spawnChestLoop n g) = g_survivalTime g"
  by (induction n arbitrary: g) (simp_all add: skip_def Let_def)

lemma misc_survivalTime [simp]:
  "g_survivalTime (chestSpawnCheck dt g) = g_survivalTime g"
  "g_survivalTime (updateParticles dt g) = g_survivalTime g"
  "g_survivalTime (removeDeadEnemies g) = g_survivalTime g"
  "g_survivalTime (levelUpCheck g) = g_survivalTime g"
  "g_survivalTime (updatePlayer dt keys g) = g_survivalTime g"
  by (simp_all add: chestSpawnCheck_def spawnChest_def
      updateParticles_def removeDeadEnemies_def levelUpCheck_def
      showSkillSelection_def updatePlayer_def Let_def split: prod.splits)

lemma beforeBossCheck_survivalTime [simp]:
  "g_survivalTime (beforeBossCheck dt keys g) = g_survivalTime g + dt"
  by (simp add: beforeBossCheck_def)

text \<open>The level changes in \<^verbatim>\<open>checkLevelUp\<close> only.\<close>

lemma Player_phases_level [simp]:
  "p_level (Player_keyboard keys p) = p_level p"
  "p_level (Player_pointer p) = p_level p"
  "p_level (Player_normalize p) = p_level p"
  "p_level (Player_integrate dt p) = p_level p"
  "p_level (Player_boundary R p) = p_level p"
  "p_level (Player_rotate dt p) = p_level p"
  "p_level (Player_buffs dt p) = p_level p"
  by (simp_all add: Player_keyboard_def Player_pointer_def Player_normalize_def
      Player_integrate_def Player_boundary_def Player_rotate_def Player_buffs_def Let_def
      split: option.splits)

lemma Player_phases_exp [simp]:
  "p_exp (Player_keyboard keys p) = p_exp p"
  "p_exp (Player_pointer p) = p_exp p"
  "p_exp (Player_normalize p) = p_exp p"
  "p_exp (Player_integrate dt p) = p_exp p"
  "p_exp (Player_boundary R p) = p_exp p"
  "p_exp (Player_rotate dt p) = p_exp p"
  "p_exp (Player_buffs dt p) = p_exp p"
  by (simp_all add: Player_keyboard_def Player_pointer_def Player_normalize_def
      Player_integrate_def Player_boundary_def Player_rotate_def Player_buffs_def Let_def
      split: option.splits)

lemma Player_update_level [simp]:
  "p_level (Player_update dt keys R p) = p_level p"
  "p_exp (Player_update dt keys R p) = p_exp p"
  by (simp_all add: Player_update_def)

lemma Player_ops_level [simp]:
  "p_level (Player_takeDamage d p) = p_level p"
  "p_level (Player_gainExp v p) = p_level p"
  "p_level (Player_heal v p) = p_level p"
  by (simp_all add: Player_takeDamage_def Player_gainExp_def Player_heal_def Let_def)

lemma enemyContact_level [simp]:
  "p_level (g_player (enemyContact a g)) = p_level (g_player g)"
  by (simp add: enemyContact_def Let_def)

lemma enemyStep_level [simp]:
  "p_level (g_player (enemyStep dt a g)) = p_level (g_player g)"
  by (simp add: enemyStep_def)

lemma updateEnemies_level [simp]:
  "p_level (g_player (updateEnemies dt g)) = p_level (g_player g)"
  unfolding updateEnemies_def by (rule fold_frame) simp

lemma orbStep_level [simp]:
  "p_level (g_player (orbStep dt fa i g)) = p_level (g_player g)"
  by (simp add: orbStep_def Let_def split: prod.splits option.splits)

lemma updateExpOrbs_level [simp]:
  "p_level (g_player (updateExpOrbs dt fa g)) = p_level (g_player g)"
proof -
  have "p_level (g_player (fold (orbStep dt fa) xs g)) = p_level (g_player g)" for xs
    by (rule fold_frame) simp
  then show ?thesis by (simp add: updateExpOrbs_def Let_def)
qed

lemma applyChestReward_level [simp]:
  "p_level (g_player (applyChestReward rw g)) = p_level (g_player g)"
  by (cases rw) (simp_all add: applyChestReward_def skip_def Let_def)

lemma chestStep_level [simp]:
  "p_level (g_player (chestStep dt i g)) = p_level (g_player g)"
  by (simp add: chestStep_def skip_def Let_def split: prod.splits option.splits)

lemma updateChests_level [simp]:
  "p_level (g_player (updateChests dt g)) = p_level (g_player g)"
proof -
  have "p_level (g_player (fold (chestStep dt) xs g)) = p_level (g_player g)" for xs
    by (rule fold_frame) simp
  then show ?thesis by (simp add: updateChests_def Let_def)
qed

lemma levelUpCheck_level:
  "p_level (g_player (levelUpCheck g)) = levelAfterCheck (g_player g)"
  by (simp add: levelUpCheck_def showSkillSelection_def Player_checkLevelUp_def
      levelAfterCheck_def Let_def)

lemma updatePlayer_levelAfterCheck [simp]:
  "levelAfterCheck (g_player (updatePlayer dt keys g)) = levelAfterCheck (g_player g)"
  by (simp add: updatePlayer_def levelAfterCheck_def)

lemma beforeBossCheck_level [simp]:
  "p_level (g_player (beforeBossCheck dt keys g)) = levelAfterCheck (g_player g)"
  by (simp add: beforeBossCheck_def levelUpCheck_level)

lemma update_bossDue_pre:
  "bossDue (update dt keys g) \<longleftrightarrow>
     levelAfterCheck (g_player g) \<ge> 10 \<or> g_survivalTime g + dt \<ge> 120"
  by (simp add: update_bossDue) (simp add: bossDue_def)

lemma heapTypes_frames [simp]:
  "heapTypes (chestSpawnCheck dt g) = heapTypes g"
  "heapTypes (updateParticles dt g) = heapTypes g"
  "heapTypes (updateChests dt g) = heapTypes g"
  "heapTypes (updateExpOrbs dt fa g) = heapTypes g"
  "heapTypes (removeDeadEnemies g) = heapTypes g"
  "heapTypes (levelUpCheck g) = heapTypes g"
  "heapTypes (updatePlayer dt keys g) = heapTypes g"
  "heapTypes (updateScore g) = heapTypes g"
  "heapTypes (deathCheck g) = heapTypes g"
  "heapTypes (handleMouseMove x y g) = heapTypes g"
  "heapTypes (selectSkill sk g) = heapTypes g"
  "heapTypes (fireTimer n g) = heapTypes g"
  "heapTypes (g\<lparr>g_survivalTime := v\<rparr>) = heapTypes g"
  "heapTypes (g\<lparr>g_enemySpawnTimer := v\<rparr>) = heapTypes g"
  "heapTypes (g\<lparr>g_eliteSpawnTimer := v\<rparr>) = heapTypes g"
  by (simp_all add: heapTypes_def)

lemma noNewBoss_frame:
  "heapTypes s = heapTypes g \<Longrightarrow> set (g_enemies s) \<subseteq> set (g_enemies g) \<Longrightarrow>
   noNewBoss h g \<Longrightarrow> noNewBoss h s"
  by (auto simp add: noNewBoss_def)

lemma noNewBoss_timers [simp]:
  "noNewBoss h (g\<lparr>g_enemySpawnTimer := v\<rparr>) = noNewBoss h g"
  "noNewBoss h (g\<lparr>g_eliteSpawnTimer := v\<rparr>) = noNewBoss h g"
  by (simp_all add: noNewBoss_def)

lemma spawnEnemy_enemies: "g_enemies (spawnEnemy t g) = g_enemies g @ [length (g_heap g)]"
  by (simp add: spawnEnemy_def skip_def Let_def)

lemma spawnEnemy_noNewBoss:
  assumes "t \<noteq> boss" and "noNewBoss h g"
  shows "noNewBoss h (spawnEnemy t g)"
proof -
  have len: "length (heapTypes g) = length (g_heap g)" by (simp add: heapTypes_def)
  show ?thesis
    using assms len
    by (auto simp add: noNewBoss_def spawnEnemy_enemies nth_append)
qed

lemma spawnEnemy_pow_noNewBoss:
  "t \<noteq> boss \<Longrightarrow> noNewBoss h g \<Longrightarrow> noNewBoss h ((spawnEnemy t ^^ n) g)"
  by (rule funpow_invariant) (simp_all add: spawnEnemy_noNewBoss)

lemma spawnEnemies_noNewBoss: "noNewBoss h g \<Longrightarrow> noNewBoss h (spawnEnemies dt g)"
  by (simp add: spawnEnemies_def Let_def spawnEnemy_noNewBoss spawnEnemy_pow_noNewBoss)

lemma wellFormed_noNewBoss: "wellFormed g \<Longrightarrow> noNewBoss (length (g_heap g)) g"
  by (auto simp add: wellFormed_def noNewBoss_def heapTypes_def)

lemma noNewBoss_wellFormed: "noNewBoss h g \<Longrightarrow> wellFormed g"
  by (auto simp add: wellFormed_def noNewBoss_def heapTypes_def)

lemma removeDeadEnemies_enemies: "set (g_enemies (removeDeadEnemies g)) \<subseteq> set (g_enemies g)"
  by (auto simp add: removeDeadEnemies_def)

lemma beforeBossCheck_noNewBoss:
  assumes "wellFormed g"
  shows "noNewBoss (length (g_heap g)) (beforeBossCheck dt keys g)"
proof -
  let ?h = "length (g_heap g)"
  let ?fa = "'' '' \<in> keys \<or> ''space'' \<in> keys"
  let ?g3 = "updateParticles dt (updateChests dt (updateExpOrbs dt ?fa (removeDeadEnemies
     (updateEnemies dt (levelUpCheck (updatePlayer dt keys (g\<lparr>g_survivalTime := g_survivalTime g + dt\<rparr>)))))))"
  have "set (g_enemies ?g3) \<subseteq> set (g_enemies g)"
    using removeDeadEnemies_enemies
      [of "updateEnemies dt (levelUpCheck (updatePlayer dt keys (g\<lparr>g_survivalTime := g_survivalTime g + dt\<rparr>)))"]
    by simp
  moreover have "heapTypes ?g3 = heapTypes g" by simp
  ultimately have "noNewBoss ?h ?g3"
    using wellFormed_noNewBoss [OF assms] by (intro noNewBoss_frame [of ?g3 g])
  then have "noNewBoss ?h (spawnEnemies dt ?g3)" by (rule spawnEnemies_noNewBoss)
  then have "noNewBoss ?h (chestSpawnCheck dt (spawnEnemies dt ?g3))"
    by (rule noNewBoss_frame [rotated 2]) simp_all
  then show ?thesis by (simp add: beforeBossCheck_def)
qed

lemma joining_frame:
  "g_heap s = g_heap g \<Longrightarrow> g_enemies s = g_enemies g \<Longrightarrow> joining h s = joining h g"
  by (simp add: joining_def)

lemma noNewBoss_joining: "noNewBoss h g \<Longrightarrow> joining h g = []"
  by (auto simp add: noNewBoss_def joining_def heapTypes_def filter_empty_conv)

lemma spawnBoss_joining:
  assumes "noNewBoss h g"
  shows "joining h (spawnBoss g) = [length (g_heap g)]"
proof -
  have e: "g_enemies (spawnBoss g) = g_enemies g @ [length (g_heap g)]"
    and hp: "g_heap (spawnBoss g) =
      g_heap g @ [Enemy_new (g_centerX g + cos (randomFloat 0 (pi * 2) (rnd g 0)) * g_arenaRadius g)
                            (g_centerY g + sin (randomFloat 0 (pi * 2) (rnd g 0)) * g_arenaRadius g) boss]"
    by (simp_all add: spawnBoss_def skip_def rnd_def Let_def)
  have old: "filter (\<lambda>a. h \<le> a \<and> a < length (g_heap (spawnBoss g)) \<and>
               e_type (g_heap (spawnBoss g) ! a) = boss) (g_enemies g) = []"
    using assms by (auto simp add: noNewBoss_def heapTypes_def filter_empty_conv hp nth_append)
  have "h \<le> length (g_heap g)" using assms by (simp add: noNewBoss_def heapTypes_def)
  then show ?thesis
    unfolding joining_def e using old by (simp add: hp)
qed

lemma spawnBoss_wellFormed: "wellFormed g \<Longrightarrow> wellFormed (spawnBoss g)"
  by (auto simp add: wellFormed_def spawnBoss_def skip_def Let_def)

lemma update_joining:
  assumes "wellFormed g"
  shows "joining (length (g_heap g)) (update dt keys g) =
           (if \<not> g_bossSpawned g \<and> bossDue (update dt keys g)
            then [length (g_heap (beforeBossCheck dt keys g))] else [])"
proof -
  let ?b = "beforeBossCheck dt keys g"
  have nb: "noNewBoss (length (g_heap g)) ?b" using assms by (rule beforeBossCheck_noNewBoss)
  have "joining (length (g_heap g)) (update dt keys g)
          = joining (length (g_heap g)) (bossSpawnCheck ?b)"
    unfolding update_beforeBossCheck by (rule joining_frame) simp_all
  then show ?thesis
    using nb by (simp add: update_bossDue bossSpawnCheck_def spawnBoss_joining noNewBoss_joining)
qed

lemma update_wellFormed:
  assumes "wellFormed g" shows "wellFormed (update dt keys g)"
proof -
  let ?b = "beforeBossCheck dt keys g"
  have "wellFormed ?b"
    using beforeBossCheck_noNewBoss [OF assms] by (rule noNewBoss_wellFormed)
  then have "wellFormed (bossSpawnCheck ?b)"
    by (simp add: bossSpawnCheck_def spawnBoss_wellFormed)
  then show ?thesis
    by (simp add: update_beforeBossCheck wellFormed_def)
qed

lemma step_wellFormed: "wellFormed g \<Longrightarrow> wellFormed (step e g)"
  by (cases e) (simp_all add: gameLoop_def Let_def update_wellFormed, simp_all add: wellFormed_def)

lemma bossesJoining_joining: "bossesJoining e g = joining (length (g_heap g)) (step e g)"
  by (simp add: bossesJoining_def joining_def)

lemma idle_joining:
  "wellFormed g \<Longrightarrow> g_heap s = g_heap g \<Longrightarrow> g_enemies s = g_enemies g \<Longrightarrow>
   joining (length (g_heap g)) s = []"
  by (auto simp add: joining_def wellFormed_def filter_empty_conv)

lemma step_bossesJoining:
  assumes "wellFormed g"
  shows "length (bossesJoining e g) = (if \<not> g_bossSpawned g \<and> bossDueIn e g then 1 else 0)"
proof (cases e)
  case (Frame elapsed keys)
  show ?thesis
  proof (cases "g_state g = playing")
    case True
    then show ?thesis
      using Frame update_joining [OF assms, of "min (elapsed / 1000) 0.1" keys]
      by (simp add: bossesJoining_joining gameLoop_def Let_def update_bossDue_pre)
  next
    case False
    then show ?thesis
      using Frame idle_joining [OF assms, of g]
      by (simp add: bossesJoining_joining gameLoop_def Let_def)
  qed
next
  case (MouseMove x y)
  then show ?thesis
    using idle_joining [OF assms, of "handleMouseMove x y g"] by (simp add: bossesJoining_joining)
next
  case (SelectSkill sk)
  then show ?thesis
    using idle_joining [OF assms, of "selectSkill sk g"] by (simp add: bossesJoining_joining)
next
  case (TimerFires n)
  then show ?thesis
    using idle_joining [OF assms, of "fireTimer n g"] by (simp add: bossesJoining_joining)
qed

lemma step_bossSpawned: "g_bossSpawned (step e g) = (g_bossSpawned g \<or> bossDueIn e g)"
  by (cases e) (auto simp add: gameLoop_def Let_def update_bossSpawned update_bossDue_pre)

lemma length_dueLog [simp]: "length (dueLog es g) = length es"
  by (induction es arbitrary: g) simp_all

lemma spawnLog_after_spawn:
  "wellFormed g \<Longrightarrow> g_bossSpawned g \<Longrightarrow> spawnLog es g = replicate (length es) 0"
proof (induction es arbitrary: g)
  case Nil
  then show ?case by simp
next
  case (Cons e es)
  have "g_bossSpawned (step e g)" using Cons.prems by (simp add: step_bossSpawned)
  moreover have "wellFormed (step e g)" using Cons.prems by (simp add: step_wellFormed)
  ultimately have "spawnLog es (step e g) = replicate (length es) 0" by (rule Cons.IH [rotated])
  then show ?case using Cons.prems by (simp add: step_bossesJoining)
qed

lemma spawnLog_before_spawn:
  "wellFormed g \<Longrightarrow> \<not> g_bossSpawned g \<Longrightarrow> spawnLog es g = firstOnly (dueLog es g)"
proof (induction es arbitrary: g)
  case Nil
  then show ?case by simp
next
  case (Cons e es)
  have wf: "wellFormed (step e g)" using Cons.prems by (simp add: step_wellFormed)
  show ?case
  proof (cases "bossDueIn e g")
    case True
    then have "g_bossSpawned (step e g)" by (simp add: step_bossSpawned)
    then have "spawnLog es (step e g) = replicate (length es) 0"
      using wf by (simp add: spawnLog_after_spawn)
    then show ?thesis using True Cons.prems by (simp add: step_bossesJoining)
  next
    case False
    then have "\<not> g_bossSpawned (step e g)" using Cons.prems by (simp add: step_bossSpawned)
    then have "spawnLog es (step e g) = firstOnly (dueLog es (step e g))"
      using wf by (simp add: Cons.IH)
    then show ?thesis using False Cons.prems by (simp add: step_bossesJoining)
  qed
qed

text \<open>
  C7. In every execution of the driver the boss is spawned exactly once, at the
  first update step in which level \<open>\<ge> 10\<close> or survival time \<open>\<ge> 120\<close> holds, and
  never again. For every sequence of events from the initial state, the number
  of bosses that an event adds to \<^verbatim>\<open>this.enemies\<close> is 1 at the first event
  that is an update step in which the condition of the boss check holds, and 0 at
  every other event, before it and after it. The same holds from every
  well-formed state in which no boss has been spawned; from a well-formed state
  in which one has, no event adds a boss.
\<close>

theorem boss_spawned_once:
  "spawnLog es (init rand) = firstOnly (dueLog es (init rand)) \<and>
   (wellFormed g \<and> \<not> g_bossSpawned g \<longrightarrow> spawnLog es g = firstOnly (dueLog es g)) \<and>
   (wellFormed g \<and> g_bossSpawned g \<longrightarrow> spawnLog es g = replicate (length es) 0)"
proof -
  have "wellFormed (init rand)" "\<not> g_bossSpawned (init rand)"
    by (simp_all add: init_def wellFormed_def)
  then show ?thesis
    using spawnLog_before_spawn spawnLog_after_spawn by blast
qed

section \<open>The first frames of the boss\<close>

text \<open>The session \<open>lateGame\<close>, frame by frame and block by block.\<close>

lemma sqrt_32500: "\<not> 480 < sqrt 32500"
  using real_less_lsqrt [where x = 32500 and y = 480] by simp

lemmas late_defs = lateGame_def lateGame1_def lateGame2_def graveyard_def

lemma lateGame1_player: "levelUpCheck (updatePlayer 0.1 {} (lateGame\<lparr>g_survivalTime := g_survivalTime lateGame + 0.1\<rparr>)) = lateGame1_a"
  by (simp add: late_defs lateGame1_a_def model_defs Let_def sqrt_32500)

lemma lateGame1_enemies: "removeDeadEnemies (updateEnemies 0.1 lateGame1_a) = lateGame1_a"
  by (simp add: late_defs lateGame1_a_def model_defs Let_def)

lemma lateGame1_pickups: "updateChests 0.1 (updateExpOrbs 0.1 False lateGame1_a) = lateGame1_a"
  by (simp add: late_defs lateGame1_a_def model_defs Let_def)

lemma lateGame1_particles: "updateParticles 0.1 lateGame1_a = lateGame1_a"
  by (simp add: late_defs lateGame1_a_def model_defs Let_def)

lemma lateGame1_timers: "chestSpawnCheck 0.1 (spawnEnemies 0.1 lateGame1_a) = lateGame1"
  by (simp add: late_defs lateGame1_a_def spawnEnemies_def chestSpawnCheck_def Let_def)

lemma lateGame1_score: "updateScore (deathCheck (bossSpawnCheck lateGame1)) = lateGame1"
  by (simp add: late_defs updateScore_def deathCheck_def bossSpawnCheck_def bossDue_def
      Player_new_def init_def Let_def)

lemma lateGame_frame1: "update 0.1 {} lateGame = lateGame1"
  by (simp add: update_beforeBossCheck beforeBossCheck_def lateGame1_player lateGame1_enemies lateGame1_pickups lateGame1_particles lateGame1_timers lateGame1_score)

lemma lateGame2_player: "levelUpCheck (updatePlayer 0.1 {} (lateGame1\<lparr>g_survivalTime := g_survivalTime lateGame1 + 0.1\<rparr>)) = lateGame2_a"
  by (simp add: late_defs lateGame2_a_def model_defs Let_def sqrt_32500)

lemma lateGame2_enemies: "removeDeadEnemies (updateEnemies 0.1 lateGame2_a) = lateGame2_a"
  by (simp add: late_defs lateGame2_a_def model_defs Let_def)

lemma lateGame2_pickups: "updateChests 0.1 (updateExpOrbs 0.1 False lateGame2_a) = lateGame2_a"
  by (simp add: late_defs lateGame2_a_def model_defs Let_def)

lemma lateGame2_particles: "updateParticles 0.1 lateGame2_a = lateGame2_a"
  by (simp add: late_defs lateGame2_a_def model_defs Let_def)

lemma lateGame2_timers: "chestSpawnCheck 0.1 (spawnEnemies 0.1 lateGame2_a) = lateGame2_b"
  by (simp add: late_defs lateGame2_a_def lateGame2_b_def spawnEnemies_def chestSpawnCheck_def Let_def)

lemma lateGame2_score: "updateScore (deathCheck (bossSpawnCheck lateGame2_b)) = lateGame2"
  by (simp add: late_defs lateGame2_a_def lateGame2_b_def updateScore_def deathCheck_def
      bossSpawnCheck_def bossDue_def spawnBoss_def skip_def rnd_def randomFloat_def halves_def
      Player_new_def init_def Let_def)

lemma lateGame_frame2: "update 0.1 {} lateGame1 = lateGame2"
  by (simp add: update_beforeBossCheck beforeBossCheck_def lateGame2_player lateGame2_enemies lateGame2_pickups lateGame2_particles lateGame2_timers lateGame2_score)

lemma fold_idle: "(\<And>x. x \<in> set xs \<Longrightarrow> f x g = g) \<Longrightarrow> fold f xs g = g"
  by (induction xs) simp_all

lemma enemyWeapons_far_below:
  assumes "0 \<le> p_weaponRadius (g_player g)"
    and "p_weaponRadius (g_player g) + 8 + e_radius (g_heap g ! a)
           \<le> e_y (g_heap g ! a) - p_y (g_player g)"
  shows "enemyWeapons a g = g"
  unfolding enemyWeapons_def
proof (rule fold_idle)
  fix wp assume "wp \<in> set (getWeaponPositions (g_player g))"
  then obtain i where wp: "wp = weaponPosition (g_player g) i"
    by (auto simp add: getWeaponPositions_def)
  define t where "t = (p_currentAngle (g_player g) + real i * (360 / real (p_weaponCount (g_player g)))) * pi / 180"
  have wy: "fst (snd wp) = p_y (g_player g) + sin t * p_weaponRadius (g_player g)"
    by (simp add: wp weaponPosition_def Let_def t_def)
  have "sin t * p_weaponRadius (g_player g) \<le> 1 * p_weaponRadius (g_player g)"
    using assms(1) by (intro mult_right_mono sin_le_one)
  then have d: "8 + e_radius (g_heap g ! a) \<le> e_y (g_heap g ! a) - fst (snd wp)"
    using assms(2) wy by simp
  have s: "e_y (g_heap g ! a) - fst (snd wp)
          \<le> sqrt ((e_x (g_heap g ! a) - fst wp)\<^sup>2 + (e_y (g_heap g ! a) - fst (snd wp))\<^sup>2)"
    by (rule real_sqrt_sum_squares_ge2)
  have "8 + e_radius (g_heap g ! a)
          \<le> sqrt ((e_x (g_heap g ! a) - fst wp)\<^sup>2 + (e_y (g_heap g ! a) - fst (snd wp))\<^sup>2)"
    using d s by (rule order_trans)
  then have "\<not> circleCollision (fst wp) (fst (snd wp)) 8
                 (e_x (g_heap g ! a)) (e_y (g_heap g ! a)) (e_radius (g_heap g ! a))"
    by (simp add: circleCollision_def Utils_distance_def not_less)
  then show "weaponHit a wp g = g"
    by (simp add: weaponHit_def Let_def)
qed

lemma createBossAttackWarning_ring:
  "createBossAttackWarning x y g = g\<lparr>g_particles := g_particles g @ warningRing x y 0.5\<rparr>"
  by (simp add: createBossAttackWarning_def warningRing_def Particle_new_def Let_def)

lemma warningRing_update:
  "filter (\<lambda>pt. \<not> Particle_isDead pt) (map (Particle_update dt) (warningRing x y life)) =
     (if life - dt \<le> 0 then [] else warningRing x y (life - dt))"
  by (simp add: warningRing_def Particle_update_def Particle_isDead_def Particle_new_def
      filter_map comp_def)

lemma length_graveyard [simp]: "length graveyard = 41"
  by (simp add: graveyard_def)

lemmas late_states = lateGame_def lateGame1_def lateGame2_def nth_append list_update_append

lemma skirmish3_player: "levelUpCheck (updatePlayer 0.1 {} (lateGame2\<lparr>g_survivalTime := g_survivalTime lateGame2 + 0.1\<rparr>)) = skirmish3_a"
  by (simp add: skirmish3_a_def late_states model_defs spawnEnemy_def Let_def sqrt_32500 )

lemma skirmish3_boss_move: "enemyContact 41 (enemyMove 0.1 41 skirmish3_a) = skirmish3_boss_moved"
  by (simp add: skirmish3_a_def skirmish3_boss_moved_def late_states model_defs spawnEnemy_def Let_def sqrt_32500 )

lemma skirmish3_boss_weapons: "enemyWeapons 41 skirmish3_boss_moved = skirmish3_boss_moved"
  by (rule enemyWeapons_far_below) (simp_all add: skirmish3_boss_moved_def late_states Player_new_def Enemy_new_def)

lemma skirmish3_boss_attack: "enemyAttack 41 skirmish3_boss_moved = skirmish3_boss"
  by (simp add: skirmish3_boss_moved_def skirmish3_boss_def late_states model_defs spawnEnemy_def Let_def sqrt_32500 createBossAttackWarning_ring)

lemma skirmish3_boss_step: "enemyStep 0.1 41 skirmish3_a = skirmish3_boss"
  by (simp add: enemyStep_def skirmish3_boss_move skirmish3_boss_weapons skirmish3_boss_attack)

lemma skirmish3_enemies: "removeDeadEnemies (updateEnemies 0.1 skirmish3_a) = skirmish3_boss"
proof -
  have "g_enemies skirmish3_a = [41]" by (simp add: skirmish3_a_def late_states)
  then have "updateEnemies 0.1 skirmish3_a = skirmish3_boss"
    by (simp add: updateEnemies_def skirmish3_boss_step)
  then show ?thesis
    by (simp add: removeDeadEnemies_def skirmish3_boss_def late_states Enemy_new_def)
qed

lemma skirmish3_pickups: "updateChests 0.1 (updateExpOrbs 0.1 False skirmish3_boss) = skirmish3_boss"
  by (simp add: skirmish3_boss_def late_states model_defs spawnEnemy_def Let_def sqrt_32500 )

lemma skirmish3_particles: "updateParticles 0.1 skirmish3_boss = skirmish3_p"
  by (simp add: skirmish3_boss_def skirmish3_p_def late_states updateParticles_def warningRing_update)

lemma skirmish3_timers: "chestSpawnCheck 0.1 (spawnEnemies 0.1 skirmish3_p) = skirmish3"
  by (simp add: skirmish3_p_def skirmish3_def late_states spawnEnemies_def spawnEnemy_def chestSpawnCheck_def skip_def rnd_def randomFloat_def halves_def init_def Let_def)

lemma skirmish3_score: "updateScore (deathCheck (bossSpawnCheck skirmish3)) = skirmish3"
  by (simp add: skirmish3_def late_states updateScore_def deathCheck_def bossSpawnCheck_def Player_new_def init_def Let_def)

lemma skirmish3_frame: "update 0.1 {} lateGame2 = skirmish3"
  by (simp add: update_beforeBossCheck beforeBossCheck_def skirmish3_player skirmish3_enemies skirmish3_pickups skirmish3_particles skirmish3_timers skirmish3_score)

lemma skirmish4_player: "levelUpCheck (updatePlayer 0.1 {} (skirmish3\<lparr>g_survivalTime := g_survivalTime skirmish3 + 0.1\<rparr>)) = skirmish4_a"
  by (simp add: skirmish3_def skirmish4_a_def late_states model_defs spawnEnemy_def Let_def sqrt_32500 )

lemma skirmish4_boss_move: "enemyContact 41 (enemyMove 0.1 41 skirmish4_a) = skirmish4_boss"
  by (simp add: skirmish4_a_def skirmish4_boss_def late_states model_defs spawnEnemy_def Let_def sqrt_32500 )

lemma skirmish4_boss_weapons: "enemyWeapons 41 skirmish4_boss = skirmish4_boss"
  by (rule enemyWeapons_far_below) (simp_all add: skirmish4_boss_def late_states Player_new_def Enemy_new_def)

lemma skirmish4_boss_attack: "enemyAttack 41 skirmish4_boss = skirmish4_boss"
  by (simp add: skirmish4_boss_def late_states model_defs spawnEnemy_def Let_def sqrt_32500 )

lemma skirmish4_boss_step: "enemyStep 0.1 41 skirmish4_a = skirmish4_boss"
  by (simp add: enemyStep_def skirmish4_boss_move skirmish4_boss_weapons skirmish4_boss_attack)

lemma skirmish4_enemies: "removeDeadEnemies (updateEnemies 0.1 skirmish4_a) = skirmish4_boss"
proof -
  have "g_enemies skirmish4_a = [41]" by (simp add: skirmish4_a_def late_states)
  then have "updateEnemies 0.1 skirmish4_a = skirmish4_boss"
    by (simp add: updateEnemies_def skirmish4_boss_step)
  then show ?thesis
    by (simp add: removeDeadEnemies_def skirmish4_boss_def late_states Enemy_new_def)
qed

lemma skirmish4_pickups: "updateChests 0.1 (updateExpOrbs 0.1 False skirmish4_boss) = skirmish4_boss"
  by (simp add: skirmish4_boss_def late_states model_defs spawnEnemy_def Let_def sqrt_32500 )

lemma skirmish4_particles: "updateParticles 0.1 skirmish4_boss = skirmish4_p"
  by (simp add: skirmish4_boss_def skirmish4_p_def late_states updateParticles_def warningRing_update)

lemma skirmish4_timers: "chestSpawnCheck 0.1 (spawnEnemies 0.1 skirmish4_p) = skirmish4"
  by (simp add: skirmish4_p_def skirmish4_def late_states spawnEnemies_def spawnEnemy_def chestSpawnCheck_def skip_def rnd_def randomFloat_def halves_def init_def Let_def)

lemma skirmish4_score: "updateScore (deathCheck (bossSpawnCheck skirmish4)) = skirmish4"
  by (simp add: skirmish4_def late_states updateScore_def deathCheck_def bossSpawnCheck_def Player_new_def init_def Let_def)

lemma skirmish4_frame: "update 0.1 {} skirmish3 = skirmish4"
  by (simp add: update_beforeBossCheck beforeBossCheck_def skirmish4_player skirmish4_enemies skirmish4_pickups skirmish4_particles skirmish4_timers skirmish4_score)

lemma skirmish5_player: "levelUpCheck (updatePlayer 0.1 {} (skirmish4\<lparr>g_survivalTime := g_survivalTime skirmish4 + 0.1\<rparr>)) = skirmish5_a"
  by (simp add: skirmish4_def skirmish5_a_def late_states model_defs spawnEnemy_def Let_def sqrt_32500 )

lemma skirmish5_boss_move: "enemyContact 41 (enemyMove 0.1 41 skirmish5_a) = skirmish5_boss"
  by (simp add: skirmish5_a_def skirmish5_boss_def late_states model_defs spawnEnemy_def Let_def sqrt_32500 )

lemma skirmish5_boss_weapons: "enemyWeapons 41 skirmish5_boss = skirmish5_boss"
  by (rule enemyWeapons_far_below) (simp_all add: skirmish5_boss_def late_states Player_new_def Enemy_new_def)

lemma skirmish5_boss_attack: "enemyAttack 41 skirmish5_boss = skirmish5_boss"
  by (simp add: skirmish5_boss_def late_states model_defs spawnEnemy_def Let_def sqrt_32500 )

lemma skirmish5_boss_step: "enemyStep 0.1 41 skirmish5_a = skirmish5_boss"
  by (simp add: enemyStep_def skirmish5_boss_move skirmish5_boss_weapons skirmish5_boss_attack)

lemma skirmish5_elite_move: "enemyContact 42 (enemyMove 0.1 42 skirmish5_boss) = skirmish5_elite"
  by (simp add: skirmish5_boss_def skirmish5_elite_def late_states model_defs spawnEnemy_def Let_def sqrt_32500 )

lemma skirmish5_elite_weapons: "enemyWeapons 42 skirmish5_elite = skirmish5_elite"
  by (rule enemyWeapons_far_below) (simp_all add: skirmish5_elite_def late_states Player_new_def Enemy_new_def)

lemma skirmish5_elite_attack: "enemyAttack 42 skirmish5_elite = skirmish5_elite"
  by (simp add: skirmish5_elite_def late_states model_defs spawnEnemy_def Let_def sqrt_32500 )

lemma skirmish5_elite_step: "enemyStep 0.1 42 skirmish5_boss = skirmish5_elite"
  by (simp add: enemyStep_def skirmish5_elite_move skirmish5_elite_weapons skirmish5_elite_attack)

lemma skirmish5_enemies: "removeDeadEnemies (updateEnemies 0.1 skirmish5_a) = skirmish5_elite"
proof -
  have "g_enemies skirmish5_a = [41, 42]" by (simp add: skirmish5_a_def late_states)
  then have "updateEnemies 0.1 skirmish5_a = skirmish5_elite"
    by (simp add: updateEnemies_def skirmish5_boss_step skirmish5_elite_step)
  then show ?thesis
    by (simp add: removeDeadEnemies_def skirmish5_elite_def late_states Enemy_new_def)
qed

lemma skirmish5_pickups: "updateChests 0.1 (updateExpOrbs 0.1 False skirmish5_elite) = skirmish5_elite"
  by (simp add: skirmish5_elite_def late_states model_defs spawnEnemy_def Let_def sqrt_32500 )

lemma skirmish5_particles: "updateParticles 0.1 skirmish5_elite = skirmish5_p"
  by (simp add: skirmish5_elite_def skirmish5_p_def late_states updateParticles_def warningRing_update)

lemma skirmish5_timers: "chestSpawnCheck 0.1 (spawnEnemies 0.1 skirmish5_p) = skirmish5"
  by (simp add: skirmish5_p_def skirmish5_def late_states spawnEnemies_def spawnEnemy_def chestSpawnCheck_def skip_def rnd_def randomFloat_def halves_def init_def Let_def)

lemma skirmish5_score: "updateScore (deathCheck (bossSpawnCheck skirmish5)) = skirmish5"
  by (simp add: skirmish5_def late_states updateScore_def deathCheck_def bossSpawnCheck_def Player_new_def init_def Let_def)

lemma skirmish5_frame: "update 0.1 {} skirmish4 = skirmish5"
  by (simp add: update_beforeBossCheck beforeBossCheck_def skirmish5_player skirmish5_enemies skirmish5_pickups skirmish5_particles skirmish5_timers skirmish5_score)

lemma skirmish6_player: "levelUpCheck (updatePlayer 0.1 {} (skirmish5\<lparr>g_survivalTime := g_survivalTime skirmish5 + 0.1\<rparr>)) = skirmish6_a"
  by (simp add: skirmish5_def skirmish6_a_def late_states model_defs spawnEnemy_def Let_def sqrt_32500 )

lemma skirmish6_boss_move: "enemyContact 41 (enemyMove 0.1 41 skirmish6_a) = skirmish6_boss"
  by (simp add: skirmish6_a_def skirmish6_boss_def late_states model_defs spawnEnemy_def Let_def sqrt_32500 )

lemma skirmish6_boss_weapons: "enemyWeapons 41 skirmish6_boss = skirmish6_boss"
  by (rule enemyWeapons_far_below) (simp_all add: skirmish6_boss_def late_states Player_new_def Enemy_new_def)

lemma skirmish6_boss_attack: "enemyAttack 41 skirmish6_boss = skirmish6_boss"
  by (simp add: skirmish6_boss_def late_states model_defs spawnEnemy_def Let_def sqrt_32500 )

lemma skirmish6_boss_step: "enemyStep 0.1 41 skirmish6_a = skirmish6_boss"
  by (simp add: enemyStep_def skirmish6_boss_move skirmish6_boss_weapons skirmish6_boss_attack)

lemma skirmish6_elite_move: "enemyContact 42 (enemyMove 0.1 42 skirmish6_boss) = skirmish6_elite"
  by (simp add: skirmish6_boss_def skirmish6_elite_def late_states model_defs spawnEnemy_def Let_def sqrt_32500 )

lemma skirmish6_elite_weapons: "enemyWeapons 42 skirmish6_elite = skirmish6_elite"
  by (rule enemyWeapons_far_below) (simp_all add: skirmish6_elite_def late_states Player_new_def Enemy_new_def)

lemma skirmish6_elite_attack: "enemyAttack 42 skirmish6_elite = skirmish6_elite"
  by (simp add: skirmish6_elite_def late_states model_defs spawnEnemy_def Let_def sqrt_32500 )

lemma skirmish6_elite_step: "enemyStep 0.1 42 skirmish6_boss = skirmish6_elite"
  by (simp add: enemyStep_def skirmish6_elite_move skirmish6_elite_weapons skirmish6_elite_attack)

lemma skirmish6_enemies: "removeDeadEnemies (updateEnemies 0.1 skirmish6_a) = skirmish6_elite"
proof -
  have "g_enemies skirmish6_a = [41, 42]" by (simp add: skirmish6_a_def late_states)
  then have "updateEnemies 0.1 skirmish6_a = skirmish6_elite"
    by (simp add: updateEnemies_def skirmish6_boss_step skirmish6_elite_step)
  then show ?thesis
    by (simp add: removeDeadEnemies_def skirmish6_elite_def late_states Enemy_new_def)
qed

lemma skirmish6_pickups: "updateChests 0.1 (updateExpOrbs 0.1 False skirmish6_elite) = skirmish6_elite"
  by (simp add: skirmish6_elite_def late_states model_defs spawnEnemy_def Let_def sqrt_32500 )

lemma skirmish6_particles: "updateParticles 0.1 skirmish6_elite = skirmish6_p"
  by (simp add: skirmish6_elite_def skirmish6_p_def late_states updateParticles_def warningRing_update)

lemma skirmish6_timers: "chestSpawnCheck 0.1 (spawnEnemies 0.1 skirmish6_p) = skirmish6"
  by (simp add: skirmish6_p_def skirmish6_def late_states spawnEnemies_def spawnEnemy_def chestSpawnCheck_def skip_def rnd_def randomFloat_def halves_def init_def Let_def)

lemma skirmish6_score: "updateScore (deathCheck (bossSpawnCheck skirmish6)) = skirmish6"
  by (simp add: skirmish6_def late_states updateScore_def deathCheck_def bossSpawnCheck_def Player_new_def init_def Let_def)

lemma skirmish6_frame: "update 0.1 {} skirmish5 = skirmish6"
  by (simp add: update_beforeBossCheck beforeBossCheck_def skirmish6_player skirmish6_enemies skirmish6_pickups skirmish6_particles skirmish6_timers skirmish6_score)

lemma skirmish7_player: "levelUpCheck (updatePlayer 0.1 {} (skirmish6\<lparr>g_survivalTime := g_survivalTime skirmish6 + 0.1\<rparr>)) = skirmish7_a"
  by (simp add: skirmish6_def skirmish7_a_def late_states model_defs spawnEnemy_def Let_def sqrt_32500 )

lemma skirmish7_boss_move: "enemyContact 41 (enemyMove 0.1 41 skirmish7_a) = skirmish7_boss"
  by (simp add: skirmish7_a_def skirmish7_boss_def late_states model_defs spawnEnemy_def Let_def sqrt_32500 )

lemma skirmish7_boss_weapons: "enemyWeapons 41 skirmish7_boss = skirmish7_boss"
  by (rule enemyWeapons_far_below) (simp_all add: skirmish7_boss_def late_states Player_new_def Enemy_new_def)

lemma skirmish7_boss_attack: "enemyAttack 41 skirmish7_boss = skirmish7_boss"
  by (simp add: skirmish7_boss_def late_states model_defs spawnEnemy_def Let_def sqrt_32500 )

lemma skirmish7_boss_step: "enemyStep 0.1 41 skirmish7_a = skirmish7_boss"
  by (simp add: enemyStep_def skirmish7_boss_move skirmish7_boss_weapons skirmish7_boss_attack)

lemma skirmish7_elite_move: "enemyContact 42 (enemyMove 0.1 42 skirmish7_boss) = skirmish7_elite"
  by (simp add: skirmish7_boss_def skirmish7_elite_def late_states model_defs spawnEnemy_def Let_def sqrt_32500 )

lemma skirmish7_elite_weapons: "enemyWeapons 42 skirmish7_elite = skirmish7_elite"
  by (rule enemyWeapons_far_below) (simp_all add: skirmish7_elite_def late_states Player_new_def Enemy_new_def)

lemma skirmish7_elite_attack: "enemyAttack 42 skirmish7_elite = skirmish7_elite"
  by (simp add: skirmish7_elite_def late_states model_defs spawnEnemy_def Let_def sqrt_32500 )

lemma skirmish7_elite_step: "enemyStep 0.1 42 skirmish7_boss = skirmish7_elite"
  by (simp add: enemyStep_def skirmish7_elite_move skirmish7_elite_weapons skirmish7_elite_attack)

lemma skirmish7_enemies: "removeDeadEnemies (updateEnemies 0.1 skirmish7_a) = skirmish7_elite"
proof -
  have "g_enemies skirmish7_a = [41, 42]" by (simp add: skirmish7_a_def late_states)
  then have "updateEnemies 0.1 skirmish7_a = skirmish7_elite"
    by (simp add: updateEnemies_def skirmish7_boss_step skirmish7_elite_step)
  then show ?thesis
    by (simp add: removeDeadEnemies_def skirmish7_elite_def late_states Enemy_new_def)
qed

lemma skirmish7_pickups: "updateChests 0.1 (updateExpOrbs 0.1 False skirmish7_elite) = skirmish7_elite"
  by (simp add: skirmish7_elite_def late_states model_defs spawnEnemy_def Let_def sqrt_32500 )

lemma skirmish7_particles: "updateParticles 0.1 skirmish7_elite = skirmish7_p"
  by (simp add: skirmish7_elite_def skirmish7_p_def late_states updateParticles_def warningRing_update)

lemma skirmish7_timers: "chestSpawnCheck 0.1 (spawnEnemies 0.1 skirmish7_p) = skirmish7"
  by (simp add: skirmish7_p_def skirmish7_def late_states spawnEnemies_def spawnEnemy_def chestSpawnCheck_def skip_def rnd_def randomFloat_def halves_def init_def Let_def)

lemma skirmish7_score: "updateScore (deathCheck (bossSpawnCheck skirmish7)) = skirmish7"
  by (simp add: skirmish7_def late_states updateScore_def deathCheck_def bossSpawnCheck_def Player_new_def init_def Let_def)

lemma skirmish7_frame: "update 0.1 {} skirmish6 = skirmish7"
  by (simp add: update_beforeBossCheck beforeBossCheck_def skirmish7_player skirmish7_enemies skirmish7_pickups skirmish7_particles skirmish7_timers skirmish7_score)

lemma skirmish8_player: "levelUpCheck (updatePlayer 0.1 {} (skirmish7\<lparr>g_survivalTime := g_survivalTime skirmish7 + 0.1\<rparr>)) = skirmish8_a"
  by (simp add: skirmish7_def skirmish8_a_def late_states model_defs spawnEnemy_def Let_def sqrt_32500 )

lemma skirmish8_boss_move: "enemyContact 41 (enemyMove 0.1 41 skirmish8_a) = skirmish8_boss"
  by (simp add: skirmish8_a_def skirmish8_boss_def late_states model_defs spawnEnemy_def Let_def sqrt_32500 )

lemma skirmish8_boss_weapons: "enemyWeapons 41 skirmish8_boss = skirmish8_boss"
  by (rule enemyWeapons_far_below) (simp_all add: skirmish8_boss_def late_states Player_new_def Enemy_new_def)

lemma skirmish8_boss_attack: "enemyAttack 41 skirmish8_boss = skirmish8_boss"
  by (simp add: skirmish8_boss_def late_states model_defs spawnEnemy_def Let_def sqrt_32500 )

lemma skirmish8_boss_step: "enemyStep 0.1 41 skirmish8_a = skirmish8_boss"
  by (simp add: enemyStep_def skirmish8_boss_move skirmish8_boss_weapons skirmish8_boss_attack)

lemma skirmish8_elite_move: "enemyContact 42 (enemyMove 0.1 42 skirmish8_boss) = skirmish8_elite"
  by (simp add: skirmish8_boss_def skirmish8_elite_def late_states model_defs spawnEnemy_def Let_def sqrt_32500 )

lemma skirmish8_elite_weapons: "enemyWeapons 42 skirmish8_elite = skirmish8_elite"
  by (rule enemyWeapons_far_below) (simp_all add: skirmish8_elite_def late_states Player_new_def Enemy_new_def)

lemma skirmish8_elite_attack: "enemyAttack 42 skirmish8_elite = skirmish8_elite"
  by (simp add: skirmish8_elite_def late_states model_defs spawnEnemy_def Let_def sqrt_32500 )

lemma skirmish8_elite_step: "enemyStep 0.1 42 skirmish8_boss = skirmish8_elite"
  by (simp add: enemyStep_def skirmish8_elite_move skirmish8_elite_weapons skirmish8_elite_attack)

lemma skirmish8_enemies: "removeDeadEnemies (updateEnemies 0.1 skirmish8_a) = skirmish8_elite"
proof -
  have "g_enemies skirmish8_a = [41, 42]" by (simp add: skirmish8_a_def late_states)
  then have "updateEnemies 0.1 skirmish8_a = skirmish8_elite"
    by (simp add: updateEnemies_def skirmish8_boss_step skirmish8_elite_step)
  then show ?thesis
    by (simp add: removeDeadEnemies_def skirmish8_elite_def late_states Enemy_new_def)
qed

lemma skirmish8_pickups: "updateChests 0.1 (updateExpOrbs 0.1 False skirmish8_elite) = skirmish8_elite"
  by (simp add: skirmish8_elite_def late_states model_defs spawnEnemy_def Let_def sqrt_32500 )

lemma skirmish8_particles: "updateParticles 0.1 skirmish8_elite = skirmish8_p"
  by (simp add: skirmish8_elite_def skirmish8_p_def late_states updateParticles_def warningRing_update)

lemma skirmish8_timers: "chestSpawnCheck 0.1 (spawnEnemies 0.1 skirmish8_p) = skirmish8"
  by (simp add: skirmish8_p_def skirmish8_def late_states spawnEnemies_def spawnEnemy_def chestSpawnCheck_def skip_def rnd_def randomFloat_def halves_def init_def Let_def)

lemma skirmish8_score: "updateScore (deathCheck (bossSpawnCheck skirmish8)) = skirmish8"
  by (simp add: skirmish8_def late_states updateScore_def deathCheck_def bossSpawnCheck_def Player_new_def init_def Let_def)

lemma skirmish8_frame: "update 0.1 {} skirmish7 = skirmish8"
  by (simp add: update_beforeBossCheck beforeBossCheck_def skirmish8_player skirmish8_enemies skirmish8_pickups skirmish8_particles skirmish8_timers skirmish8_score)

lemma frames_unfold:
  "frames 1 = [Frame 100 {}]"
  "frames (Suc 0) = [Frame 100 {}]"
  "frames 2 = [Frame 100 {}, Frame 100 {}]"
  "frames 3 = [Frame 100 {}, Frame 100 {}, Frame 100 {}]"
  "frames 7 = frames 3 @ [Frame 100 {}, Frame 100 {}, Frame 100 {}, Frame 100 {}]"
  "frames 8 = frames 3 @ [Frame 100 {}, Frame 100 {}, Frame 100 {}, Frame 100 {}, Frame 100 {}]"
  by (simp_all add: frames_def numeral_eq_Suc)

lemma step_frame: "g_state g = playing \<Longrightarrow> step (Frame 100 {}) g = update 0.1 {} g"
  by (simp add: gameLoop_def)

lemma late_steps:
  "step (Frame 100 {}) lateGame = lateGame1"
  "step (Frame 100 {}) lateGame1 = lateGame2"
  "step (Frame 100 {}) lateGame2 = skirmish3"
  "step (Frame 100 {}) skirmish3 = skirmish4"
  "step (Frame 100 {}) skirmish4 = skirmish5"
  "step (Frame 100 {}) skirmish5 = skirmish6"
  "step (Frame 100 {}) skirmish6 = skirmish7"
  "step (Frame 100 {}) skirmish7 = skirmish8"
proof -
  show "step (Frame 100 {}) lateGame = lateGame1"
    by (subst step_frame) (simp_all add: lateGame_frame1, simp add: lateGame_def init_def)
  show "step (Frame 100 {}) lateGame1 = lateGame2"
    by (subst step_frame) (simp_all add: lateGame_frame2, simp add: lateGame1_def lateGame_def init_def)
  show "step (Frame 100 {}) lateGame2 = skirmish3"
    by (subst step_frame) (simp_all add: skirmish3_frame, simp add: late_states init_def)
  show "step (Frame 100 {}) skirmish3 = skirmish4"
    by (subst step_frame) (simp_all add: skirmish4_frame, simp add: skirmish3_def late_states init_def)
  show "step (Frame 100 {}) skirmish4 = skirmish5"
    by (subst step_frame) (simp_all add: skirmish5_frame, simp add: skirmish4_def late_states init_def)
  show "step (Frame 100 {}) skirmish5 = skirmish6"
    by (subst step_frame) (simp_all add: skirmish6_frame, simp add: skirmish5_def late_states init_def)
  show "step (Frame 100 {}) skirmish6 = skirmish7"
    by (subst step_frame) (simp_all add: skirmish7_frame, simp add: skirmish6_def late_states init_def)
  show "step (Frame 100 {}) skirmish7 = skirmish8"
    by (subst step_frame) (simp_all add: skirmish8_frame, simp add: skirmish7_def late_states init_def)
qed

lemma late_execs:
  "exec (frames 1) lateGame = lateGame1"
  "exec (frames 2) lateGame = lateGame2"
  "exec (frames 3) lateGame = skirmish3"
  "exec (frames 7) lateGame = skirmish7"
  "exec (frames 8) lateGame = skirmish8"
  by (simp_all add: exec_def frames_unfold late_steps del: step.simps)

lemma warningRing_radius:
  "pt \<in> set (warningRing x y life) \<Longrightarrow> Utils_distance (pt_x pt) (pt_y pt) x y = 200"
proof -
  assume "pt \<in> set (warningRing x y life)"
  then obtain a where pt: "pt_x pt = x + cos a * 200" "pt_y pt = y + sin a * 200"
    by (auto simp add: warningRing_def Particle_new_def)
  have one: "(cos a)\<^sup>2 + (sin a)\<^sup>2 = 1" by simp
  have "(x - (x + cos a * 200))\<^sup>2 + (y - (y + sin a * 200))\<^sup>2 = 200\<^sup>2"
    using one by algebra
  then have "Utils_distance (pt_x pt) (pt_y pt) x y = sqrt (200\<^sup>2)"
    unfolding pt Utils_distance_def by (simp only:)
  then show ?thesis by simp
qed

text \<open>
  The session \<open>lateGame\<close>: no boss in the first frame, one boss at address 41 of
  \<^verbatim>\<open>this.enemies\<close> in the second, which takes the survival time to 120.05 s,
  and none in the third, although the condition still holds; and none in three
  more frames from the state after the second.
\<close>

theorem boss_spawned_once_witness:
  "wellFormed lateGame \<and> \<not> g_bossSpawned lateGame \<and>
   dueLog (frames 3) lateGame = [False, True, True] \<and>
   spawnLog (frames 3) lateGame = [0, 1, 0] \<and>
   g_enemies lateGame = [] \<and>
   g_enemies (exec (frames 1) lateGame) = [] \<and>
   g_enemies (exec (frames 2) lateGame) = [41] \<and>
   length (g_heap (exec (frames 1) lateGame)) = 41 \<and>
   g_heap (exec (frames 2) lateGame) ! 41 = Enemy_new 100 400 boss \<and>
   wellFormed lateGame2 \<and> g_bossSpawned lateGame2 \<and>
   spawnLog (frames 3) lateGame2 = [0, 0, 0]"
proof -
  have h1: "wellFormed lateGame"
    by (simp add: wellFormed_def lateGame_def init_def)
  have h2: "\<not> g_bossSpawned lateGame"
    by (simp add: lateGame_def init_def)
  have due: "dueLog (frames 3) lateGame = [False, True, True]"
    by (simp add: frames_unfold late_steps del: step.simps)
       (simp add: levelAfterCheck_def late_states init_def Player_new_def)
  have "spawnLog (frames 3) lateGame = firstOnly (dueLog (frames 3) lateGame)"
    using boss_spawned_once [of "frames 3" halves lateGame] h1 h2 by blast
  then have log: "spawnLog (frames 3) lateGame = [0, 1, 0]"
    by (simp add: due)
  have a: "g_enemies lateGame = []" "g_enemies (exec (frames 1) lateGame) = []"
    "g_enemies (exec (frames 2) lateGame) = [41]"
    "length (g_heap (exec (frames 1) lateGame)) = 41"
    "g_heap (exec (frames 2) lateGame) ! 41 = Enemy_new 100 400 boss"
    unfolding late_execs by (simp_all add: late_states init_def)
  have h3: "wellFormed lateGame2"
    by (simp add: wellFormed_def late_states init_def)
  have h4: "g_bossSpawned lateGame2"
    by (simp add: late_states init_def)
  have "spawnLog (frames 3) lateGame2 = replicate (length (frames 3)) 0"
    using boss_spawned_once [of "frames 3" halves lateGame2] h3 h4 by blast
  then have after: "spawnLog (frames 3) lateGame2 = [0, 0, 0]"
    by (simp add: frames_def numeral_eq_Suc)
  show ?thesis using h1 h2 due log a h3 h4 after by blast
qed

text \<open>
  C8. The claim is that the delayed resolution of a boss attack damages the
  player if and only if the player is then within 200 units of the position the
  boss had when it triggered the attack. The callback measures the distance to
  \<^verbatim>\<open>enemy.x, enemy.y\<close> at the time it runs, while the warning ring is drawn
  around the position at the trigger. In the session \<open>lateGame\<close> the boss
  triggers its attack in the third frame, at (100, 388), where the ring of
  radius 200 is drawn, and in the five frames (0.5 s) until the timer runs it
  walks on to (100, 328). The player stands at (100, 150) all the time, 238
  units from the position of the trigger and outside the ring, and is not
  invincible; when the timer runs the boss is 178 units away, and the player
  loses 15 hit points. The same happens when the timer runs one frame earlier.
\<close>

theorem boss_attack_resolved_at_current_position:
  "g_timers (exec (frames 2) lateGame) = [] \<and>
   g_timers (exec (frames 3) lateGame) = [BossAttackTimer 41] \<and>
   g_particles (exec (frames 3) lateGame) = warningRing 100 388 0.4 \<and>
   e_x (g_heap (exec (frames 3) lateGame) ! 41) = 100 \<and>
   e_y (g_heap (exec (frames 3) lateGame) ! 41) = 388 \<and>
   p_x (g_player (exec (frames 3) lateGame)) = 100 \<and>
   p_y (g_player (exec (frames 3) lateGame)) = 150 \<and>
   g_survivalTime (exec (frames 8) lateGame) - g_survivalTime (exec (frames 3) lateGame) = 0.5 \<and>
   p_x (g_player (exec (frames 8) lateGame)) = 100 \<and>
   p_y (g_player (exec (frames 8) lateGame)) = 150 \<and>
   e_x (g_heap (exec (frames 8) lateGame) ! 41) = 100 \<and>
   e_y (g_heap (exec (frames 8) lateGame) ! 41) = 328 \<and>
   Utils_distance (p_x (g_player (exec (frames 8) lateGame))) (p_y (g_player (exec (frames 8) lateGame)))
     (e_x (g_heap (exec (frames 3) lateGame) ! 41)) (e_y (g_heap (exec (frames 3) lateGame) ! 41)) = 238 \<and>
   Utils_distance (p_x (g_player (exec (frames 8) lateGame))) (p_y (g_player (exec (frames 8) lateGame)))
     (e_x (g_heap (exec (frames 8) lateGame) ! 41)) (e_y (g_heap (exec (frames 8) lateGame) ! 41)) = 178 \<and>
   p_invincible (g_player (exec (frames 8) lateGame)) = 0 \<and>
   p_hp (g_player (exec (frames 8) lateGame)) = 70 \<and>
   p_hp (g_player (exec (frames 8 @ [TimerFires 0]) lateGame)) = 55 \<and>
   p_hp (g_player (exec (frames 7 @ [TimerFires 0]) lateGame)) = 55"
proof -
  have d: "Utils_distance 100 150 100 388 = 238"
  proof -
    have "sqrt (238 * 238) = (238 :: real)" using real_sqrt_abs2 [of 238] by simp
    then show ?thesis by (simp add: Utils_distance_def)
  qed
  have d2: "Utils_distance 100 150 100 328 = 178"
  proof -
    have "sqrt (178 * 178) = (178 :: real)" using real_sqrt_abs2 [of 178] by simp
    then show ?thesis by (simp add: Utils_distance_def)
  qed
  have d3: "Utils_distance 100 150 100 340 = 190"
  proof -
    have "sqrt (190 * 190) = (190 :: real)" using real_sqrt_abs2 [of 190] by simp
    then show ?thesis by (simp add: Utils_distance_def)
  qed
  have fire: "exec (frames 8 @ [TimerFires 0]) lateGame = fireTimer 0 skirmish8"
    "exec (frames 7 @ [TimerFires 0]) lateGame = fireTimer 0 skirmish7"
    using late_execs by (simp_all add: exec_def)
  have hit: "p_hp (g_player (fireTimer 0 skirmish8)) = 55"
    by (simp add: fireTimer_def runTimer_def bossAttackResolve_def skirmish8_def late_states
        init_def Player_new_def Enemy_new_def Player_takeDamage_def Let_def d2)
  have hit7: "p_hp (g_player (fireTimer 0 skirmish7)) = 55"
    by (simp add: fireTimer_def runTimer_def bossAttackResolve_def skirmish7_def late_states
        init_def Player_new_def Enemy_new_def Player_takeDamage_def Let_def d3)
  have s2: "g_timers lateGame2 = []"
    by (simp add: late_states init_def)
  have s3: "g_timers skirmish3 = [BossAttackTimer 41]"
    "g_particles skirmish3 = warningRing 100 388 0.4"
    "e_x (g_heap skirmish3 ! 41) = 100" "e_y (g_heap skirmish3 ! 41) = 388"
    "p_x (g_player skirmish3) = 100" "p_y (g_player skirmish3) = 150"
    by (simp_all add: skirmish3_def late_states init_def Enemy_new_def Player_new_def)
  have s8: "g_survivalTime skirmish8 - g_survivalTime skirmish3 = 0.5"
    "p_x (g_player skirmish8) = 100" "p_y (g_player skirmish8) = 150"
    "e_x (g_heap skirmish8 ! 41) = 100" "e_y (g_heap skirmish8 ! 41) = 328"
    "p_invincible (g_player skirmish8) = 0" "p_hp (g_player skirmish8) = 70"
    by (simp_all add: skirmish8_def skirmish3_def late_states init_def Enemy_new_def Player_new_def)
  show ?thesis
    unfolding fire late_execs s3 s8 using d d2 hit hit7 s2 by blast
qed

section \<open>The grace window after a hit\<close>



lemma roundEven_of_int [simp]: "roundEven (of_int n) = n"
  by (simp add: roundEven_def)






lemma roundUnit_half [simp]: "roundUnit (1 / 2) = 1 / 2"
proof -
  have "(1 / 2 :: real) * 2 ^ 53 = of_int (2 ^ 52)" by simp
  then have "roundEven ((1 / 2) * 2 ^ 53) = 2 ^ 52" by (simp only: roundEven_of_int)
  then show ?thesis by (simp add: roundUnit_def)
qed

lemma roundBelow_numeral:
  "roundBelow (numeral k) x =
     (if 1 / 2 \<le> \<bar>x\<bar> then roundUnit x else roundBelow (pred_numeral k) (2 * x) / 2)"
  by (simp add: numeral_eq_Suc)







lemma Player_phases_hp [simp]:
  "p_hp (Player_keyboard keys p) = p_hp p"
  "p_hp (Player_pointer p) = p_hp p"
  "p_hp (Player_normalize p) = p_hp p"
  "p_hp (Player_integrate dt p) = p_hp p"
  "p_hp (Player_boundary R p) = p_hp p"
  "p_hp (Player_rotate dt p) = p_hp p"
  "p_hp (Player_buffs64 dt p) = p_hp p"
  "p_defenseRate (Player_keyboard keys p) = p_defenseRate p"
  "p_defenseRate (Player_pointer p) = p_defenseRate p"
  "p_defenseRate (Player_normalize p) = p_defenseRate p"
  "p_defenseRate (Player_integrate dt p) = p_defenseRate p"
  "p_defenseRate (Player_boundary R p) = p_defenseRate p"
  "p_defenseRate (Player_rotate dt p) = p_defenseRate p"
  "p_defenseRate (Player_buffs64 dt p) = p_defenseRate p"
  by (simp_all add: Player_keyboard_def Player_pointer_def Player_normalize_def
      Player_integrate_def Player_boundary_def Player_rotate_def Player_buffs64_def Let_def
      split: option.splits)



lemma roundBelow_zero [simp]: "roundBelow n 0 = 0"
  by (induction n) (simp_all add: roundUnit_def roundEven_def)

lemma fl64_zero [simp]: "fl64 0 = 0"
  by (simp add: fl64_def)

lemmas fl64_eval = dsub_def fl64_def roundBelow_numeral roundUnit_def roundEven_def Let_def

lemma countdown_steps:
  "dsub (1 / 2) d008 = 7566047373982433 / 2 ^ 54"
  "dsub (7566047373982433 / 2 ^ 54) d01 = 2882303761517117 / 2 ^ 53"
  "dsub (2882303761517117 / 2 ^ 53) d008 = 4323455642275675 / 2 ^ 54"
  "dsub (4323455642275675 / 2 ^ 54) d008 = 720575940379279 / 2 ^ 52"
  "dsub (720575940379279 / 2 ^ 52) d01 = 2161727821137835 / 2 ^ 55"
  "dsub (2161727821137835 / 2 ^ 55) d006 = 0"
  by (simp_all add: fl64_eval d008_def d01_def d006_def)

lemma frames_are_doubles:
  "fl64 d008 = d008" "fl64 d01 = d01" "fl64 d006 = d006"
  by (simp_all add: fl64_eval d008_def d01_def d006_def)

lemma frames_near_decimals:
  "\<bar>d008 - 0.08\<bar> < 1 / 10 ^ 17" "\<bar>d01 - 0.1\<bar> < 1 / 10 ^ 17" "\<bar>d006 - 0.06\<bar> < 1 / 10 ^ 15"
  by (simp_all add: d008_def d01_def d006_def)






end
